theory Spec2Isabelle
  imports Complex_Main "HOL-Library.Multiset" "HOL-Library.Sublist"
begin

section \<open>Values on the wire\<close>

text \<open>
  A JavaScript number is a double, an infinity or \<^verbatim>\<open>NaN\<close>. The operations below only
  subtract, add and compare numbers, so the finite doubles are idealised as reals (the
  order of finite doubles is the order of the reals they denote, and the sign of a
  difference of two doubles is the sign of the exact difference). \<^verbatim>\<open>JSON.parse\<close> yields
  an infinity for a literal beyond the range of the doubles, such as \<^verbatim>\<open>1e400\<close>, and never
  \<^verbatim>\<open>NaN\<close>.
\<close>

datatype jsnum = Fin real | PosInf | NegInf | NaN

text \<open>
  Request and response bodies are JSON values. An object is the list of its members in
  the order of the text.
\<close>

datatype json =
    JNull
  | JBool bool
  | JNum jsnum
  | JStr string
  | JArr "json list"
  | JObj "(string \<times> json) list"

text \<open>Property access \<^verbatim>\<open>obj[key]\<close>: \<open>None\<close> stands for \<^verbatim>\<open>undefined\<close>. Of a key that
  the text repeats \<^verbatim>\<open>JSON.parse\<close> keeps the last value.\<close>

fun get_prop :: "json \<Rightarrow> string \<Rightarrow> json option" where
  "get_prop (JObj kvs) k = map_of (rev kvs) k"
| "get_prop _ k = None"

text \<open>
  What the receiver reads out of \<^verbatim>\<open>JSON.stringify(v)\<close>: a number that is not finite is
  written as \<^verbatim>\<open>null\<close>.
\<close>

fun stringify :: "json \<Rightarrow> json" where
  "stringify (JNum (Fin r)) = JNum (Fin r)"
| "stringify (JNum x) = JNull"
| "stringify (JArr xs) = JArr (map stringify xs)"
| "stringify (JObj kvs) = JObj (map (\<lambda>kv. (fst kv, stringify (snd kv))) kvs)"
| "stringify v = v"

text \<open>Decimal rendering of a status code in a template string.\<close>

fun digit_chars :: "nat \<Rightarrow> string" where
  "digit_chars n =
     (if n < 10 then [char_of (48 + n)]
      else digit_chars (n div 10) @ [char_of (48 + n mod 10)])"

declare digit_chars.simps [simp del]

text \<open>\<^verbatim>\<open>haystack.includes(needle)\<close>.\<close>

fun str_includes :: "string \<Rightarrow> string \<Rightarrow> bool" where
  "str_includes [] needle = (needle = [])"
| "str_includes (c # cs) needle = (take (length needle) (c # cs) = needle \<or> str_includes cs needle)"

section \<open>Errors (errors.ts)\<close>

text \<open>
  Every class of the error hierarchy is a constructor carrying the message; the generic
  \<^verbatim>\<open>PlankaError\<close> also carries the status. \<open>ZodError\<close>, \<open>SyntaxError\<close> and
  \<open>TypeError\<close> are the untyped exceptions that validation, \<^verbatim>\<open>response.json()\<close> and
  the runtime (a property access on \<^verbatim>\<open>undefined\<close>, a conversion of an object that has
  no usable \<^verbatim>\<open>toString\<close>) raise, each with its message.
\<close>

datatype error =
    PlankaAuthError string
  | PlankaNotFoundError string
  | PlankaValidationError string
  | PlankaPermissionError string
  | PlankaConfigError string
  | PlankaNetworkError string
  | PlankaError string nat
  | ZodError string
  | SyntaxError string
  | TypeError string

fun status_of :: "error \<Rightarrow> nat option" where
  "status_of (PlankaAuthError m) = Some 401"
| "status_of (PlankaNotFoundError m) = Some 404"
| "status_of (PlankaValidationError m) = Some 422"
| "status_of (PlankaPermissionError m) = Some 403"
| "status_of (PlankaConfigError m) = Some 0"
| "status_of (PlankaNetworkError m) = Some 0"
| "status_of (PlankaError m st) = Some st"
| "status_of _ = None"

text \<open>
  The environment of the program: the three environment variables, the remote server,
  and the parts of the JavaScript runtime and of the validation library that are only
  used through their results (URL syntax, number formatting, e-mail syntax, the text of
  a validation error).
\<close>

text \<open>
  The body of an answer is JSON text, or text that \<^verbatim>\<open>response.json()\<close> rejects with a
  \<open>SyntaxError\<close> of some message (the message quotes the text).
\<close>

datatype payload = Json json | NotJson string

datatype fetch_result =
    Resp nat string payload
  | AbortError
  | FetchFailed

record http_req =
  meth :: string
  url :: string
  headers :: "(string \<times> string) list"
  body :: "json option"

record env =
  PLANKA_BASE_URL :: "string option"
  PLANKA_AGENT_EMAIL :: "string option"
  PLANKA_AGENT_PASSWORD :: "string option"
  url_ok :: "string \<Rightarrow> bool"
  server :: "http_req list \<Rightarrow> http_req \<Rightarrow> fetch_result \<times> nat"
  number_text :: "real \<Rightarrow> string"
  is_email :: "string \<Rightarrow> bool"
  zod_message :: "json option \<Rightarrow> string"

text \<open>
  \<^verbatim>\<open>String(v)\<close> for a JSON value; \<open>None\<close> when the conversion throws a \<open>TypeError\<close>.
  An object is converted by its \<^verbatim>\<open>toString\<close>: the inherited one gives
  \<^verbatim>\<open>[object Object]\<close>, but a member named \<^verbatim>\<open>toString\<close> hides it, is not callable, and
  \<^verbatim>\<open>valueOf\<close> does not yield a primitive either. An array joins the conversions of its
  elements, \<^verbatim>\<open>null\<close> giving the empty string.
\<close>

fun join :: "string \<Rightarrow> string list \<Rightarrow> string" where
  "join sep [] = ''''"
| "join sep [x] = x"
| "join sep (x # y # ys) = x @ sep @ join sep (y # ys)"

fun String_js :: "env \<Rightarrow> json \<Rightarrow> string option" where
  "String_js E JNull = Some ''null''"
| "String_js E (JBool b) = Some (if b then ''true'' else ''false'')"
| "String_js E (JNum x) =
     Some (case x of Fin r \<Rightarrow> number_text E r | PosInf \<Rightarrow> ''Infinity''
           | NegInf \<Rightarrow> ''-Infinity'' | NaN \<Rightarrow> ''NaN'')"
| "String_js E (JStr s) = Some s"
| "String_js E (JArr xs) =
     map_option (join '','')
       (those (map (\<lambda>x. if x = JNull then Some '''' else String_js E x) xs))"
| "String_js E (JObj kvs) =
     (if ''toString'' \<in> fst ` set kvs then None else Some ''[object Object]'')"

text \<open>
  The exception that \<^verbatim>\<open>throw createPlankaError(status, body, context)\<close> raises: the
  typed error, or the \<open>TypeError\<close> of \<^verbatim>\<open>String(body.message)\<close>.
\<close>

definition createPlankaError :: "env \<Rightarrow> nat \<Rightarrow> json \<Rightarrow> string \<Rightarrow> error" where
  "createPlankaError E status data context =
     (case (case get_prop data ''message'' of
              Some v \<Rightarrow> String_js E v
            | None \<Rightarrow> Some ''Unknown error'') of
        None \<Rightarrow> TypeError ''Cannot convert object to primitive value''
      | Some message \<Rightarrow>
          let contextSuffix = (if context \<noteq> [] then '' ('' @ context @ '')'' else '''')
          in if status = 401 then PlankaAuthError (message @ contextSuffix)
             else if status = 403 then PlankaPermissionError (message @ contextSuffix)
             else if status = 404 then
               PlankaNotFoundError (''Resource not found: '' @ (if context \<noteq> [] then context else ''unknown''))
             else if status = 422 then PlankaValidationError (message @ contextSuffix)
             else PlankaError (message @ contextSuffix) status)"

fun message_of :: "error \<Rightarrow> string" where
  "message_of (PlankaAuthError m) = m"
| "message_of (PlankaNotFoundError m) = m"
| "message_of (PlankaValidationError m) = m"
| "message_of (PlankaPermissionError m) = m"
| "message_of (PlankaConfigError m) = m"
| "message_of (PlankaNetworkError m) = m"
| "message_of (PlankaError m st) = m"
| "message_of (ZodError m) = m"
| "message_of (SyntaxError m) = m"
| "message_of (TypeError m) = m"

section \<open>The client (client.ts)\<close>

record ClientConfig =
  baseUrl :: string
  email :: string
  password :: string

text \<open>
  The singleton client (\<open>config\<close>, \<open>token\<close>, \<open>tokenExpiresAt\<close>) together with the two
  pieces of the outside world that change while it runs: the clock read by
  \<^verbatim>\<open>Date.now()\<close>, in milliseconds, and the requests handed to \<^verbatim>\<open>fetch\<close> so far.
\<close>

record state =
  config :: "ClientConfig option"
  token :: "string option"
  tokenExpiresAt :: nat
  now :: nat
  sent :: "http_req list"

type_synonym 'a io = "state \<Rightarrow> (error + 'a) \<times> state"

definition return :: "'a \<Rightarrow> 'a io" where
  "return x s = (Inr x, s)"

definition throw :: "error \<Rightarrow> 'a io" where
  "throw e s = (Inl e, s)"

definition bind :: "'a io \<Rightarrow> ('a \<Rightarrow> 'b io) \<Rightarrow> 'b io" where
  "bind m f s = (case m s of (Inl e, s') \<Rightarrow> (Inl e, s') | (Inr x, s') \<Rightarrow> f x s')"

definition try_catch :: "'a io \<Rightarrow> (error \<Rightarrow> 'a io) \<Rightarrow> 'a io" where
  "try_catch m h s = (case m s of (Inl e, s') \<Rightarrow> h e s' | (Inr x, s') \<Rightarrow> (Inr x, s'))"

text \<open>
  \<^verbatim>\<open>fetch\<close>: the server answers from the history of requests and the request itself,
  and the call takes some time.
\<close>

definition fetch :: "env \<Rightarrow> http_req \<Rightarrow> state \<Rightarrow> fetch_result \<times> state" where
  "fetch E r s =
     (case server E (sent s) r of
        (res, dt) \<Rightarrow> (res, s\<lparr>now := now s + dt, sent := sent s @ [r]\<rparr>))"

text \<open>JavaScript truthiness of an optional string.\<close>

fun truthy :: "string option \<Rightarrow> bool" where
  "truthy None = False"
| "truthy (Some v) = (v \<noteq> [])"

fun strip_slash :: "string \<Rightarrow> string" where
  "strip_slash [] = []"
| "strip_slash [c] = (if c = CHR ''/'' then [] else [c])"
| "strip_slash (c # d # cs) = c # strip_slash (d # cs)"

definition getConfig :: "env \<Rightarrow> error + ClientConfig" where
  "getConfig E =
     (let missing = (if \<not> truthy (PLANKA_BASE_URL E) then [''PLANKA_BASE_URL''] else [])
                  @ (if \<not> truthy (PLANKA_AGENT_EMAIL E) then [''PLANKA_AGENT_EMAIL''] else [])
                  @ (if \<not> truthy (PLANKA_AGENT_PASSWORD E) then [''PLANKA_AGENT_PASSWORD''] else [])
      in if length missing > 0 then
           Inl (PlankaConfigError (''Missing required environment variables: '' @ join '', '' missing))
         else
           (case (PLANKA_BASE_URL E, PLANKA_AGENT_EMAIL E, PLANKA_AGENT_PASSWORD E) of
              (Some b, Some e, Some p) \<Rightarrow>
                if \<not> url_ok E b then Inl (PlankaConfigError (''Invalid PLANKA_BASE_URL: '' @ b))
                else Inr \<lparr>baseUrl = strip_slash b, email = e, password = p\<rparr>
            | _ \<Rightarrow>
                Inl (PlankaConfigError (''Missing required environment variables: '' @ join '', '' missing))))"

definition this_getConfig :: "env \<Rightarrow> ClientConfig io" where
  "this_getConfig E s =
     (case config s of
        Some c \<Rightarrow> (Inr c, s)
      | None \<Rightarrow>
          (case getConfig E of
             Inl e \<Rightarrow> (Inl e, s)
           | Inr c \<Rightarrow> (Inr c, s\<lparr>config := Some c\<rparr>)))"

definition ok :: "nat \<Rightarrow> bool" where
  "ok status = (200 \<le> status \<and> status \<le> 299)"

text \<open>\<^verbatim>\<open>AuthResponse = z.object({ item: z.string() })\<close>.\<close>

fun AuthResponse_parse :: "json \<Rightarrow> string option" where
  "AuthResponse_parse (JObj kvs) =
     (case get_prop (JObj kvs) ''item'' of Some (JStr t) \<Rightarrow> Some t | _ \<Rightarrow> None)"
| "AuthResponse_parse _ = None"

definition auth_req :: "ClientConfig \<Rightarrow> http_req" where
  "auth_req cfg =
     \<lparr>meth = ''POST'', url = baseUrl cfg @ ''/api/access-tokens'',
      headers = [(''Content-Type'', ''application/json'')],
      body = Some (JObj [(''emailOrUsername'', JStr (email cfg)), (''password'', JStr (password cfg))])\<rparr>"

definition authenticate :: "env \<Rightarrow> string io" where
  "authenticate E =
     bind (this_getConfig E) (\<lambda>cfg s.
       case fetch E (auth_req cfg) s of
         (AbortError, s') \<Rightarrow>
           (Inl (PlankaNetworkError (''Request timeout connecting to PLANKA at '' @ baseUrl cfg)), s')
       | (FetchFailed, s') \<Rightarrow>
           (Inl (PlankaNetworkError (''Failed to connect to PLANKA at '' @ baseUrl cfg)), s')
       | (Resp status statusText data, s') \<Rightarrow>
           if \<not> ok status then
             (Inl (PlankaAuthError (''Authentication failed: '' @ digit_chars status @ '' '' @ statusText)), s')
           else
             (case data of
                NotJson m \<Rightarrow> (Inl (SyntaxError m), s')
              | Json d \<Rightarrow>
                  (case AuthResponse_parse d of
                     None \<Rightarrow> (Inl (ZodError (zod_message E (Some d))), s')
                   | Some item \<Rightarrow>
                       (Inr item, s'\<lparr>tokenExpiresAt := now s' + 25 * 60 * 1000, token := Some item\<rparr>))))"

definition getToken :: "env \<Rightarrow> string io" where
  "getToken E s =
     (if \<not> truthy (token s) \<or> now s \<ge> tokenExpiresAt s then authenticate E s
      else (Inr (the (token s)), s))"

definition safeParseJson :: "payload \<Rightarrow> json" where
  "safeParseJson data = (case data of Json d \<Rightarrow> d | NotJson m \<Rightarrow> JNull)"

text \<open>
  The request that \<^verbatim>\<open>request\<close> hands to \<^verbatim>\<open>fetch\<close>; its body is what the text
  \<^verbatim>\<open>JSON.stringify(body)\<close> denotes.
\<close>

definition api_req :: "ClientConfig \<Rightarrow> string \<Rightarrow> string \<Rightarrow> string \<Rightarrow> json option \<Rightarrow> http_req" where
  "api_req cfg tok method path b =
     \<lparr>meth = method, url = baseUrl cfg @ path,
      headers = [(''Authorization'', ''Bearer '' @ tok)]
                @ (if b \<noteq> None then [(''Content-Type'', ''application/json'')] else []),
      body = map_option stringify b\<rparr>"

text \<open>
  \<^verbatim>\<open>request(method, path, body, isRetry)\<close>. The result \<open>None\<close> is \<^verbatim>\<open>undefined\<close>
  (a 204 answer); a body that is not JSON is read as \<^verbatim>\<open>null\<close>.
\<close>

function request :: "env \<Rightarrow> string \<Rightarrow> string \<Rightarrow> json option \<Rightarrow> bool \<Rightarrow> (json option) io" where
  "request E method path b isRetry s =
     (case this_getConfig E s of
        (Inl e, s0) \<Rightarrow> (Inl e, s0)
      | (Inr cfg, s0) \<Rightarrow>
     (case getToken E s0 of
        (Inl e, s1) \<Rightarrow> (Inl e, s1)
      | (Inr tok, s1) \<Rightarrow>
     (case fetch E (api_req cfg tok method path b) s1 of
        (AbortError, s2) \<Rightarrow>
          (Inl (PlankaNetworkError (''Request timeout: '' @ method @ '' '' @ path)), s2)
      | (FetchFailed, s2) \<Rightarrow>
          (Inl (PlankaNetworkError (''Network error: '' @ method @ '' '' @ path)), s2)
      | (Resp status statusText raw, s2) \<Rightarrow>
          if status = 204 then (Inr None, s2)
          else
            let data = safeParseJson raw in
            if \<not> ok status then
              if status = 401 \<and> truthy (token s2) \<and> \<not> isRetry then
                request E method path b True (s2\<lparr>token := None, tokenExpiresAt := 0\<rparr>)
              else (Inl (createPlankaError E status data (method @ '' '' @ path)), s2)
            else (Inr (Some data), s2))))"
  by pat_completeness auto
termination
  by (relation "measure (\<lambda>(E, method, path, b, isRetry, s). if isRetry then 0 else 1)") auto

declare request.simps [simp del]

definition get :: "env \<Rightarrow> string \<Rightarrow> (json option) io" where
  "get E path = request E ''GET'' path None False"

definition post :: "env \<Rightarrow> string \<Rightarrow> json \<Rightarrow> (json option) io" where
  "post E path b = request E ''POST'' path (Some b) False"

definition patch :: "env \<Rightarrow> string \<Rightarrow> json \<Rightarrow> (json option) io" where
  "patch E path b = request E ''PATCH'' path (Some b) False"

definition delete :: "env \<Rightarrow> string \<Rightarrow> (json option) io" where
  "delete E path = request E ''DELETE'' path None False"

section \<open>Validation (the part of the schema library that the program uses)\<close>

text \<open>
  A schema parses a possibly absent value (\<open>None\<close> is \<^verbatim>\<open>undefined\<close>) and either
  yields the typed value or fails (\<open>None\<close>); the caller turns a failure into a
  \<open>ZodError\<close>.
\<close>

fun z_string :: "json option \<Rightarrow> string option" where
  "z_string (Some (JStr s)) = Some s"
| "z_string _ = None"

text \<open>\<^verbatim>\<open>z.number()\<close> accepts every number but \<^verbatim>\<open>NaN\<close>, the infinities too.\<close>

fun z_number :: "json option \<Rightarrow> jsnum option" where
  "z_number (Some (JNum NaN)) = None"
| "z_number (Some (JNum x)) = Some x"
| "z_number _ = None"

fun z_boolean :: "json option \<Rightarrow> bool option" where
  "z_boolean (Some (JBool b)) = Some b"
| "z_boolean _ = None"

text \<open>\<^verbatim>\<open>z.string().min(1)\<close>\<close>

definition z_string_min1 :: "json option \<Rightarrow> string option" where
  "z_string_min1 v = (case z_string v of Some s \<Rightarrow> if length s \<ge> 1 then Some s else None | None \<Rightarrow> None)"

text \<open>\<^verbatim>\<open>z.string().email()\<close>\<close>

definition z_email :: "env \<Rightarrow> json option \<Rightarrow> string option" where
  "z_email E v = (case z_string v of Some s \<Rightarrow> if is_email E s then Some s else None | None \<Rightarrow> None)"

definition z_enum :: "string list \<Rightarrow> json option \<Rightarrow> string option" where
  "z_enum options v = (case z_string v of Some s \<Rightarrow> if s \<in> set options then Some s else None | None \<Rightarrow> None)"

text \<open>\<^verbatim>\<open>schema.optional()\<close>, \<^verbatim>\<open>schema.nullable()\<close>, \<^verbatim>\<open>schema.nullable().optional()\<close>
  (the result does not tell \<^verbatim>\<open>null\<close> from \<^verbatim>\<open>undefined\<close>: no caller does) and
  \<^verbatim>\<open>schema.optional().default(d)\<close>.\<close>

definition z_optional :: "(json option \<Rightarrow> 'a option) \<Rightarrow> json option \<Rightarrow> 'a option option" where
  "z_optional p v = (case v of None \<Rightarrow> Some None | Some x \<Rightarrow> map_option Some (p v))"

definition z_nullable :: "(json option \<Rightarrow> 'a option) \<Rightarrow> json option \<Rightarrow> 'a option option" where
  "z_nullable p v = (case v of Some JNull \<Rightarrow> Some None | _ \<Rightarrow> map_option Some (p v))"

definition z_nullable_optional :: "(json option \<Rightarrow> 'a option) \<Rightarrow> json option \<Rightarrow> 'a option option" where
  "z_nullable_optional p v = (case v of None \<Rightarrow> Some None | Some x \<Rightarrow> z_nullable p v)"

definition z_optional_default :: "(json option \<Rightarrow> 'a option) \<Rightarrow> 'a \<Rightarrow> json option \<Rightarrow> 'a option" where
  "z_optional_default p d v = (case v of None \<Rightarrow> Some d | Some x \<Rightarrow> p v)"

definition z_array :: "(json option \<Rightarrow> 'a option) \<Rightarrow> json option \<Rightarrow> 'a list option" where
  "z_array p v = (case v of Some (JArr xs) \<Rightarrow> those (map (\<lambda>x. p (Some x)) xs) | _ \<Rightarrow> None)"

text \<open>\<^verbatim>\<open>z.object({...})\<close> starts from the properties of an object; \<^verbatim>\<open>z.record(z.any())\<close>
  accepts any object.\<close>

fun z_object :: "json option \<Rightarrow> (string \<rightharpoonup> json) option" where
  "z_object (Some (JObj kvs)) = Some (get_prop (JObj kvs))"
| "z_object _ = None"

definition z_record_any :: "json option \<Rightarrow> unit option" where
  "z_record_any v = map_option (\<lambda>f. ()) (z_object v)"

definition zod_parse :: "env \<Rightarrow> (json option \<Rightarrow> 'a option) \<Rightarrow> json option \<Rightarrow> 'a io" where
  "zod_parse E p v = (case p v of None \<Rightarrow> throw (ZodError (zod_message E v)) | Some x \<Rightarrow> return x)"

text \<open>\<^verbatim>\<open>JSON.stringify\<close> of an object literal leaves out the keys whose value is
  \<^verbatim>\<open>undefined\<close>.\<close>

definition json_obj :: "(string \<times> json option) list \<Rightarrow> json" where
  "json_obj kvs = JObj (List.map_filter (\<lambda>(k, v). map_option (Pair k) v) kvs)"

section \<open>Entities (schemas/entities.ts)\<close>

text \<open>
  The records keep the fields that the operations read; every field of a schema is
  validated, as the source does.
\<close>

definition CardTypeSchema :: "json option \<Rightarrow> string option" where
  "CardTypeSchema = z_enum [''project'', ''story'']"

definition LabelColor_options :: "string list" where
  "LabelColor_options =
     [''berry-red'', ''pumpkin-orange'', ''lagoon-blue'', ''pink-tulip'', ''light-mud'',
      ''orange-peel'', ''bright-moss'', ''antique-blue'', ''dark-granite'', ''lagune-blue'',
      ''sunny-grass'', ''morning-sky'', ''light-orange'', ''midnight-blue'', ''tank-green'',
      ''gun-metal'', ''wet-moss'', ''red-burgundy'', ''light-concrete'', ''apricot-red'',
      ''desert-sand'', ''navy-blue'', ''egg-yellow'', ''coral-green'', ''light-cocoa'',
      ''modern-green'', ''piggy-red'']"

definition LabelColorSchema :: "json option \<Rightarrow> string option" where
  "LabelColorSchema = z_enum LabelColor_options"

definition UserSchema :: "env \<Rightarrow> json option \<Rightarrow> unit option" where
  "UserSchema E v =
     Option.bind (z_object v) (\<lambda>f.
     Option.bind (z_string (f ''id'')) (\<lambda>i.
     Option.bind (z_optional (z_email E) (f ''email'')) (\<lambda>e.
     Option.bind (z_optional z_string (f ''username'')) (\<lambda>u.
     Option.bind (z_string (f ''name'')) (\<lambda>n.
     Option.bind (z_nullable_optional z_string (f ''avatarUrl'')) (\<lambda>a.
     Option.bind (z_string (f ''createdAt'')) (\<lambda>c.
     Option.bind (z_nullable_optional z_string (f ''updatedAt'')) (\<lambda>up. Some ()))))))))"

record project =
  project_id :: string
  project_name :: string

definition ProjectSchema :: "json option \<Rightarrow> project option" where
  "ProjectSchema v =
     Option.bind (z_object v) (\<lambda>f.
     Option.bind (z_string (f ''id'')) (\<lambda>i.
     Option.bind (z_string (f ''name'')) (\<lambda>n.
     Option.bind (z_nullable_optional z_string (f ''background'')) (\<lambda>b.
     Option.bind (z_nullable_optional z_string (f ''backgroundImage'')) (\<lambda>bi.
     Option.bind (z_string (f ''createdAt'')) (\<lambda>c.
     Option.bind (z_nullable_optional z_string (f ''updatedAt'')) (\<lambda>up.
       Some \<lparr>project_id = i, project_name = n\<rparr>)))))))"

record board =
  board_id :: string
  board_projectId :: string
  board_name :: string
  board_position :: jsnum

definition BoardSchema :: "json option \<Rightarrow> board option" where
  "BoardSchema v =
     Option.bind (z_object v) (\<lambda>f.
     Option.bind (z_string (f ''id'')) (\<lambda>i.
     Option.bind (z_string (f ''projectId'')) (\<lambda>p.
     Option.bind (z_string (f ''name'')) (\<lambda>n.
     Option.bind (z_number (f ''position'')) (\<lambda>pos.
     Option.bind (z_string (f ''createdAt'')) (\<lambda>c.
     Option.bind (z_nullable_optional z_string (f ''updatedAt'')) (\<lambda>up.
       Some \<lparr>board_id = i, board_projectId = p, board_name = n, board_position = pos\<rparr>)))))))"

record list_ =
  list_id :: string
  list_boardId :: string
  list_name :: "string option"
  list_position :: "jsnum option"

definition ListSchema :: "json option \<Rightarrow> list_ option" where
  "ListSchema v =
     Option.bind (z_object v) (\<lambda>f.
     Option.bind (z_string (f ''id'')) (\<lambda>i.
     Option.bind (z_string (f ''boardId'')) (\<lambda>b.
     Option.bind (z_nullable z_string (f ''name'')) (\<lambda>n.
     Option.bind (z_nullable z_number (f ''position'')) (\<lambda>pos.
     Option.bind (z_string (f ''createdAt'')) (\<lambda>c.
     Option.bind (z_nullable_optional z_string (f ''updatedAt'')) (\<lambda>up.
       Some \<lparr>list_id = i, list_boardId = b, list_name = n, list_position = pos\<rparr>)))))))"

record card =
  card_id :: string
  card_boardId :: string
  card_listId :: string
  card_name :: string
  card_description :: "string option"
  card_position :: jsnum
  card_type :: string
  card_dueDate :: "string option"
  card_isCompleted :: "bool option"

definition CardSchema :: "json option \<Rightarrow> card option" where
  "CardSchema v =
     Option.bind (z_object v) (\<lambda>f.
     Option.bind (z_string (f ''id'')) (\<lambda>i.
     Option.bind (z_string (f ''boardId'')) (\<lambda>b.
     Option.bind (z_string (f ''listId'')) (\<lambda>l.
     Option.bind (z_optional z_string (f ''creatorUserId'')) (\<lambda>cu.
     Option.bind (z_string (f ''name'')) (\<lambda>n.
     Option.bind (z_nullable_optional z_string (f ''description'')) (\<lambda>d.
     Option.bind (z_number (f ''position'')) (\<lambda>pos.
     Option.bind (CardTypeSchema (f ''type'')) (\<lambda>t.
     Option.bind (z_nullable_optional z_string (f ''dueDate'')) (\<lambda>due.
     Option.bind (z_optional z_boolean (f ''isDueDateCompleted'')) (\<lambda>dc.
     Option.bind (z_optional z_boolean (f ''isCompleted'')) (\<lambda>ic.
     Option.bind (z_string (f ''createdAt'')) (\<lambda>c.
     Option.bind (z_nullable_optional z_string (f ''updatedAt'')) (\<lambda>up.
       Some \<lparr>card_id = i, card_boardId = b, card_listId = l, card_name = n,
             card_description = d, card_position = pos, card_type = t, card_dueDate = due,
             card_isCompleted = ic\<rparr>))))))))))))))"

record taskList =
  taskList_id :: string
  taskList_cardId :: string
  taskList_name :: string
  taskList_position :: jsnum

definition TaskListSchema :: "json option \<Rightarrow> taskList option" where
  "TaskListSchema v =
     Option.bind (z_object v) (\<lambda>f.
     Option.bind (z_string (f ''id'')) (\<lambda>i.
     Option.bind (z_string (f ''cardId'')) (\<lambda>c.
     Option.bind (z_string (f ''name'')) (\<lambda>n.
     Option.bind (z_number (f ''position'')) (\<lambda>pos.
     Option.bind (z_optional z_boolean (f ''showOnFrontOfCard'')) (\<lambda>sf.
     Option.bind (z_string (f ''createdAt'')) (\<lambda>cr.
     Option.bind (z_nullable_optional z_string (f ''updatedAt'')) (\<lambda>up.
       Some \<lparr>taskList_id = i, taskList_cardId = c, taskList_name = n, taskList_position = pos\<rparr>))))))))"

record task =
  task_id :: string
  task_taskListId :: string
  task_name :: string
  task_position :: jsnum
  task_isCompleted :: bool

definition TaskSchema :: "json option \<Rightarrow> task option" where
  "TaskSchema v =
     Option.bind (z_object v) (\<lambda>f.
     Option.bind (z_string (f ''id'')) (\<lambda>i.
     Option.bind (z_string (f ''taskListId'')) (\<lambda>tl.
     Option.bind (z_string (f ''name'')) (\<lambda>n.
     Option.bind (z_number (f ''position'')) (\<lambda>pos.
     Option.bind (z_boolean (f ''isCompleted'')) (\<lambda>ic.
     Option.bind (z_nullable_optional z_string (f ''assigneeUserId'')) (\<lambda>au.
     Option.bind (z_string (f ''createdAt'')) (\<lambda>cr.
     Option.bind (z_nullable_optional z_string (f ''updatedAt'')) (\<lambda>up.
       Some \<lparr>task_id = i, task_taskListId = tl, task_name = n, task_position = pos,
             task_isCompleted = ic\<rparr>)))))))))"

record label =
  label_id :: string
  label_boardId :: string
  label_name :: "string option"
  label_color :: string
  label_position :: jsnum

text \<open>The colour of a label that is read is \<^verbatim>\<open>z.string()\<close>.\<close>

definition LabelSchema :: "json option \<Rightarrow> label option" where
  "LabelSchema v =
     Option.bind (z_object v) (\<lambda>f.
     Option.bind (z_string (f ''id'')) (\<lambda>i.
     Option.bind (z_string (f ''boardId'')) (\<lambda>b.
     Option.bind (z_nullable z_string (f ''name'')) (\<lambda>n.
     Option.bind (z_string (f ''color'')) (\<lambda>col.
     Option.bind (z_number (f ''position'')) (\<lambda>pos.
     Option.bind (z_string (f ''createdAt'')) (\<lambda>cr.
     Option.bind (z_nullable_optional z_string (f ''updatedAt'')) (\<lambda>up.
       Some \<lparr>label_id = i, label_boardId = b, label_name = n, label_color = col,
             label_position = pos\<rparr>))))))))"

record cardLabel =
  cardLabel_id :: string
  cardLabel_cardId :: string
  cardLabel_labelId :: string

definition CardLabelSchema :: "json option \<Rightarrow> cardLabel option" where
  "CardLabelSchema v =
     Option.bind (z_object v) (\<lambda>f.
     Option.bind (z_string (f ''id'')) (\<lambda>i.
     Option.bind (z_string (f ''cardId'')) (\<lambda>c.
     Option.bind (z_string (f ''labelId'')) (\<lambda>l.
     Option.bind (z_string (f ''createdAt'')) (\<lambda>cr.
     Option.bind (z_nullable_optional z_string (f ''updatedAt'')) (\<lambda>up.
       Some \<lparr>cardLabel_id = i, cardLabel_cardId = c, cardLabel_labelId = l\<rparr>))))))"

definition CommentSchema :: "json option \<Rightarrow> unit option" where
  "CommentSchema v =
     Option.bind (z_object v) (\<lambda>f.
     Option.bind (z_string (f ''id'')) (\<lambda>i.
     Option.bind (z_string (f ''cardId'')) (\<lambda>c.
     Option.bind (z_string (f ''userId'')) (\<lambda>u.
     Option.bind (z_string (f ''text'')) (\<lambda>t.
     Option.bind (z_string (f ''createdAt'')) (\<lambda>cr.
     Option.bind (z_nullable_optional z_string (f ''updatedAt'')) (\<lambda>up. Some ())))))))"

definition AttachmentSchema :: "json option \<Rightarrow> unit option" where
  "AttachmentSchema v =
     Option.bind (z_object v) (\<lambda>f.
     Option.bind (z_string (f ''id'')) (\<lambda>i.
     Option.bind (z_string (f ''cardId'')) (\<lambda>c.
     Option.bind (z_optional z_string (f ''creatorUserId'')) (\<lambda>u.
     Option.bind (z_string (f ''name'')) (\<lambda>n.
     Option.bind (z_optional z_string (f ''url'')) (\<lambda>ur.
     Option.bind (z_string (f ''createdAt'')) (\<lambda>cr.
     Option.bind (z_nullable_optional z_string (f ''updatedAt'')) (\<lambda>up. Some ()))))))))"

section \<open>Request schemas (schemas/requests.ts)\<close>

record CreateCardValidated =
  cc_listId :: string
  cc_name :: string
  cc_description :: "string option"
  cc_position :: jsnum
  cc_type :: string
  cc_dueDate :: "string option"

definition CreateCardSchema :: "json option \<Rightarrow> CreateCardValidated option" where
  "CreateCardSchema v =
     Option.bind (z_object v) (\<lambda>f.
     Option.bind (z_string (f ''listId'')) (\<lambda>l.
     Option.bind (z_string_min1 (f ''name'')) (\<lambda>n.
     Option.bind (z_optional z_string (f ''description'')) (\<lambda>d.
     Option.bind (z_optional_default z_number (Fin 65536) (f ''position'')) (\<lambda>pos.
     Option.bind (z_optional_default CardTypeSchema ''project'' (f ''type'')) (\<lambda>t.
     Option.bind (z_optional z_string (f ''dueDate'')) (\<lambda>due.
       Some \<lparr>cc_listId = l, cc_name = n, cc_description = d, cc_position = pos,
             cc_type = t, cc_dueDate = due\<rparr>)))))))"







record CreateLabelValidated =
  cl_boardId :: string
  cl_name :: string
  cl_color :: string
  cl_position :: jsnum

text \<open>The colour of a label that is written is \<^verbatim>\<open>LabelColorSchema\<close>.\<close>

definition CreateLabelSchema :: "json option \<Rightarrow> CreateLabelValidated option" where
  "CreateLabelSchema v =
     Option.bind (z_object v) (\<lambda>f.
     Option.bind (z_string (f ''boardId'')) (\<lambda>b.
     Option.bind (z_string_min1 (f ''name'')) (\<lambda>n.
     Option.bind (LabelColorSchema (f ''color'')) (\<lambda>col.
     Option.bind (z_optional_default z_number (Fin 65536) (f ''position'')) (\<lambda>pos.
       Some \<lparr>cl_boardId = b, cl_name = n, cl_color = col, cl_position = pos\<rparr>)))))"

record UpdateLabelValidated =
  ul_name :: "string option"
  ul_color :: "string option"
  ul_position :: "jsnum option"

definition UpdateLabelSchema :: "json option \<Rightarrow> UpdateLabelValidated option" where
  "UpdateLabelSchema v =
     Option.bind (z_object v) (\<lambda>f.
     Option.bind (z_optional z_string_min1 (f ''name'')) (\<lambda>n.
     Option.bind (z_optional LabelColorSchema (f ''color'')) (\<lambda>col.
     Option.bind (z_optional z_number (f ''position'')) (\<lambda>pos.
       Some \<lparr>ul_name = n, ul_color = col, ul_position = pos\<rparr>))))"

record AddLabelToCardValidated =
  al_cardId :: string
  al_labelId :: string

definition AddLabelToCardSchema :: "json option \<Rightarrow> AddLabelToCardValidated option" where
  "AddLabelToCardSchema v =
     Option.bind (z_object v) (\<lambda>f.
     Option.bind (z_string (f ''cardId'')) (\<lambda>c.
     Option.bind (z_string (f ''labelId'')) (\<lambda>l.
       Some \<lparr>al_cardId = c, al_labelId = l\<rparr>)))"

section \<open>Response schemas (schemas/responses.ts)\<close>

text \<open>The callers read \<open>item\<close> (or \<open>items\<close>) of a parsed response and nothing else.\<close>

definition SingleItemResponse :: "(json option \<Rightarrow> 'a option) \<Rightarrow> json option \<Rightarrow> 'a option" where
  "SingleItemResponse itemSchema v =
     Option.bind (z_object v) (\<lambda>f.
     Option.bind (itemSchema (f ''item'')) (\<lambda>item.
     Option.bind (z_optional z_record_any (f ''included'')) (\<lambda>inc. Some item)))"

definition MultiItemResponse :: "(json option \<Rightarrow> 'a option) \<Rightarrow> json option \<Rightarrow> 'a list option" where
  "MultiItemResponse itemSchema v =
     Option.bind (z_object v) (\<lambda>f.
     Option.bind (z_array itemSchema (f ''items'')) (\<lambda>items.
     Option.bind (z_optional z_record_any (f ''included'')) (\<lambda>inc. Some items)))"

record BoardIncluded =
  bi_lists :: "list_ list option"
  bi_cards :: "card list option"
  bi_labels :: "label list option"
  bi_cardLabels :: "cardLabel list option"
  bi_taskLists :: "taskList list option"
  bi_tasks :: "task list option"

definition BoardIncludedSchema :: "env \<Rightarrow> json option \<Rightarrow> BoardIncluded option" where
  "BoardIncludedSchema E v =
     Option.bind (z_object v) (\<lambda>f.
     Option.bind (z_optional (z_array ListSchema) (f ''lists'')) (\<lambda>ls.
     Option.bind (z_optional (z_array CardSchema) (f ''cards'')) (\<lambda>cs.
     Option.bind (z_optional (z_array LabelSchema) (f ''labels'')) (\<lambda>lbs.
     Option.bind (z_optional (z_array CardLabelSchema) (f ''cardLabels'')) (\<lambda>cls.
     Option.bind (z_optional (z_array TaskListSchema) (f ''taskLists'')) (\<lambda>tls.
     Option.bind (z_optional (z_array TaskSchema) (f ''tasks'')) (\<lambda>ts.
     Option.bind (z_optional (z_array (UserSchema E)) (f ''users'')) (\<lambda>us.
       Some \<lparr>bi_lists = ls, bi_cards = cs, bi_labels = lbs, bi_cardLabels = cls,
             bi_taskLists = tls, bi_tasks = ts\<rparr>))))))))"

record CardIncluded =
  ci_taskLists :: "taskList list option"
  ci_tasks :: "task list option"
  ci_labels :: "label list option"
  ci_cardLabels :: "cardLabel list option"

definition CardIncludedSchema :: "env \<Rightarrow> json option \<Rightarrow> CardIncluded option" where
  "CardIncludedSchema E v =
     Option.bind (z_object v) (\<lambda>f.
     Option.bind (z_optional (z_array TaskListSchema) (f ''taskLists'')) (\<lambda>tls.
     Option.bind (z_optional (z_array TaskSchema) (f ''tasks'')) (\<lambda>ts.
     Option.bind (z_optional (z_array CommentSchema) (f ''comments'')) (\<lambda>cms.
     Option.bind (z_optional (z_array LabelSchema) (f ''labels'')) (\<lambda>lbs.
     Option.bind (z_optional (z_array CardLabelSchema) (f ''cardLabels'')) (\<lambda>cls.
     Option.bind (z_optional (z_array AttachmentSchema) (f ''attachments'')) (\<lambda>ats.
     Option.bind (z_optional (z_array (UserSchema E)) (f ''users'')) (\<lambda>us.
       Some \<lparr>ci_taskLists = tls, ci_tasks = ts, ci_labels = lbs, ci_cardLabels = cls\<rparr>))))))))"

definition ProjectsIncludedSchema :: "env \<Rightarrow> json option \<Rightarrow> board list option option" where
  "ProjectsIncludedSchema E v =
     Option.bind (z_object v) (\<lambda>f.
     Option.bind (z_optional (z_array BoardSchema) (f ''boards'')) (\<lambda>bs.
     Option.bind (z_optional (z_array (UserSchema E)) (f ''users'')) (\<lambda>us. Some bs)))"

text \<open>JavaScript truthiness, \<^verbatim>\<open>x || []\<close> on an optional array, and
  \<^verbatim>\<open>response.included || {}\<close> on a response that is an object.\<close>

fun js_truthy :: "json \<Rightarrow> bool" where
  "js_truthy JNull = False"
| "js_truthy (JBool b) = b"
| "js_truthy (JNum x) = (x \<noteq> Fin 0 \<and> x \<noteq> NaN)"
| "js_truthy (JStr s) = (s \<noteq> [])"
| "js_truthy (JArr xs) = True"
| "js_truthy (JObj kvs) = True"

definition or_empty :: "'a list option \<Rightarrow> 'a list" where
  "or_empty xs = (case xs of Some ys \<Rightarrow> ys | None \<Rightarrow> [])"

definition included_or_empty :: "json option \<Rightarrow> json" where
  "included_or_empty response =
     (case response of
        Some r \<Rightarrow> (case get_prop r ''included'' of
                     Some inc \<Rightarrow> if js_truthy inc then inc else JObj []
                   | None \<Rightarrow> JObj [])
      | None \<Rightarrow> JObj [])"

section \<open>Numbers of comparators and \<^verbatim>\<open>Array.prototype.sort\<close>\<close>

text \<open>
  A comparator such as \<^verbatim>\<open>(a.position ?? Infinity) - (b.position ?? Infinity)\<close> computes
  with infinities, and the difference of two equal infinities is \<^verbatim>\<open>NaN\<close>.
\<close>

fun js_minus :: "jsnum \<Rightarrow> jsnum \<Rightarrow> jsnum" where
  "js_minus (Fin a) (Fin b) = Fin (a - b)"
| "js_minus (Fin a) PosInf = NegInf"
| "js_minus (Fin a) NegInf = PosInf"
| "js_minus PosInf (Fin b) = PosInf"
| "js_minus PosInf NegInf = PosInf"
| "js_minus PosInf PosInf = NaN"
| "js_minus NegInf (Fin b) = NegInf"
| "js_minus NegInf PosInf = NegInf"
| "js_minus NegInf NegInf = NaN"
| "js_minus NaN y = NaN"
| "js_minus x NaN = NaN"

text \<open>\<^verbatim>\<open>x ?? d\<close> on an optional number.\<close>

definition nullish :: "jsnum option \<Rightarrow> jsnum \<Rightarrow> jsnum" where
  "nullish x d = (case x of Some r \<Rightarrow> r | None \<Rightarrow> d)"

text \<open>
  \<^verbatim>\<open>sort\<close> reads a comparator's result as "a after b" when it is positive; \<^verbatim>\<open>NaN\<close>
  counts as zero. The sort is stable, and for a comparator that is consistent (all the
  comparators of this program subtract keys) every stable sort returns the same array,
  which is computed here by insertion.
\<close>

fun js_positive :: "jsnum \<Rightarrow> bool" where
  "js_positive (Fin r) = (r > 0)"
| "js_positive PosInf = True"
| "js_positive NegInf = False"
| "js_positive NaN = False"

fun js_insert :: "('a \<Rightarrow> 'a \<Rightarrow> jsnum) \<Rightarrow> 'a \<Rightarrow> 'a list \<Rightarrow> 'a list" where
  "js_insert cmp x [] = [x]"
| "js_insert cmp x (y # ys) =
     (if js_positive (cmp x y) then y # js_insert cmp x ys else x # y # ys)"

definition js_sort :: "('a \<Rightarrow> 'a \<Rightarrow> jsnum) \<Rightarrow> 'a list \<Rightarrow> 'a list" where
  "js_sort cmp xs = foldr (js_insert cmp) xs []"

definition by_position :: "('a \<Rightarrow> jsnum) \<Rightarrow> 'a \<Rightarrow> 'a \<Rightarrow> jsnum" where
  "by_position pos a b = js_minus (pos a) (pos b)"

fun for_each :: "('a \<Rightarrow> unit io) \<Rightarrow> 'a list \<Rightarrow> unit io" where
  "for_each f [] = return ()"
| "for_each f (x # xs) = bind (f x) (\<lambda>u. for_each f xs)"

section \<open>Board operations (operations/boards.ts)\<close>

record BoardDetails =
  bd_board :: board
  bd_lists :: "list_ list"
  bd_cards :: "card list"
  bd_labels :: "label list"
  bd_cardLabels :: "cardLabel list"
  bd_taskLists :: "taskList list"
  bd_tasks :: "task list"

record CardWithTaskCounts = card +
  taskCount :: nat
  completedTaskCount :: nat

definition BoardResponse :: "json option \<Rightarrow> board option" where
  "BoardResponse = SingleItemResponse BoardSchema"

definition list_cmp_infinity :: "list_ \<Rightarrow> list_ \<Rightarrow> jsnum" where
  "list_cmp_infinity a b = js_minus (nullish (list_position a) PosInf) (nullish (list_position b) PosInf)"

definition getBoard :: "env \<Rightarrow> string \<Rightarrow> BoardDetails io" where
  "getBoard E boardId =
     bind (get E (''/api/boards/'' @ boardId)) (\<lambda>response.
     bind (zod_parse E BoardResponse response) (\<lambda>item.
     bind (zod_parse E (BoardIncludedSchema E) (Some (included_or_empty response))) (\<lambda>included.
       return
         \<lparr>bd_board = item,
          bd_lists = js_sort list_cmp_infinity (or_empty (bi_lists included)),
          bd_cards = or_empty (bi_cards included),
          bd_labels = js_sort (by_position label_position) (or_empty (bi_labels included)),
          bd_cardLabels = or_empty (bi_cardLabels included),
          bd_taskLists = js_sort (by_position taskList_position) (or_empty (bi_taskLists included)),
          bd_tasks = or_empty (bi_tasks included)\<rparr>)))"

record counts =
  total :: nat
  completed :: nat

text \<open>The first loop: \<^verbatim>\<open>taskListToCard.set(taskList.id, taskList.cardId)\<close>.\<close>

definition build_taskListToCard :: "taskList list \<Rightarrow> (string \<rightharpoonup> string)" where
  "build_taskListToCard taskLists =
     fold (\<lambda>taskList m. m(taskList_id taskList \<mapsto> taskList_cardId taskList)) taskLists Map.empty"

text \<open>The body of the second loop; \<^verbatim>\<open>if (!cardId) continue\<close> skips a missing card id
  and an empty one.\<close>

definition count_task :: "(string \<rightharpoonup> string) \<Rightarrow> task \<Rightarrow> (string \<rightharpoonup> counts) \<Rightarrow> (string \<rightharpoonup> counts)" where
  "count_task taskListToCard t taskCountsByCard =
     (case taskListToCard (task_taskListId t) of
        None \<Rightarrow> taskCountsByCard
      | Some cardId \<Rightarrow>
          if cardId = [] then taskCountsByCard
          else
            let c0 = (case taskCountsByCard cardId of
                        Some c \<Rightarrow> c
                      | None \<Rightarrow> \<lparr>total = 0, completed = 0\<rparr>);
                c1 = c0\<lparr>total := total c0 + 1\<rparr>;
                c2 = (if task_isCompleted t then c1\<lparr>completed := completed c1 + 1\<rparr> else c1)
            in taskCountsByCard(cardId \<mapsto> c2))"

definition build_taskCountsByCard :: "(string \<rightharpoonup> string) \<Rightarrow> task list \<Rightarrow> (string \<rightharpoonup> counts)" where
  "build_taskCountsByCard taskListToCard tasks = fold (count_task taskListToCard) tasks Map.empty"

definition enrich_card :: "(string \<rightharpoonup> counts) \<Rightarrow> card \<Rightarrow> CardWithTaskCounts" where
  "enrich_card taskCountsByCard c =
     (let cs = (case taskCountsByCard (card_id c) of
                  Some x \<Rightarrow> x
                | None \<Rightarrow> \<lparr>total = 0, completed = 0\<rparr>)
      in card.extend c (CardWithTaskCounts.fields (total cs) (completed cs)))"

record BoardWithTaskCounts =
  wc_board :: board
  wc_lists :: "list_ list"
  wc_cards :: "CardWithTaskCounts list"
  wc_labels :: "label list"
  wc_cardLabels :: "cardLabel list"

definition with_task_counts :: "BoardDetails \<Rightarrow> BoardWithTaskCounts" where
  "with_task_counts details =
     (let taskListToCard = build_taskListToCard (bd_taskLists details);
          taskCountsByCard = build_taskCountsByCard taskListToCard (bd_tasks details);
          cardsWithCounts = map (enrich_card taskCountsByCard) (bd_cards details)
      in \<lparr>wc_board = bd_board details, wc_lists = bd_lists details, wc_cards = cardsWithCounts,
          wc_labels = bd_labels details, wc_cardLabels = bd_cardLabels details\<rparr>)"

definition getBoardWithTaskCounts :: "env \<Rightarrow> string \<Rightarrow> BoardWithTaskCounts io" where
  "getBoardWithTaskCounts E boardId =
     bind (getBoard E boardId) (\<lambda>details. return (with_task_counts details))"

section \<open>Card operations (operations/cards.ts)\<close>

text \<open>
  Of \<^verbatim>\<open>CardDetails\<close> the comments and attachments are validated and left out: no
  operation below reads them (the order of comments depends on \<^verbatim>\<open>Date\<close> parsing).
\<close>

record CardDetails =
  cd_card :: card
  cd_taskLists :: "taskList list"
  cd_tasks :: "task list"
  cd_labels :: "label list"
  cd_cardLabels :: "cardLabel list"

definition CardResponse :: "json option \<Rightarrow> card option" where
  "CardResponse = SingleItemResponse CardSchema"

definition createCard :: "env \<Rightarrow> json \<Rightarrow> card io" where
  "createCard E input =
     bind (zod_parse E CreateCardSchema (Some input)) (\<lambda>validated.
     bind (post E (''/api/lists/'' @ cc_listId validated @ ''/cards'')
             (json_obj [(''name'', Some (JStr (cc_name validated))),
                        (''description'', map_option JStr (cc_description validated)),
                        (''position'', Some (JNum (cc_position validated))),
                        (''type'', Some (JStr (cc_type validated))),
                        (''dueDate'', map_option JStr (cc_dueDate validated))])) (\<lambda>response.
     zod_parse E CardResponse response))"

definition getCard :: "env \<Rightarrow> string \<Rightarrow> CardDetails io" where
  "getCard E cardId =
     bind (get E (''/api/cards/'' @ cardId)) (\<lambda>response.
     bind (zod_parse E CardResponse response) (\<lambda>item.
     bind (zod_parse E (CardIncludedSchema E) (Some (included_or_empty response))) (\<lambda>included.
       return
         \<lparr>cd_card = item,
          cd_taskLists = js_sort (by_position taskList_position) (or_empty (ci_taskLists included)),
          cd_tasks = js_sort (by_position task_position) (or_empty (ci_tasks included)),
          cd_labels = or_empty (ci_labels included),
          cd_cardLabels = or_empty (ci_cardLabels included)\<rparr>)))"

section \<open>Label operations (operations/labels.ts)\<close>

definition LabelResponse :: "json option \<Rightarrow> label option" where
  "LabelResponse = SingleItemResponse LabelSchema"

definition CardLabelResponse :: "json option \<Rightarrow> cardLabel option" where
  "CardLabelResponse = SingleItemResponse CardLabelSchema"

definition createLabel :: "env \<Rightarrow> json \<Rightarrow> label io" where
  "createLabel E input =
     bind (zod_parse E CreateLabelSchema (Some input)) (\<lambda>validated.
     bind (post E (''/api/boards/'' @ cl_boardId validated @ ''/labels'')
             (json_obj [(''name'', Some (JStr (cl_name validated))),
                        (''color'', Some (JStr (cl_color validated))),
                        (''position'', Some (JNum (cl_position validated)))])) (\<lambda>response.
     zod_parse E LabelResponse response))"

definition updateLabel :: "env \<Rightarrow> string \<Rightarrow> json \<Rightarrow> label io" where
  "updateLabel E labelId input =
     bind (zod_parse E UpdateLabelSchema (Some input)) (\<lambda>validated.
     bind (patch E (''/api/labels/'' @ labelId)
             (json_obj [(''name'', map_option JStr (ul_name validated)),
                        (''color'', map_option JStr (ul_color validated)),
                        (''position'', map_option JNum (ul_position validated))])) (\<lambda>response.
     zod_parse E LabelResponse response))"

definition addLabelToCard :: "env \<Rightarrow> json \<Rightarrow> cardLabel io" where
  "addLabelToCard E input =
     bind (zod_parse E AddLabelToCardSchema (Some input)) (\<lambda>validated.
     bind (post E (''/api/cards/'' @ al_cardId validated @ ''/card-labels'')
             (json_obj [(''labelId'', Some (JStr (al_labelId validated)))])) (\<lambda>response.
     zod_parse E CardLabelResponse response))"

definition removeLabelFromCard :: "env \<Rightarrow> string \<Rightarrow> string \<Rightarrow> unit io" where
  "removeLabelFromCard E cardId labelId =
     bind (getCard E cardId) (\<lambda>cardDetails.
       case find (\<lambda>cl. cardLabel_labelId cl = labelId) (cd_cardLabels cardDetails) of
         None \<Rightarrow> return ()
       | Some cardLabel \<Rightarrow>
           try_catch
             (bind (delete E (''/api/card-labels/'' @ cardLabel_id cardLabel)) (\<lambda>r. return ()))
             (\<lambda>e. bind (delete E (''/api/cards/'' @ cardId @ ''/card-labels/'' @ cardLabel_id cardLabel))
                    (\<lambda>r. return ())))"

text \<open>The body of the second loop of \<^verbatim>\<open>setCardLabels\<close>.\<close>

definition add_label_step :: "env \<Rightarrow> string \<Rightarrow> string \<Rightarrow> unit io" where
  "add_label_step E cardId labelId =
     try_catch
       (bind (addLabelToCard E (JObj [(''cardId'', JStr cardId), (''labelId'', JStr labelId)]))
          (\<lambda>r. return ()))
       (\<lambda>error. if \<not> str_includes (message_of error) ''already'' then throw error else return ())"

text \<open>An absent and an empty array both skip their loop.\<close>

definition setCardLabels :: "env \<Rightarrow> string \<Rightarrow> string list option \<Rightarrow> string list option \<Rightarrow> unit io" where
  "setCardLabels E cardId addLabelIds removeLabelIds =
     bind (for_each (\<lambda>labelId. removeLabelFromCard E cardId labelId) (or_empty removeLabelIds)) (\<lambda>u.
     for_each (\<lambda>labelId. add_label_step E cardId labelId) (or_empty addLabelIds))"

section \<open>Task operations (operations/tasks.ts)\<close>








section \<open>Project operations (operations/projects.ts)\<close>

record BoardWithLists =
  bl_board :: board
  bl_lists :: "list_ list"

record ProjectStructure =
  ps_project :: project
  ps_boards :: "BoardWithLists list"

definition ProjectsResponse :: "json option \<Rightarrow> project list option" where
  "ProjectsResponse = MultiItemResponse ProjectSchema"

definition getProjects :: "env \<Rightarrow> (project list \<times> board list) io" where
  "getProjects E =
     bind (get E ''/api/projects'') (\<lambda>response.
     bind (zod_parse E ProjectsResponse response) (\<lambda>items.
     bind (zod_parse E (ProjectsIncludedSchema E) (Some (included_or_empty response))) (\<lambda>boards.
       return (items, or_empty boards))))"

text \<open>
  \<^verbatim>\<open>included?.lists ? z.array(...).parse(included.lists) : []\<close> on the raw answer; reading
  \<open>included\<close> off an answer that is \<^verbatim>\<open>undefined\<close> or \<^verbatim>\<open>null\<close> is a \<open>TypeError\<close>. The
  inline schema has the fields of \<open>ListSchema\<close>.
\<close>

definition structure_lists :: "env \<Rightarrow> json option \<Rightarrow> (list_ list) io" where
  "structure_lists E boardResponse =
     (case boardResponse of
        None \<Rightarrow> throw (TypeError ''Cannot read properties of undefined (reading 'included')'')
      | Some JNull \<Rightarrow> throw (TypeError ''Cannot read properties of null (reading 'included')'')
      | Some r \<Rightarrow>
          (case (case get_prop r ''included'' of
                   None \<Rightarrow> None
                 | Some JNull \<Rightarrow> None
                 | Some included \<Rightarrow> get_prop included ''lists'') of
             None \<Rightarrow> return []
           | Some ls \<Rightarrow>
               if js_truthy ls then zod_parse E (z_array ListSchema) (Some ls) else return []))"

definition list_cmp_zero :: "list_ \<Rightarrow> list_ \<Rightarrow> jsnum" where
  "list_cmp_zero a b = js_minus (nullish (list_position a) (Fin 0)) (nullish (list_position b) (Fin 0))"

fun boards_loop :: "env \<Rightarrow> board list \<Rightarrow> BoardWithLists list \<Rightarrow> (BoardWithLists list) io" where
  "boards_loop E [] boardsWithLists = return boardsWithLists"
| "boards_loop E (b # rest) boardsWithLists =
     bind (get E (''/api/boards/'' @ board_id b)) (\<lambda>boardResponse.
     bind (structure_lists E boardResponse) (\<lambda>lists.
       boards_loop E rest (boardsWithLists @ [\<lparr>bl_board = b, bl_lists = js_sort list_cmp_zero lists\<rparr>])))"

fun projects_loop :: "env \<Rightarrow> board list \<Rightarrow> project list \<Rightarrow> ProjectStructure list \<Rightarrow> (ProjectStructure list) io" where
  "projects_loop E boards [] structures = return structures"
| "projects_loop E boards (p # rest) structures =
     bind (boards_loop E (filter (\<lambda>b. board_projectId b = project_id p) boards) []) (\<lambda>boardsWithLists.
       projects_loop E boards rest
         (structures @ [\<lparr>ps_project = p,
                          ps_boards = js_sort (by_position (\<lambda>x. board_position (bl_board x))) boardsWithLists\<rparr>]))"

definition getStructure :: "env \<Rightarrow> string option \<Rightarrow> (ProjectStructure list) io" where
  "getStructure E projectId =
     bind (getProjects E) (\<lambda>(projects, boards).
       let targetProjects = (if truthy projectId
                             then filter (\<lambda>p. Some (project_id p) = projectId) projects
                             else projects)
       in projects_loop E boards targetProjects [])"

section \<open>The structure tool (tools/navigation.ts)\<close>

record FormattedList =
  fl_id :: string
  fl_name :: "string option"

record FormattedBoard =
  fb_id :: string
  fb_name :: string
  fb_lists :: "FormattedList list"

record FormattedProject =
  fp_project :: "string \<times> string"
  fp_boards :: "FormattedBoard list"

definition format_board :: "BoardWithLists \<Rightarrow> FormattedBoard" where
  "format_board b =
     \<lparr>fb_id = board_id (bl_board b), fb_name = board_name (bl_board b),
      fb_lists = map (\<lambda>l. \<lparr>fl_id = list_id l, fl_name = list_name l\<rparr>)
                   (filter (\<lambda>l. list_name l \<noteq> None) (bl_lists b))\<rparr>"

definition format_structure :: "ProjectStructure list \<Rightarrow> FormattedProject list" where
  "format_structure structure =
     map (\<lambda>p. \<lparr>fp_project = (project_id (ps_project p), project_name (ps_project p)),
               fp_boards = map format_board (ps_boards p)\<rparr>) structure"

text \<open>The handler returns the formatted value, serialised as text.\<close>

definition getStructureTool_handler :: "env \<Rightarrow> string option \<Rightarrow> (FormattedProject list) io" where
  "getStructureTool_handler E projectId =
     bind (getStructure E projectId) (\<lambda>structure. return (format_structure structure))"

section \<open>Reading the list of requests\<close>

text \<open>
  The authentication request is the one request without an \<^verbatim>\<open>Authorization\<close> header.
  \<open>api_calls\<close> lists method, URL and body of the other requests, in the order they were
  sent; \<open>base\<close> is the base URL once the configuration is resolved. \<open>sends_only P s s'\<close>
  says that from \<open>s\<close> to \<open>s'\<close> the list of requests has only grown, and that every call
  added is a call of some method, path and body that \<open>P\<close> admits.
\<close>

definition is_auth :: "http_req \<Rightarrow> bool" where
  "is_auth r = (map_of (headers r) ''Authorization'' = None)"

definition api_calls :: "http_req list \<Rightarrow> (string \<times> string \<times> json option) list" where
  "api_calls rs = map (\<lambda>r. (meth r, url r, body r)) (filter (\<lambda>r. \<not> is_auth r) rs)"

definition base :: "state \<Rightarrow> string" where
  "base s = (case config s of Some c \<Rightarrow> baseUrl c | None \<Rightarrow> [])"

definition sends_only :: "(string \<Rightarrow> string \<Rightarrow> json option \<Rightarrow> bool) \<Rightarrow> state \<Rightarrow> state \<Rightarrow> bool" where
  "sends_only P s s' =
     (\<exists>added. sent s' = sent s @ added
        \<and> (\<forall>(m, u, b)\<in>set (api_calls added). \<exists>p. u = base s' @ p \<and> P m p b)
        \<and> (api_calls added \<noteq> [] \<longrightarrow> config s' \<noteq> None)
        \<and> (\<forall>cfg. config s = Some cfg \<longrightarrow> config s' = Some cfg))"

section \<open>The order of positions\<close>

text \<open>The order of the numbers other than \<^verbatim>\<open>NaN\<close>.\<close>

fun js_le :: "jsnum \<Rightarrow> jsnum \<Rightarrow> bool" where
  "js_le NaN y = False"
| "js_le x NaN = False"
| "js_le NegInf y = True"
| "js_le x PosInf = True"
| "js_le (Fin a) (Fin b) = (a \<le> b)"
| "js_le x y = False"

text \<open>"a is not after b" for two optional positions, an absent position counting as
  positive infinity.\<close>

definition position_le :: "jsnum option \<Rightarrow> jsnum option \<Rightarrow> bool" where
  "position_le a b = js_le (nullish a PosInf) (nullish b PosInf)"

text \<open>\<^verbatim>\<open>taskCountsByCard.get(id) || { total: 0, completed: 0 }\<close>\<close>

definition counts_or_zero :: "(string \<rightharpoonup> counts) \<Rightarrow> string \<Rightarrow> counts" where
  "counts_or_zero m k = (case m k of Some c \<Rightarrow> c | None \<Rightarrow> \<lparr>total = 0, completed = 0\<rparr>)"


text \<open>The object \<open>kvs\<close> with the property \<open>k\<close> set to \<open>v\<close>: the value is replaced where the
  key occurs, and the member is added when it does not.\<close>

definition set_prop :: "string \<Rightarrow> json \<Rightarrow> (string \<times> json) list \<Rightarrow> (string \<times> json) list" where
  "set_prop k v kvs =
     (if k \<in> fst ` set kvs then map (\<lambda>kv. if fst kv = k then (k, v) else kv) kvs
      else kvs @ [(k, v)])"


text \<open>
  \<open>once_or_twice calls log\<close>: the log consists of the calls, in their order, each one once
  or twice in a row (the client sends a call a second time when the first attempt is
  answered 401), and of nothing else.
\<close>

fun once_or_twice :: "'a list \<Rightarrow> 'a list \<Rightarrow> bool" where
  "once_or_twice [] ys = (ys = [])"
| "once_or_twice (x # xs) [] = False"
| "once_or_twice (x # xs) (y # ys) =
     (x = y \<and> (once_or_twice xs ys
               \<or> (case ys of [] \<Rightarrow> False | y' # ys' \<Rightarrow> y' = x \<and> once_or_twice xs ys')))"

section \<open>Concrete environments\<close>

definition demo_env :: "(http_req list \<Rightarrow> http_req \<Rightarrow> fetch_result \<times> nat) \<Rightarrow> env" where
  "demo_env srv =
     \<lparr>PLANKA_BASE_URL = Some ''http://planka/'', PLANKA_AGENT_EMAIL = Some ''agent'',
      PLANKA_AGENT_PASSWORD = Some ''secret'', url_ok = (\<lambda>u. True), server = srv,
      number_text = (\<lambda>r. ''0''), is_email = (\<lambda>a. True), zod_message = (\<lambda>j. ''invalid input'')\<rparr>"

definition demo_cfg :: ClientConfig where
  "demo_cfg = \<lparr>baseUrl = ''http://planka'', email = ''agent'', password = ''secret''\<rparr>"

definition fresh_state :: state where
  "fresh_state = \<lparr>config = None, token = None, tokenExpiresAt = 0, now = 1000, sent = []\<rparr>"

text \<open>A server that issues tokens and rejects every other call with 401.\<close>

definition srv401 :: "http_req list \<Rightarrow> http_req \<Rightarrow> fetch_result \<times> nat" where
  "srv401 hist r =
     (if url r = ''http://planka/api/access-tokens''
      then (Resp 200 ''OK'' (Json (JObj [(''item'', JStr (if hist = [] then ''jwt-1'' else ''jwt-2''))])), 5)
      else (Resp 401 ''Unauthorized'' (Json (JObj [(''message'', JStr ''Token expired'')])), 5))"

definition card_req :: "string \<Rightarrow> http_req" where
  "card_req tok = api_req demo_cfg tok ''GET'' ''/api/cards/1'' None"

text \<open>A server that answers from a table of method, path and answer, and a client that
  is logged in.\<close>

definition srv_table :: "(string \<times> string \<times> fetch_result) list \<Rightarrow> http_req list \<Rightarrow> http_req \<Rightarrow> fetch_result \<times> nat" where
  "srv_table tbl hist r =
     (if url r = ''http://planka/api/access-tokens''
      then (Resp 200 ''OK'' (Json (JObj [(''item'', JStr ''jwt-1'')])), 5)
      else (case find (\<lambda>(m, u, res). m = meth r \<and> ''http://planka'' @ u = url r) tbl of
              Some (m, u, res) \<Rightarrow> (res, 5)
            | None \<Rightarrow> (Resp 404 ''Not Found'' (NotJson ''Unexpected end of JSON input''), 5)))"

definition card_json :: "string \<Rightarrow> string \<Rightarrow> json" where
  "card_json i t = JObj [(''id'', JStr i), (''boardId'', JStr ''B1''), (''listId'', JStr ''L1''),
      (''name'', JStr ''Write report''), (''position'', JNum (Fin 65536)), (''type'', JStr t),
      (''createdAt'', JStr ''2025-01-01T00:00:00.000Z'')]"

definition srv_create_card :: "http_req list \<Rightarrow> http_req \<Rightarrow> fetch_result \<times> nat" where
  "srv_create_card = srv_table [(''POST'', ''/api/lists/L1/cards'',
      Resp 200 ''OK'' (Json (JObj [(''item'', card_json ''C1'' ''project'')])))]"

definition logged_in :: state where
  "logged_in = \<lparr>config = Some demo_cfg, token = Some ''jwt-1'', tokenExpiresAt = 1501005, now = 1005, sent = []\<rparr>"

definition card_input :: json where
  "card_input = JObj [(''listId'', JStr ''L1''), (''name'', JStr ''Write report'')]"

definition create_card_body :: json where
  "create_card_body = JObj [(''name'', JStr ''Write report''), (''position'', JNum (Fin 65536)), (''type'', JStr ''project'')]"

definition label_json :: "string \<Rightarrow> json" where
  "label_json c = JObj [(''id'', JStr ''LB1''), (''boardId'', JStr ''B1''), (''name'', JStr ''Urgent''),
      (''color'', JStr c), (''position'', JNum (Fin 65536)), (''createdAt'', JStr ''2025-01-01T00:00:00.000Z'')]"

definition label_input :: "string \<Rightarrow> (string \<times> json) list" where
  "label_input c = [(''boardId'', JStr ''B1''), (''name'', JStr ''Urgent''), (''color'', JStr c)]"

text \<open>A board with three lists, two cards, two task lists and four tasks.\<close>

definition stamp :: "string \<times> json" where
  "stamp = (''createdAt'', JStr ''2025-01-01T00:00:00.000Z'')"

definition list_json :: "string \<Rightarrow> json \<Rightarrow> json \<Rightarrow> json" where
  "list_json i n p = JObj [(''id'', JStr i), (''boardId'', JStr ''B1''), (''name'', n), (''position'', p), stamp]"

definition taskList_json :: "string \<Rightarrow> string \<Rightarrow> real \<Rightarrow> json" where
  "taskList_json i c p = JObj [(''id'', JStr i), (''cardId'', JStr c), (''name'', JStr ''Tasks''),
      (''position'', JNum (Fin p)), stamp]"

definition task_json :: "string \<Rightarrow> string \<Rightarrow> bool \<Rightarrow> json" where
  "task_json i tlid dn = JObj [(''id'', JStr i), (''taskListId'', JStr tlid), (''name'', JStr ''Step''),
      (''position'', JNum (Fin 65536)), (''isCompleted'', JBool dn), stamp]"

definition board_response :: json where
  "board_response = JObj
     [(''item'', JObj [(''id'', JStr ''B1''), (''projectId'', JStr ''P1''), (''name'', JStr ''Dev''),
                       (''position'', JNum (Fin 65536)), stamp]),
      (''included'', JObj
        [(''lists'', JArr [list_json ''L3'' JNull JNull,
                           list_json ''L2'' (JStr ''Doing'') (JNum (Fin 131072)),
                           list_json ''L1'' (JStr ''Todo'') (JNum (Fin 65536))]),
         (''cards'', JArr [card_json ''C1'' ''project'', card_json ''C2'' ''story'']),
         (''taskLists'', JArr [taskList_json ''TL2'' ''C2'' 131072, taskList_json ''TL1'' ''C1'' 65536]),
         (''tasks'', JArr [task_json ''T1'' ''TL1'' True, task_json ''T2'' ''TL1'' False,
                           task_json ''T3'' ''TL2'' True, task_json ''T4'' ''TL9'' True])])]"

definition srv_board :: "http_req list \<Rightarrow> http_req \<Rightarrow> fetch_result \<times> nat" where
  "srv_board = srv_table [(''GET'', ''/api/boards/B1'', Resp 200 ''OK'' (Json board_response))]"

definition demo_card :: "string \<Rightarrow> string \<Rightarrow> card" where
  "demo_card i t = \<lparr>card_id = i, card_boardId = ''B1'', card_listId = ''L1'', card_name = ''Write report'',
         card_description = None, card_position = Fin 65536, card_type = t, card_dueDate = None,
         card_isCompleted = None\<rparr>"

definition demo_task :: "string \<Rightarrow> string \<Rightarrow> bool \<Rightarrow> task" where
  "demo_task i tlid dn = \<lparr>task_id = i, task_taskListId = tlid, task_name = ''Step'',
      task_position = Fin 65536, task_isCompleted = dn\<rparr>"

definition demo_taskList :: "string \<Rightarrow> string \<Rightarrow> real \<Rightarrow> taskList" where
  "demo_taskList i c p = \<lparr>taskList_id = i, taskList_cardId = c, taskList_name = ''Tasks'', taskList_position = Fin p\<rparr>"

definition demo_list :: "string \<Rightarrow> string option \<Rightarrow> jsnum option \<Rightarrow> list_" where
  "demo_list i n p = \<lparr>list_id = i, list_boardId = ''B1'', list_name = n, list_position = p\<rparr>"

definition board_details :: BoardDetails where
  "board_details =
     \<lparr>bd_board = \<lparr>board_id = ''B1'', board_projectId = ''P1'', board_name = ''Dev'', board_position = Fin 65536\<rparr>,
      bd_lists = [demo_list ''L1'' (Some ''Todo'') (Some (Fin 65536)), demo_list ''L2'' (Some ''Doing'') (Some (Fin 131072)),
                  demo_list ''L3'' None None],
      bd_cards = [demo_card ''C1'' ''project'', demo_card ''C2'' ''story''],
      bd_labels = [],
      bd_cardLabels = [],
      bd_taskLists = [demo_taskList ''TL1'' ''C1'' 65536, demo_taskList ''TL2'' ''C2'' 131072],
      bd_tasks = [demo_task ''T1'' ''TL1'' True, demo_task ''T2'' ''TL1'' False,
                  demo_task ''T3'' ''TL2'' True, demo_task ''T4'' ''TL9'' True]\<rparr>"

text \<open>A board whose answer gives one list no position and the other the position
  \<^verbatim>\<open>1e400\<close>, which \<^verbatim>\<open>JSON.parse\<close> reads as \<^verbatim>\<open>Infinity\<close>.\<close>

definition board_response_inf :: json where
  "board_response_inf = JObj
     [(''item'', JObj [(''id'', JStr ''B2''), (''projectId'', JStr ''P1''), (''name'', JStr ''Ops''),
                       (''position'', JNum (Fin 131072)), stamp]),
      (''included'', JObj
        [(''lists'', JArr [list_json ''L3'' JNull JNull,
                           list_json ''L4'' (JStr ''Later'') (JNum PosInf)])])]"

definition srv_board_inf :: "http_req list \<Rightarrow> http_req \<Rightarrow> fetch_result \<times> nat" where
  "srv_board_inf = srv_table [(''GET'', ''/api/boards/B2'', Resp 200 ''OK'' (Json board_response_inf))]"

definition board_details_inf :: BoardDetails where
  "board_details_inf =
     \<lparr>bd_board = \<lparr>board_id = ''B2'', board_projectId = ''P1'', board_name = ''Ops'',
                   board_position = Fin 131072\<rparr>,
      bd_lists = [demo_list ''L3'' None None, demo_list ''L4'' (Some ''Later'') (Some PosInf)],
      bd_cards = [], bd_labels = [], bd_cardLabels = [], bd_taskLists = [], bd_tasks = []\<rparr>"

text \<open>A board with one card, one task list and one completed task, the id of the card
  being the empty string.\<close>

definition board_response_noid :: json where
  "board_response_noid = JObj
     [(''item'', JObj [(''id'', JStr ''B3''), (''projectId'', JStr ''P1''), (''name'', JStr ''Inbox''),
                       (''position'', JNum (Fin 196608)), stamp]),
      (''included'', JObj
        [(''cards'', JArr [card_json '''' ''project'']),
         (''taskLists'', JArr [taskList_json ''TL1'' '''' 65536]),
         (''tasks'', JArr [task_json ''T1'' ''TL1'' True])])]"

definition srv_board_noid :: "http_req list \<Rightarrow> http_req \<Rightarrow> fetch_result \<times> nat" where
  "srv_board_noid = srv_table [(''GET'', ''/api/boards/B3'', Resp 200 ''OK'' (Json board_response_noid))]"

definition board_details_noid :: BoardDetails where
  "board_details_noid =
     \<lparr>bd_board = \<lparr>board_id = ''B3'', board_projectId = ''P1'', board_name = ''Inbox'',
                   board_position = Fin 196608\<rparr>,
      bd_lists = [], bd_cards = [demo_card '''' ''project''], bd_labels = [], bd_cardLabels = [],
      bd_taskLists = [demo_taskList ''TL1'' '''' 65536],
      bd_tasks = [demo_task ''T1'' ''TL1'' True]\<rparr>"

text \<open>A project with that board.\<close>

definition board_item_json :: json where
  "board_item_json = JObj [(''id'', JStr ''B1''), (''projectId'', JStr ''P1''), (''name'', JStr ''Dev''),
                       (''position'', JNum (Fin 65536)), stamp]"

definition projects_response :: json where
  "projects_response = JObj
     [(''items'', JArr [JObj [(''id'', JStr ''P1''), (''name'', JStr ''Platform''), stamp]]),
      (''included'', JObj [(''boards'', JArr [board_item_json])])]"

definition srv_structure :: "http_req list \<Rightarrow> http_req \<Rightarrow> fetch_result \<times> nat" where
  "srv_structure = srv_table
     [(''GET'', ''/api/projects'', Resp 200 ''OK'' (Json projects_response)),
      (''GET'', ''/api/boards/B1'', Resp 200 ''OK'' (Json board_response))]"

definition demo_board :: board where
  "demo_board = \<lparr>board_id = ''B1'', board_projectId = ''P1'', board_name = ''Dev'', board_position = Fin 65536\<rparr>"

definition demo_project :: project where
  "demo_project = \<lparr>project_id = ''P1'', project_name = ''Platform''\<rparr>"

definition projects_req :: http_req where
  "projects_req = api_req demo_cfg ''jwt-1'' ''GET'' ''/api/projects'' None"

definition board_req :: http_req where
  "board_req = api_req demo_cfg ''jwt-1'' ''GET'' ''/api/boards/B1'' None"

text \<open>Two cards, one with a label and no task list, one with two task lists.\<close>

definition cardLabel_json :: "string \<Rightarrow> string \<Rightarrow> string \<Rightarrow> json" where
  "cardLabel_json i c l = JObj [(''id'', JStr i), (''cardId'', JStr c), (''labelId'', JStr l), stamp]"

definition card_response_C1 :: json where
  "card_response_C1 = JObj
     [(''item'', card_json ''C1'' ''project''),
      (''included'', JObj [(''cardLabels'', JArr [cardLabel_json ''CL1'' ''C1'' ''LB1''])])]"

definition card_response_C2 :: json where
  "card_response_C2 = JObj
     [(''item'', card_json ''C2'' ''story''),
      (''included'', JObj [(''taskLists'', JArr [taskList_json ''TL2'' ''C2'' 131072,
                                                  taskList_json ''TL1'' ''C2'' 65536])])]"

definition srv_card :: "http_req list \<Rightarrow> http_req \<Rightarrow> fetch_result \<times> nat" where
  "srv_card = srv_table
     [(''GET'', ''/api/cards/C1'', Resp 200 ''OK'' (Json card_response_C1)),
      (''GET'', ''/api/cards/C2'', Resp 200 ''OK'' (Json card_response_C2)),
      (''DELETE'', ''/api/card-labels/CL1'', Resp 404 ''Not Found'' (NotJson ''Unexpected end of JSON input'')),
      (''DELETE'', ''/api/cards/C1/card-labels/CL1'', Resp 204 ''No Content'' (NotJson ''Unexpected end of JSON input'')),
      (''POST'', ''/api/cards/C1/task-lists'',
         Resp 200 ''OK'' (Json (JObj [(''item'', taskList_json ''TL9'' ''C1'' 65536)]))),
      (''POST'', ''/api/task-lists/TL9/tasks'',
         Resp 200 ''OK'' (Json (JObj [(''item'', task_json ''T9'' ''TL9'' False)]))),
      (''POST'', ''/api/task-lists/TL1/tasks'',
         Resp 200 ''OK'' (Json (JObj [(''item'', task_json ''T8'' ''TL1'' False)])))]"

definition demo_cardLabel :: "string \<Rightarrow> string \<Rightarrow> string \<Rightarrow> cardLabel" where
  "demo_cardLabel i c l = \<lparr>cardLabel_id = i, cardLabel_cardId = c, cardLabel_labelId = l\<rparr>"

definition demo_req :: "string \<Rightarrow> string \<Rightarrow> json option \<Rightarrow> http_req" where
  "demo_req m p b = api_req demo_cfg ''jwt-1'' m p b"

text \<open>A logged-in client at a later time, having sent some requests.\<close>

definition logged_in_at :: "nat \<Rightarrow> http_req list \<Rightarrow> state" where
  "logged_in_at t rs = \<lparr>config = Some demo_cfg, token = Some ''jwt-1'', tokenExpiresAt = 1501005, now = t, sent = rs\<rparr>"




text \<open>
  A reference server that keeps track of one label on one card: the label is attached at
  first, a DELETE of its junction record detaches it, and a POST to the card attaches it
  again. An attempt to attach it twice is answered 409. Card \<^verbatim>\<open>C9\<close> is on an archived board:
  a POST to it is answered 403, whatever the labels of the card.
\<close>

definition label_attached :: "http_req list \<Rightarrow> bool" where
  "label_attached hist =
     fold (\<lambda>r a. if meth r = ''DELETE'' \<and> url r = ''http://planka/api/card-labels/CL1'' then False
                  else if meth r = ''POST'' \<and> url r = ''http://planka/api/cards/C1/card-labels'' then True
                  else a) hist True"

definition srv_labels :: "http_req list \<Rightarrow> http_req \<Rightarrow> fetch_result \<times> nat" where
  "srv_labels hist r =
     (if url r = ''http://planka/api/access-tokens''
      then (Resp 200 ''OK'' (Json (JObj [(''item'', JStr ''jwt-1'')])), 5)
      else if meth r = ''GET'' \<and> url r = ''http://planka/api/cards/C1''
      then (Resp 200 ''OK'' (Json (JObj
              [(''item'', card_json ''C1'' ''project''),
               (''included'', JObj [(''cardLabels'',
                   JArr (if label_attached hist then [cardLabel_json ''CL1'' ''C1'' ''LB1''] else []))])])), 5)
      else if meth r = ''DELETE'' \<and> url r = ''http://planka/api/card-labels/CL1''
      then (if label_attached hist then Resp 204 ''No Content'' (NotJson ''Unexpected end of JSON input'') else Resp 404 ''Not Found'' (NotJson ''Unexpected end of JSON input''), 5)
      else if meth r = ''POST'' \<and> url r = ''http://planka/api/cards/C1/card-labels''
      then (if label_attached hist
            then Resp 409 ''Conflict'' (Json (JObj [(''message'', JStr ''Label already in card'')]))
            else Resp 200 ''OK'' (Json (JObj [(''item'', cardLabel_json ''CL1'' ''C1'' ''LB1'')])), 5)
      else if meth r = ''POST'' \<and> url r = ''http://planka/api/cards/C9/card-labels''
      then (Resp 403 ''Forbidden'' (Json (JObj [(''message'', JStr ''Board already archived'')])), 5)
      else (Resp 404 ''Not Found'' (NotJson ''Unexpected end of JSON input''), 5))"

definition add_body :: "string \<Rightarrow> json" where
  "add_body l = JObj [(''labelId'', JStr l)]"

section \<open>Reading properties\<close>

lemma get_prop_Cons:
  "get_prop (JObj ((k, v) # kvs)) k' =
     (if k' = k \<and> get_prop (JObj kvs) k = None then Some v else get_prop (JObj kvs) k')"
  by (auto simp: map_add_def split: option.splits)

lemma get_prop_absent: "get_prop (JObj kvs) k = None \<longleftrightarrow> k \<notin> fst ` set kvs"
  by (simp add: map_of_eq_None_iff)

section \<open>The client: token cache and retry\<close>



lemma this_getConfig_sent:
  "this_getConfig E s = (r, s') \<Longrightarrow> sent s' = sent s \<and> now s' = now s \<and> token s' = token s \<and> tokenExpiresAt s' = tokenExpiresAt s"
  by (auto simp: this_getConfig_def split: option.splits sum.splits)

lemma fetch_sent:
  "fetch E r s = (res, s') \<Longrightarrow> sent s' = sent s @ [r] \<and> token s' = token s \<and> tokenExpiresAt s' = tokenExpiresAt s \<and> config s' = config s"
  by (auto simp: fetch_def split: prod.splits)

lemma authenticate_Inr:
  assumes "authenticate E s = (Inr t, s')"
  shows "\<exists>cfg. sent s' = sent s @ [auth_req cfg] \<and> token s' = Some t \<and> tokenExpiresAt s' = now s' + 25 * 60 * 1000"
  using assms
  by (auto simp: authenticate_def bind_def split: prod.splits sum.splits fetch_result.splits if_splits option.splits payload.splits
       dest!: this_getConfig_sent fetch_sent)


lemma this_getConfig_memo:
  "this_getConfig E s = (Inr cfg, s0) \<Longrightarrow> config s0 = Some cfg"
  by (auto simp: this_getConfig_def split: option.splits sum.splits)

lemma this_getConfig_hit:
  "config s = Some cfg \<Longrightarrow> this_getConfig E s = (Inr cfg, s)"
  by (simp add: this_getConfig_def)

lemma authenticate_config:
  "authenticate E s = (r, s') \<Longrightarrow> config s = Some cfg \<Longrightarrow> config s' = Some cfg"
  by (auto simp: authenticate_def bind_def this_getConfig_def split: prod.splits sum.splits fetch_result.splits if_splits option.splits payload.splits
       dest!: fetch_sent)

lemma authenticate_req:
  "authenticate E s = (Inr t, s') \<Longrightarrow> config s = Some cfg \<Longrightarrow> sent s' = sent s @ [auth_req cfg]"
  by (auto simp: authenticate_def bind_def this_getConfig_def split: prod.splits sum.splits fetch_result.splits if_splits option.splits payload.splits
       dest!: fetch_sent)

lemma getToken_config:
  "getToken E s = (r, s') \<Longrightarrow> config s = Some cfg \<Longrightarrow> config s' = Some cfg"
  by (auto simp: getToken_def split: if_splits dest: authenticate_config)

lemma request_no_retry:
  assumes "this_getConfig E s = (Inr cfg, s0)"
    and "getToken E s0 = (Inr tok, s1)"
    and "fetch E (api_req cfg tok m p b) s1 = (Resp st txt raw, s2)"
    and "\<not> ok st"
    and "st \<noteq> 401 \<or> isRetry \<or> \<not> truthy (token s2)"
  shows "request E m p b isRetry s = (Inl (createPlankaError E st (safeParseJson raw) (m @ '' '' @ p)), s2)"
proof -
  have "st \<noteq> 204" using assms(4) by (auto simp: ok_def)
  then show ?thesis
    using assms by (subst request.simps) auto
qed

lemma request_ok:
  assumes "this_getConfig E s = (Inr cfg, s0)"
    and "getToken E s0 = (Inr tok, s1)"
    and "fetch E (api_req cfg tok m p b) s1 = (Resp st txt raw, s2)"
    and "ok st"
  shows "request E m p b isRetry s = (if st = 204 then Inr None else Inr (Some (safeParseJson raw)), s2)"
  using assms by (subst request.simps) auto

lemma request_retry_step:
  assumes "this_getConfig E s = (Inr cfg, s0)"
    and "getToken E s0 = (Inr tok, s1)"
    and "fetch E (api_req cfg tok m p b) s1 = (Resp 401 txt raw, s2)"
    and "truthy (token s2)"
  shows "request E m p b False s = request E m p b True (s2\<lparr>token := None, tokenExpiresAt := 0\<rparr>)"
  using assms by (subst request.simps) (auto simp: ok_def)

lemma request_path_config:
  assumes "this_getConfig E s = (Inr cfg, s0)"
    and "getToken E s0 = (Inr tok, s1)"
    and "fetch E r s1 = (res, s2)"
  shows "config (s2\<lparr>token := None, tokenExpiresAt := 0\<rparr>) = Some cfg"
  using assms by (auto dest!: this_getConfig_memo fetch_sent dest: getToken_config)

lemmas demo_defs = demo_env_def fresh_state_def demo_cfg_def auth_req_def api_req_def
  this_getConfig_def getConfig_def getToken_def authenticate_def bind_def fetch_def ok_def

text \<open>A message that cannot be converted makes the construction of the error throw.\<close>

lemma createPlankaError_unconvertible:
  "createPlankaError E 500 (JObj [(''message'', JObj [(''toString'', JNull)])]) ctx
     = TypeError ''Cannot convert object to primitive value''"
  by (simp add: createPlankaError_def)

section \<open>What a request adds to the list of requests\<close>

lemma is_auth_auth_req [simp]: "is_auth (auth_req cfg)"
  by (simp add: is_auth_def auth_req_def)

lemma is_auth_api_req [simp]: "\<not> is_auth (api_req cfg tok m p b)"
  by (simp add: is_auth_def api_req_def)

lemma api_calls_append [simp]: "api_calls (xs @ ys) = api_calls xs @ api_calls ys"
  by (simp add: api_calls_def)

lemma api_calls_Nil [simp]: "api_calls [] = []"
  by (simp add: api_calls_def)

lemma api_calls_auth [simp]: "api_calls (auth_req cfg # rs) = api_calls rs"
  by (simp add: api_calls_def)

lemma api_calls_api [simp]:
  "api_calls (api_req cfg tok m p b # rs) = (m, baseUrl cfg @ p, map_option stringify b) # api_calls rs"
proof -
  have "meth (api_req cfg tok m p b) = m" "url (api_req cfg tok m p b) = baseUrl cfg @ p"
    "body (api_req cfg tok m p b) = map_option stringify b"
    by (simp_all add: api_req_def)
  then show ?thesis by (simp add: api_calls_def)
qed

lemma this_getConfig_cases:
  assumes "this_getConfig E s = (r, s')"
  shows "(\<exists>e. r = Inl e \<and> s' = s) \<or> (\<exists>cfg. r = Inr cfg \<and> config s' = Some cfg \<and> s' = s\<lparr>config := Some cfg\<rparr>)"
proof (cases "config s")
  case (Some c)
  then show ?thesis using assms by (auto simp: this_getConfig_def)
next
  case None
  show ?thesis
  proof (cases "getConfig E")
    case (Inl e)
    then have "r = Inl e \<and> s' = s" using assms None by (simp add: this_getConfig_def)
    then show ?thesis by blast
  next
    case (Inr c)
    then show ?thesis using assms None by (auto simp add: this_getConfig_def)
  qed
qed

lemma this_getConfig_keeps:
  assumes "this_getConfig E s = (r, s')" "config s = Some cfg"
  shows "s' = s \<and> r = Inr cfg"
  using assms by (auto simp: this_getConfig_def)

text \<open>What \<open>authenticate\<close> does to the log.\<close>

lemma authenticate_log:
  assumes "authenticate E s = (r, s')"
  shows "\<exists>added. sent s' = sent s @ added \<and> api_calls added = []
           \<and> (\<forall>cfg. config s = Some cfg \<longrightarrow> config s' = Some cfg)
           \<and> ((\<exists>t. r = Inr t) \<longrightarrow> config s' \<noteq> None)"
  using assms
  by (auto simp: authenticate_def bind_def this_getConfig_def fetch_def split: prod.splits sum.splits fetch_result.splits if_splits option.splits payload.splits)

lemma getToken_log:
  assumes "getToken E s = (r, s')"
  shows "\<exists>added. sent s' = sent s @ added \<and> api_calls added = []
           \<and> (\<forall>cfg. config s = Some cfg \<longrightarrow> config s' = Some cfg)"
proof (cases "\<not> truthy (token s) \<or> now s \<ge> tokenExpiresAt s")
  case True
  then have "authenticate E s = (r, s')" using assms by (simp add: getToken_def)
  from authenticate_log[OF this] show ?thesis by blast
next
  case False
  then have "s' = s" using assms by (auto simp add: getToken_def)
  then show ?thesis by simp
qed

lemma base_config [simp]: "config s = Some cfg \<Longrightarrow> base s = baseUrl cfg"
  by (simp add: base_def)

lemma request_stage:
  assumes cfg: "this_getConfig E s = (Inr cfg, s0)"
    and tok: "getToken E s0 = (Inr tok, s1)"
    and f: "fetch E (api_req cfg tok m p b) s1 = (fr, s2)"
  shows "config s2 = Some cfg"
    and "\<exists>a. sent s2 = sent s @ a @ [api_req cfg tok m p b] \<and> api_calls a = []"
    and "token s2 = token s1"
proof -
  from this_getConfig_cases[OF cfg] have c0: "config s0 = Some cfg" and s0: "sent s0 = sent s"
    by auto
  from getToken_log[OF tok] c0 obtain a where a: "sent s1 = sent s0 @ a" "api_calls a = []"
    and c1: "config s1 = Some cfg" by blast
  from f have s2: "sent s2 = sent s1 @ [api_req cfg tok m p b]" "config s2 = config s1" "token s2 = token s1"
    by (auto simp: fetch_def split: prod.splits)
  show "config s2 = Some cfg" using s2 c1 by simp
  show "\<exists>a. sent s2 = sent s @ a @ [api_req cfg tok m p b] \<and> api_calls a = []"
    using s2 a s0 by simp
  show "token s2 = token s1" using s2 by simp
qed

lemma request_early:
  assumes "request E m p b isRetry s = (res, s')"
    and "\<not> (\<exists>cfg s0 tok s1. this_getConfig E s = (Inr cfg, s0) \<and> getToken E s0 = (Inr tok, s1))"
  shows "(\<exists>e. res = Inl e) \<and> (\<exists>a. sent s' = sent s @ a \<and> api_calls a = [])
         \<and> (\<forall>cfg. config s = Some cfg \<longrightarrow> config s' = Some cfg)"
proof (cases "this_getConfig E s")
  case (Pair r0 s0)
  show ?thesis
  proof (cases r0)
    case (Inl e)
    then have "res = Inl e" "s' = s0" using assms(1) Pair by (subst (asm) request.simps, simp)+
    moreover have "s0 = s" using this_getConfig_cases[OF Pair] Inl by auto
    ultimately show ?thesis by simp
  next
    case (Inr cfg)
    obtain r1 s1 where g: "getToken E s0 = (r1, s1)" by (cases "getToken E s0")
    from assms(2) Pair Inr g obtain e where e: "r1 = Inl e" by (cases r1) auto
    then have r: "res = Inl e" "s' = s1" using assms(1) Pair Inr g
      by (subst (asm) request.simps, simp)+
    from this_getConfig_cases[OF Pair] Inr have s0: "sent s0 = sent s" "config s0 = Some cfg"
      by auto
    have "\<forall>c. config s = Some c \<longrightarrow> c = cfg"
      using this_getConfig_keeps[OF Pair] Inr by auto
    with s0 have s0': "\<forall>c. config s = Some c \<longrightarrow> config s0 = Some c" by simp
    from getToken_log[OF g] s0 s0' r show ?thesis by auto
  qed
qed

lemma request_retry_log:
  assumes "request E m p b True s = (res, s')"
  shows "\<exists>added. sent s' = sent s @ added
     \<and> set (api_calls added) \<subseteq> {(m, base s' @ p, map_option stringify b)}
     \<and> length (api_calls added) \<le> 1
     \<and> ((\<exists>x. res = Inr x) \<longrightarrow> api_calls added \<noteq> [])
     \<and> (api_calls added \<noteq> [] \<longrightarrow> config s' \<noteq> None)
     \<and> (\<forall>cfg. config s = Some cfg \<longrightarrow> config s' = Some cfg)"
proof (cases "\<exists>cfg s0 tok s1. this_getConfig E s = (Inr cfg, s0) \<and> getToken E s0 = (Inr tok, s1)")
  case False
  from request_early[OF assms False] show ?thesis by auto
next
  case True
  then obtain cfg s0 tok s1 where c: "this_getConfig E s = (Inr cfg, s0)"
    and t: "getToken E s0 = (Inr tok, s1)" by blast
  obtain fr s2 where f: "fetch E (api_req cfg tok m p b) s1 = (fr, s2)"
    by (cases "fetch E (api_req cfg tok m p b) s1")
  have "s' = s2" using assms c t f
    by (subst (asm) request.simps) (auto split: fetch_result.splits if_splits simp: Let_def)
  moreover from request_stage[OF c t f] obtain a where "config s2 = Some cfg"
    "sent s2 = sent s @ a @ [api_req cfg tok m p b]" "api_calls a = []" by blast
  moreover have "\<forall>c'. config s = Some c' \<longrightarrow> c' = cfg"
    using this_getConfig_keeps[OF c] by auto
  ultimately show ?thesis by (intro exI[of _ "a @ [api_req cfg tok m p b]"]) auto
qed

lemma request_log:
  assumes "request E m p b isRetry s = (res, s')"
  shows "\<exists>added. sent s' = sent s @ added
     \<and> set (api_calls added) \<subseteq> {(m, base s' @ p, map_option stringify b)}
     \<and> length (api_calls added) \<le> 2
     \<and> ((\<exists>x. res = Inr x) \<longrightarrow> api_calls added \<noteq> [])
     \<and> (api_calls added \<noteq> [] \<longrightarrow> config s' \<noteq> None)
     \<and> (\<forall>cfg. config s = Some cfg \<longrightarrow> config s' = Some cfg)"
proof (cases "\<exists>cfg s0 tok s1. this_getConfig E s = (Inr cfg, s0) \<and> getToken E s0 = (Inr tok, s1)")
  case False
  from request_early[OF assms False] show ?thesis by auto
next
  case True
  then obtain cfg s0 tok s1 where c: "this_getConfig E s = (Inr cfg, s0)"
    and t: "getToken E s0 = (Inr tok, s1)" by blast
  obtain fr s2 where f: "fetch E (api_req cfg tok m p b) s1 = (fr, s2)"
    by (cases "fetch E (api_req cfg tok m p b) s1")
  from request_stage[OF c t f] obtain a where st: "config s2 = Some cfg"
    "sent s2 = sent s @ a @ [api_req cfg tok m p b]" "api_calls a = []" by blast
  have same: "\<forall>c'. config s = Some c' \<longrightarrow> c' = cfg"
    using this_getConfig_keeps[OF c] by auto
  let ?s = "s2\<lparr>token := None, tokenExpiresAt := 0\<rparr>"
  show ?thesis
  proof (cases "\<exists>txt raw. fr = Resp 401 txt raw \<and> truthy (token s2) \<and> \<not> isRetry")
    case True
    then have "request E m p b isRetry s = request E m p b True ?s"
      using c t f by (subst request.simps) (auto simp: ok_def)
    then have "request E m p b True ?s = (res, s')" using assms by simp
    from request_retry_log[OF this] obtain added where ad: "sent s' = sent ?s @ added"
      "set (api_calls added) \<subseteq> {(m, base s' @ p, map_option stringify b)}" "length (api_calls added) \<le> 1"
      "\<forall>cfg. config ?s = Some cfg \<longrightarrow> config s' = Some cfg" by blast
    then have "config s' = Some cfg" using st by simp
    then show ?thesis using ad st same
      by (intro exI[of _ "a @ [api_req cfg tok m p b] @ added"]) auto
  next
    case False
    then have "s' = s2" using assms c t f
      by (subst (asm) request.simps) (auto split: fetch_result.splits if_splits simp: Let_def)
    then show ?thesis using st same
      by (intro exI[of _ "a @ [api_req cfg tok m p b]"]) auto
  qed
qed

lemma zod_parse_state: "zod_parse E p v s = (r, s') \<Longrightarrow> s' = s"
  by (auto simp: zod_parse_def throw_def return_def split: option.splits)

lemma zod_parse_None: "p v = None \<Longrightarrow> zod_parse E p v s = (Inl (ZodError (zod_message E v)), s)"
  by (simp add: zod_parse_def throw_def)

lemma zod_parse_Some: "p v = Some x \<Longrightarrow> zod_parse E p v s = (Inr x, s)"
  by (simp add: zod_parse_def return_def)

lemma request_happy:
  assumes "config s = Some cfg" "token s = Some tok" "tok \<noteq> []" "now s < tokenExpiresAt s"
    and "server E (sent s) (api_req cfg tok m p b) = (Resp st txt raw, dt)"
    and "ok st"
  shows "request E m p b isRetry s
           = (if st = 204 then Inr None else Inr (Some (safeParseJson raw)),
              s\<lparr>now := now s + dt, sent := sent s @ [api_req cfg tok m p b]\<rparr>)"
  using assms
  by (subst request.simps) (simp add: this_getConfig_def getToken_def fetch_def)

section \<open>What an operation sends\<close>

lemma request_answer:
  assumes "config s = Some cfg" "token s = Some tok" "tok \<noteq> []" "now s < tokenExpiresAt s"
    and "server E (sent s) (api_req cfg tok m p b) = (Resp st txt raw, dt)"
    and "st \<noteq> 401"
  shows "request E m p b isRetry s
           = (if st = 204 then Inr None
              else if \<not> ok st then Inl (createPlankaError E st (safeParseJson raw) (m @ '' '' @ p))
              else Inr (Some (safeParseJson raw)),
              s\<lparr>now := now s + dt, sent := sent s @ [api_req cfg tok m p b]\<rparr>)"
  using assms
  by (subst request.simps) (simp add: this_getConfig_def getToken_def fetch_def)

lemma sends_only_refl [simp]: "sends_only P s s"
  by (simp add: sends_only_def)

lemma sends_only_mono:
  assumes "sends_only P s s'" "\<And>m p b. P m p b \<Longrightarrow> Q m p b"
  shows "sends_only Q s s'"
proof -
  from assms(1) obtain a where a: "sent s' = sent s @ a"
    "\<forall>(m, u, b)\<in>set (api_calls a). \<exists>p. u = base s' @ p \<and> P m p b"
    "api_calls a \<noteq> [] \<longrightarrow> config s' \<noteq> None"
    "\<forall>cfg. config s = Some cfg \<longrightarrow> config s' = Some cfg"
    unfolding sends_only_def by blast
  have "\<forall>(m, u, b)\<in>set (api_calls a). \<exists>p. u = base s' @ p \<and> Q m p b"
  proof (clarify)
    fix m u b assume "(m, u, b) \<in> set (api_calls a)"
    with a(2) obtain p where "u = base s' @ p" "P m p b" by auto
    with assms(2) show "\<exists>p. u = base s' @ p \<and> Q m p b" by blast
  qed
  with a(1,3,4) show ?thesis unfolding sends_only_def by (intro exI[of _ a]) simp
qed

lemma sends_only_trans:
  assumes "sends_only P s s1" "sends_only P s1 s2"
  shows "sends_only P s s2"
proof -
  from assms(1) obtain a where a: "sent s1 = sent s @ a"
    "\<forall>(m, u, b)\<in>set (api_calls a). \<exists>p. u = base s1 @ p \<and> P m p b"
    "api_calls a \<noteq> [] \<longrightarrow> config s1 \<noteq> None"
    "\<forall>cfg. config s = Some cfg \<longrightarrow> config s1 = Some cfg"
    unfolding sends_only_def by blast
  from assms(2) obtain c where c: "sent s2 = sent s1 @ c"
    "\<forall>(m, u, b)\<in>set (api_calls c). \<exists>p. u = base s2 @ p \<and> P m p b"
    "api_calls c \<noteq> [] \<longrightarrow> config s2 \<noteq> None"
    "\<forall>cfg. config s1 = Some cfg \<longrightarrow> config s2 = Some cfg"
    unfolding sends_only_def by blast
  have b: "api_calls a \<noteq> [] \<longrightarrow> base s1 = base s2"
    using a(3) c(4) by (auto simp: base_def)
  have "\<forall>(m, u, b)\<in>set (api_calls a). \<exists>p. u = base s2 @ p \<and> P m p b"
  proof (cases "api_calls a = []")
    case True
    then show ?thesis by simp
  next
    case False
    with b a(2) show ?thesis by simp
  qed
  moreover have "api_calls (a @ c) \<noteq> [] \<longrightarrow> config s2 \<noteq> None"
    using a(3) c(3,4) by auto
  ultimately show ?thesis
    unfolding sends_only_def using a c by (intro exI[of _ "a @ c"]) auto
qed

lemma sends_only_step:
  assumes "sends_only P s s1" "sends_only Q s1 s2"
  shows "sends_only (\<lambda>m p b. P m p b \<or> Q m p b) s s2"
proof -
  have 1: "sends_only (\<lambda>m p b. P m p b \<or> Q m p b) s s1"
    using assms(1) by (rule sends_only_mono) simp
  have 2: "sends_only (\<lambda>m p b. P m p b \<or> Q m p b) s1 s2"
    using assms(2) by (rule sends_only_mono) simp
  from 1 2 show ?thesis by (rule sends_only_trans)
qed

lemma request_sends:
  assumes "request E m p b isRetry s = (res, s')"
  shows "sends_only (\<lambda>m' p' b'. m' = m \<and> p' = p \<and> b' = map_option stringify b) s s'"
proof -
  from request_log[OF assms] obtain added where
    "sent s' = sent s @ added" "set (api_calls added) \<subseteq> {(m, base s' @ p, map_option stringify b)}"
    "api_calls added \<noteq> [] \<longrightarrow> config s' \<noteq> None"
    "\<forall>cfg. config s = Some cfg \<longrightarrow> config s' = Some cfg" by blast
  then show ?thesis unfolding sends_only_def
    apply (intro exI[of _ added] conjI)
       apply simp
      apply fastforce
     apply simp
    apply simp
    done
qed

text \<open>A successful request has sent its call.\<close>

lemma request_sent_call:
  assumes "request E m p b isRetry s = (Inr x, s')"
  shows "\<exists>added. sent s' = sent s @ added
           \<and> (m, base s' @ p, map_option stringify b) \<in> set (api_calls added)"
proof -
  from request_log[OF assms] obtain added where a:
    "sent s' = sent s @ added" "set (api_calls added) \<subseteq> {(m, base s' @ p, map_option stringify b)}"
    "api_calls added \<noteq> []" by blast
  then obtain c where c: "c \<in> set (api_calls added)" by (cases "api_calls added") auto
  with a(2) have "c = (m, base s' @ p, map_option stringify b)" by auto
  with c a(1) show ?thesis by (intro exI[of _ added]) simp
qed

lemma get_sends: "get E p s = (res, s') \<Longrightarrow> sends_only (\<lambda>m' p' b'. m' = ''GET'' \<and> p' = p \<and> b' = None) s s'"
  unfolding get_def using request_sends[of E "''GET''" p None False s res s'] by simp

lemma post_sends:
  "post E p b s = (res, s') \<Longrightarrow> sends_only (\<lambda>m' p' b'. m' = ''POST'' \<and> p' = p \<and> b' = Some (stringify b)) s s'"
  unfolding post_def using request_sends[of E "''POST''" p "Some b" False s res s'] by simp

lemma delete_sends: "delete E p s = (res, s') \<Longrightarrow> sends_only (\<lambda>m' p' b'. m' = ''DELETE'' \<and> p' = p \<and> b' = None) s s'"
  unfolding delete_def using request_sends[of E "''DELETE''" p None False s res s'] by simp

lemma zod_parse_bind:
  "bind (zod_parse E p v) f s = (case p v of None \<Rightarrow> (Inl (ZodError (zod_message E v)), s) | Some x \<Rightarrow> f x s)"
  by (simp add: bind_def zod_parse_def throw_def return_def split: option.splits)

lemma getCard_get:
  assumes "getCard E cardId s = (res, s')"
  shows "\<exists>r. get E (''/api/cards/'' @ cardId) s = (r, s')"
  using assms
  by (auto simp: getCard_def bind_def return_def zod_parse_def throw_def
      split: prod.splits sum.splits option.splits)

lemma getCard_sends:
  assumes "getCard E cardId s = (res, s')"
  shows "sends_only (\<lambda>m p b. m = ''GET'' \<and> p = ''/api/cards/'' @ cardId \<and> b = None) s s'"
proof -
  from getCard_get[OF assms] obtain r where "get E (''/api/cards/'' @ cardId) s = (r, s')" by blast
  then show ?thesis by (rule get_sends)
qed



text \<open>
  Claim C1. A call whose configuration and token are resolved and which is answered by a
  non-2xx status: if the status is 401, a token is cached and the call is not a retry,
  the client clears the token and runs the call again as a retry; the retry authenticates
  afresh and, with the new token, sends the same call once more, whatever answer it gets
  is final (a second 401 is surfaced as an error, nothing further is sent); if the fresh
  authentication fails, its error is surfaced. In every other case (another status, a
  retry, no token) the error is surfaced at once and the call was sent once. The requests
  are written out: the first carries the header \<^verbatim>\<open>Authorization: Bearer\<close> with the token
  that was cached, the second has the same method, URL and body and carries the token that
  the fresh authentication returned, which is also the token cached afterwards.
\<close>

theorem request_retries_once_on_401:
  assumes "this_getConfig E s = (Inr cfg, s0)"
    and "getToken E s0 = (Inr tok, s1)"
    and "fetch E (api_req cfg tok m p b) s1 = (Resp st txt raw, s2)"
    and "\<not> ok st"
  shows
   "(st = 401 \<and> truthy (token s2) \<and> \<not> isRetry \<longrightarrow>
       request E m p b isRetry s = request E m p b True (s2\<lparr>token := None, tokenExpiresAt := 0\<rparr>)
     \<and> (\<forall>tok' s3 res s4.
          authenticate E (s2\<lparr>token := None, tokenExpiresAt := 0\<rparr>) = (Inr tok', s3)
          \<and> fetch E (api_req cfg tok' m p b) s3 = (res, s4) \<longrightarrow>
            snd (request E m p b isRetry s) = s4
          \<and> sent s4 = sent s1 @
                [\<lparr>meth = m, url = baseUrl cfg @ p,
                  headers = (''Authorization'', ''Bearer '' @ tok)
                            # (if b \<noteq> None then [(''Content-Type'', ''application/json'')] else []),
                  body = map_option stringify b\<rparr>,
                 auth_req cfg,
                 \<lparr>meth = m, url = baseUrl cfg @ p,
                  headers = (''Authorization'', ''Bearer '' @ tok')
                            # (if b \<noteq> None then [(''Content-Type'', ''application/json'')] else []),
                  body = map_option stringify b\<rparr>]
          \<and> token s4 = Some tok'
          \<and> (\<forall>st' txt' raw'. res = Resp st' txt' raw' \<and> \<not> ok st' \<longrightarrow>
                fst (request E m p b isRetry s)
                  = Inl (createPlankaError E st' (safeParseJson raw') (m @ '' '' @ p)))
          \<and> (\<forall>st' txt' raw'. res = Resp st' txt' raw' \<and> ok st' \<longrightarrow>
                fst (request E m p b isRetry s)
                  = (if st' = 204 then Inr None else Inr (Some (safeParseJson raw')))))
     \<and> (\<forall>e s3. authenticate E (s2\<lparr>token := None, tokenExpiresAt := 0\<rparr>) = (Inl e, s3) \<longrightarrow>
            request E m p b isRetry s = (Inl e, s3)))
  \<and> (st \<noteq> 401 \<or> isRetry \<or> \<not> truthy (token s2) \<longrightarrow>
       request E m p b isRetry s
         = (Inl (createPlankaError E st (safeParseJson raw) (m @ '' '' @ p)), s2)
     \<and> sent s2 = sent s1 @
           [\<lparr>meth = m, url = baseUrl cfg @ p,
             headers = (''Authorization'', ''Bearer '' @ tok)
                       # (if b \<noteq> None then [(''Content-Type'', ''application/json'')] else []),
             body = map_option stringify b\<rparr>])"
proof (intro conjI impI allI)
  assume a: "st = 401 \<and> truthy (token s2) \<and> \<not> isRetry"
  let ?s = "s2\<lparr>token := None, tokenExpiresAt := 0\<rparr>"
  from a assms show step: "request E m p b isRetry s = request E m p b True ?s"
    using request_retry_step[OF assms(1,2)] by simp
  have c: "config ?s = Some cfg" using request_path_config[OF assms(1-3)] .
  then have g: "this_getConfig E ?s = (Inr cfg, ?s)" by (rule this_getConfig_hit)
  have t: "getToken E ?s = authenticate E ?s" by (simp add: getToken_def)
  have s2: "sent s2 = sent s1 @ [api_req cfg tok m p b]" using fetch_sent[OF assms(3)] by simp
  {
    fix tok' s3 res s4
    assume h: "authenticate E ?s = (Inr tok', s3) \<and> fetch E (api_req cfg tok' m p b) s3 = (res, s4)"
    have au: "getToken E ?s = (Inr tok', s3)" using t h by simp
    have s3: "sent s3 = sent ?s @ [auth_req cfg]" using authenticate_req h c by blast
    have s4: "sent s4 = sent s3 @ [api_req cfg tok' m p b]" using fetch_sent h by blast
    have r: "request E m p b True ?s =
       (case res of AbortError \<Rightarrow> Inl (PlankaNetworkError (''Request timeout: '' @ m @ '' '' @ p))
        | FetchFailed \<Rightarrow> Inl (PlankaNetworkError (''Network error: '' @ m @ '' '' @ p))
        | Resp st' txt' raw' \<Rightarrow>
            if st' = 204 then Inr None
            else if \<not> ok st' then Inl (createPlankaError E st' (safeParseJson raw') (m @ '' '' @ p))
            else Inr (Some (safeParseJson raw')), s4)"
      using g au h by (subst request.simps) (auto split: fetch_result.splits)
    show "snd (request E m p b isRetry s) = s4" using step r by simp
    show "sent s4 = sent s1 @
                [\<lparr>meth = m, url = baseUrl cfg @ p,
                  headers = (''Authorization'', ''Bearer '' @ tok)
                            # (if b \<noteq> None then [(''Content-Type'', ''application/json'')] else []),
                  body = map_option stringify b\<rparr>,
                 auth_req cfg,
                 \<lparr>meth = m, url = baseUrl cfg @ p,
                  headers = (''Authorization'', ''Bearer '' @ tok')
                            # (if b \<noteq> None then [(''Content-Type'', ''application/json'')] else []),
                  body = map_option stringify b\<rparr>]"
      using s2 s3 s4 by (simp add: api_req_def)
    have "token s3 = Some tok'" using authenticate_Inr h by blast
    then show "token s4 = Some tok'" using fetch_sent h by metis
    {
      fix st' txt' raw'
      assume "res = Resp st' txt' raw' \<and> \<not> ok st'"
      moreover from this have "st' \<noteq> 204" by (auto simp: ok_def)
      ultimately show "fst (request E m p b isRetry s) = Inl (createPlankaError E st' (safeParseJson raw') (m @ '' '' @ p))"
        using step r by simp
    }
    {
      fix st' txt' raw'
      assume "res = Resp st' txt' raw' \<and> ok st'"
      then show "fst (request E m p b isRetry s) = (if st' = 204 then Inr None else Inr (Some (safeParseJson raw')))"
        using step r by simp
    }
  }
  {
    fix e s3
    assume "authenticate E ?s = (Inl e, s3)"
    then have "request E m p b True ?s = (Inl e, s3)"
      using g t by (subst request.simps) simp
    then show "request E m p b isRetry s = (Inl e, s3)" using step by simp
  }
next
  assume "st \<noteq> 401 \<or> isRetry \<or> \<not> truthy (token s2)"
  then show "request E m p b isRetry s = (Inl (createPlankaError E st (safeParseJson raw) (m @ '' '' @ p)), s2)"
    using request_no_retry[OF assms(1-4)] by blast
next
  show "sent s2 = sent s1 @
           [\<lparr>meth = m, url = baseUrl cfg @ p,
             headers = (''Authorization'', ''Bearer '' @ tok)
                       # (if b \<noteq> None then [(''Content-Type'', ''application/json'')] else []),
             body = map_option stringify b\<rparr>]"
    using fetch_sent[OF assms(3)] by (simp add: api_req_def)
qed

theorem request_retries_once_on_401_witness:
  "request (demo_env srv401) ''GET'' ''/api/cards/1'' None False fresh_state
     = (Inl (PlankaAuthError ''Token expired (GET /api/cards/1)''),
        \<lparr>config = Some demo_cfg, token = Some ''jwt-2'', tokenExpiresAt = 1501015, now = 1020,
         sent = [auth_req demo_cfg, card_req ''jwt-1'', auth_req demo_cfg, card_req ''jwt-2'']\<rparr>)
   \<and> map (\<lambda>r. (meth r, url r, map_of (headers r) ''Authorization''))
         [auth_req demo_cfg, card_req ''jwt-1'', auth_req demo_cfg, card_req ''jwt-2'']
       = [(''POST'', ''http://planka/api/access-tokens'', None),
          (''GET'', ''http://planka/api/cards/1'', Some ''Bearer jwt-1''),
          (''POST'', ''http://planka/api/access-tokens'', None),
          (''GET'', ''http://planka/api/cards/1'', Some ''Bearer jwt-2'')]"
proof -
  let ?E = "demo_env srv401"
  let ?s1 = "\<lparr>config = Some demo_cfg, token = Some ''jwt-1'', tokenExpiresAt = 1501005,
              now = 1005, sent = [auth_req demo_cfg]\<rparr>"
  let ?s2 = "\<lparr>config = Some demo_cfg, token = Some ''jwt-1'', tokenExpiresAt = 1501005,
              now = 1010, sent = [auth_req demo_cfg, card_req ''jwt-1'']\<rparr>"
  let ?s3 = "\<lparr>config = Some demo_cfg, token = Some ''jwt-2'', tokenExpiresAt = 1501015,
              now = 1015, sent = [auth_req demo_cfg, card_req ''jwt-1'', auth_req demo_cfg]\<rparr>"
  let ?s4 = "\<lparr>config = Some demo_cfg, token = Some ''jwt-2'', tokenExpiresAt = 1501015, now = 1020,
              sent = [auth_req demo_cfg, card_req ''jwt-1'', auth_req demo_cfg, card_req ''jwt-2'']\<rparr>"
  have h1: "this_getConfig ?E fresh_state = (Inr demo_cfg, fresh_state\<lparr>config := Some demo_cfg\<rparr>)"
    by (simp add: demo_defs)
  have h2: "getToken ?E (fresh_state\<lparr>config := Some demo_cfg\<rparr>) = (Inr ''jwt-1'', ?s1)"
    by (simp add: demo_defs srv401_def)
  have h3: "fetch ?E (api_req demo_cfg ''jwt-1'' ''GET'' ''/api/cards/1'' None) ?s1
              = (Resp 401 ''Unauthorized'' (Json (JObj [(''message'', JStr ''Token expired'')])), ?s2)"
    by (simp add: demo_defs srv401_def card_req_def)
  have h4: "\<not> ok 401" by (simp add: ok_def)
  have h5: "authenticate ?E (?s2\<lparr>token := None, tokenExpiresAt := 0\<rparr>) = (Inr ''jwt-2'', ?s3)"
    by (simp add: demo_defs srv401_def card_req_def)
  have h6: "fetch ?E (api_req demo_cfg ''jwt-2'' ''GET'' ''/api/cards/1'' None) ?s3
              = (Resp 401 ''Unauthorized'' (Json (JObj [(''message'', JStr ''Token expired'')])), ?s4)"
    by (simp add: demo_defs srv401_def card_req_def)
  have "truthy (token ?s2)" by simp
  with request_retries_once_on_401[OF h1 h2 h3 h4, of False] h5 h6
  have "snd (request ?E ''GET'' ''/api/cards/1'' None False fresh_state) = ?s4"
    and "fst (request ?E ''GET'' ''/api/cards/1'' None False fresh_state)
          = Inl (createPlankaError ?E 401 (safeParseJson (Json (JObj [(''message'', JStr ''Token expired'')]))) (''GET'' @ '' '' @ ''/api/cards/1''))"
    using h4 by blast+
  then have "request ?E ''GET'' ''/api/cards/1'' None False fresh_state
     = (Inl (PlankaAuthError ''Token expired (GET /api/cards/1)''), ?s4)"
    by (simp add: prod_eq_iff createPlankaError_def safeParseJson_def)
  moreover have "map (\<lambda>r. (meth r, url r, map_of (headers r) ''Authorization''))
         [auth_req demo_cfg, card_req ''jwt-1'', auth_req demo_cfg, card_req ''jwt-2'']
       = [(''POST'', ''http://planka/api/access-tokens'', None),
          (''GET'', ''http://planka/api/cards/1'', Some ''Bearer jwt-1''),
          (''POST'', ''http://planka/api/access-tokens'', None),
          (''GET'', ''http://planka/api/cards/1'', Some ''Bearer jwt-2'')]"
    by (simp add: auth_req_def card_req_def api_req_def demo_cfg_def)
  ultimately show ?thesis by simp
qed

section \<open>Creating a card\<close>

lemma CreateCardSchema_type_omitted:
  assumes "get_prop (JObj kvs) ''type'' = None"
  shows "CreateCardSchema (Some (JObj kvs)) = CreateCardSchema (Some (JObj ((''type'', JStr ''project'') # kvs)))"
  using assms
  by (simp add: CreateCardSchema_def z_optional_default_def CardTypeSchema_def z_enum_def
      get_prop_Cons del: get_prop.simps cong: option.case_cong)

lemma CreateCardSchema_type:
  assumes "CreateCardSchema (Some (JObj kvs)) = Some v"
  shows "cc_type v = (case get_prop (JObj kvs) ''type'' of None \<Rightarrow> ''project'' | Some t \<Rightarrow> the (z_string (Some t)))
       \<and> cc_type v \<in> {''project'', ''story''}"
  using assms
  by (auto simp add: CreateCardSchema_def z_optional_default_def CardTypeSchema_def z_enum_def
      split: Option.bind_splits option.splits if_splits)

lemma CreateCardSchema_bad_type:
  assumes "get_prop (JObj kvs) ''type'' = Some t" "t \<noteq> JStr ''project''" "t \<noteq> JStr ''story''"
  shows "CreateCardSchema (Some (JObj kvs)) = None"
  using assms
  apply (cases t)
  by (auto simp add: CreateCardSchema_def z_optional_default_def CardTypeSchema_def z_enum_def
      split: Option.bind_splits option.splits if_splits)

lemma card_input_valid:
  "CreateCardSchema (Some card_input)
     = Some \<lparr>cc_listId = ''L1'', cc_name = ''Write report'', cc_description = None,
             cc_position = Fin 65536, cc_type = ''project'', cc_dueDate = None\<rparr>"
  by (simp add: card_input_def CreateCardSchema_def z_string_min1_def z_optional_def
      z_optional_default_def)

lemma card_json_parse:
  "CardResponse (Some (JObj [(''item'', card_json ''C1'' ''project'')]))
    = Some \<lparr>card_id = ''C1'', card_boardId = ''B1'', card_listId = ''L1'', card_name = ''Write report'',
         card_description = None, card_position = Fin 65536, card_type = ''project'', card_dueDate = None,
         card_isCompleted = None\<rparr>"
  by (simp add: CardResponse_def SingleItemResponse_def CardSchema_def card_json_def
      z_optional_def z_nullable_optional_def z_nullable_def CardTypeSchema_def z_enum_def)

lemma post_card_input:
  "post (demo_env srv_create_card) ''/api/lists/L1/cards'' create_card_body logged_in
     = (Inr (Some (JObj [(''item'', card_json ''C1'' ''project'')])),
        logged_in\<lparr>now := 1010,
          sent := [api_req demo_cfg ''jwt-1'' ''POST'' ''/api/lists/L1/cards'' (Some create_card_body)]\<rparr>)"
proof -
  have "server (demo_env srv_create_card) (sent logged_in)
          (api_req demo_cfg ''jwt-1'' ''POST'' ''/api/lists/L1/cards'' (Some create_card_body))
        = (Resp 200 ''OK'' (Json (JObj [(''item'', card_json ''C1'' ''project'')])), 5)"
    by (simp add: demo_env_def srv_create_card_def srv_table_def api_req_def demo_cfg_def)
  from request_happy[of logged_in demo_cfg "''jwt-1''" "demo_env srv_create_card", OF _ _ _ _ this, of False]
  show ?thesis
    by (simp add: post_def logged_in_def ok_def safeParseJson_def)
qed

text \<open>
  Claim C3, as amended. An input of \<^verbatim>\<open>createCard\<close> that omits \<open>type\<close> is validated
  exactly as the same input with \<open>type: "project"\<close>: when it is valid, the validated type is
  \<open>project\<close> and the operation goes on to the POST, whose body carries that type. The
  validation fails, with the state and the list of requests untouched, when \<open>type\<close> is
  present and is neither \<open>project\<close> nor \<open>story\<close>.
\<close>

theorem createCard_type_defaults_to_project:
  "(get_prop (JObj kvs) ''type'' = None \<longrightarrow>
      CreateCardSchema (Some (JObj kvs))
        = CreateCardSchema (Some (JObj ((''type'', JStr ''project'') # kvs)))
    \<and> (\<forall>v. CreateCardSchema (Some (JObj kvs)) = Some v \<longrightarrow>
          cc_type v = ''project''
        \<and> createCard E (JObj kvs) s
            = bind (post E (''/api/lists/'' @ cc_listId v @ ''/cards'')
                     (json_obj [(''name'', Some (JStr (cc_name v))),
                                (''description'', map_option JStr (cc_description v)),
                                (''position'', Some (JNum (cc_position v))),
                                (''type'', Some (JStr ''project'')),
                                (''dueDate'', map_option JStr (cc_dueDate v))]))
                (zod_parse E CardResponse) s))
   \<and> (\<forall>t. get_prop (JObj kvs) ''type'' = Some t \<and> t \<noteq> JStr ''project'' \<and> t \<noteq> JStr ''story'' \<longrightarrow>
         createCard E (JObj kvs) s = (Inl (ZodError (zod_message E (Some (JObj kvs)))), s))"
proof (intro conjI impI allI)
  assume n: "get_prop (JObj kvs) ''type'' = None"
  then show "CreateCardSchema (Some (JObj kvs))
        = CreateCardSchema (Some (JObj ((''type'', JStr ''project'') # kvs)))"
    by (rule CreateCardSchema_type_omitted)
  fix v assume v: "CreateCardSchema (Some (JObj kvs)) = Some v"
  from CreateCardSchema_type[OF v] n show t: "cc_type v = ''project''" by simp
  show "createCard E (JObj kvs) s
            = bind (post E (''/api/lists/'' @ cc_listId v @ ''/cards'')
                     (json_obj [(''name'', Some (JStr (cc_name v))),
                                (''description'', map_option JStr (cc_description v)),
                                (''position'', Some (JNum (cc_position v))),
                                (''type'', Some (JStr ''project'')),
                                (''dueDate'', map_option JStr (cc_dueDate v))]))
                (zod_parse E CardResponse) s"
    using v t by (simp add: createCard_def bind_def zod_parse_Some)
next
  fix t assume "get_prop (JObj kvs) ''type'' = Some t \<and> t \<noteq> JStr ''project'' \<and> t \<noteq> JStr ''story''"
  then have "CreateCardSchema (Some (JObj kvs)) = None"
    using CreateCardSchema_bad_type by blast
  then show "createCard E (JObj kvs) s = (Inl (ZodError (zod_message E (Some (JObj kvs)))), s)"
    by (simp add: createCard_def bind_def zod_parse_None)
qed

theorem createCard_type_defaults_to_project_witness:
  "cc_type (the (CreateCardSchema (Some card_input))) = ''project''
   \<and> createCard (demo_env srv_create_card)
         (JObj [(''listId'', JStr ''L1''), (''name'', JStr ''Write report''), (''type'', JStr ''epic'')])
         logged_in
       = (Inl (ZodError ''invalid input''), logged_in)"
proof
  have n: "get_prop (JObj [(''listId'', JStr ''L1''), (''name'', JStr ''Write report'')]) ''type'' = None"
    by simp
  have v: "CreateCardSchema (Some (JObj [(''listId'', JStr ''L1''), (''name'', JStr ''Write report'')]))
             = Some \<lparr>cc_listId = ''L1'', cc_name = ''Write report'', cc_description = None,
                      cc_position = Fin 65536, cc_type = ''project'', cc_dueDate = None\<rparr>"
    using card_input_valid by (simp add: card_input_def)
  from createCard_type_defaults_to_project
         [of "[(''listId'', JStr ''L1''), (''name'', JStr ''Write report'')]",
          THEN conjunct1, rule_format, OF n, THEN conjunct2, rule_format, OF v, THEN conjunct1]
  show "cc_type (the (CreateCardSchema (Some card_input))) = ''project''"
    using v by (simp add: card_input_def)
next
  let ?kvs = "[(''listId'', JStr ''L1''), (''name'', JStr ''Write report''), (''type'', JStr ''epic'')]"
  have t: "get_prop (JObj ?kvs) ''type'' = Some (JStr ''epic'') \<and> JStr ''epic'' \<noteq> JStr ''project''
           \<and> JStr ''epic'' \<noteq> JStr ''story''" by simp
  from createCard_type_defaults_to_project
         [of ?kvs "demo_env srv_create_card" logged_in, THEN conjunct2, rule_format, OF t]
  show "createCard (demo_env srv_create_card) (JObj ?kvs) logged_in
          = (Inl (ZodError ''invalid input''), logged_in)"
    by (simp add: demo_env_def)
qed

text \<open>
  The claim as stated fails: this input has no \<open>type\<close>, the card is created and the one
  request of the call carries \<open>type: "project"\<close>.
\<close>

theorem createCard_without_type_counterexample:
  "get_prop card_input ''type'' = None
   \<and> createCard (demo_env srv_create_card) card_input logged_in
       = (Inr \<lparr>card_id = ''C1'', card_boardId = ''B1'', card_listId = ''L1'',
               card_name = ''Write report'', card_description = None, card_position = Fin 65536,
               card_type = ''project'', card_dueDate = None, card_isCompleted = None\<rparr>,
          logged_in\<lparr>now := 1010,
            sent := [api_req demo_cfg ''jwt-1'' ''POST'' ''/api/lists/L1/cards'' (Some create_card_body)]\<rparr>)"
proof
  show "get_prop card_input ''type'' = None" by (simp add: card_input_def)
  have b: "json_obj [(''name'', Some (JStr ''Write report'')), (''description'', None),
             (''position'', Some (JNum (Fin 65536))), (''type'', Some (JStr ''project'')), (''dueDate'', None)]
           = create_card_body"
    by (simp add: json_obj_def create_card_body_def List.map_filter_def)
  show "createCard (demo_env srv_create_card) card_input logged_in
       = (Inr \<lparr>card_id = ''C1'', card_boardId = ''B1'', card_listId = ''L1'',
               card_name = ''Write report'', card_description = None, card_position = Fin 65536,
               card_type = ''project'', card_dueDate = None, card_isCompleted = None\<rparr>,
          logged_in\<lparr>now := 1010,
            sent := [api_req demo_cfg ''jwt-1'' ''POST'' ''/api/lists/L1/cards'' (Some create_card_body)]\<rparr>)"
    by (simp add: createCard_def bind_def zod_parse_def return_def card_input_valid b
        post_card_input card_json_parse)
qed

section \<open>Label colours\<close>

lemma z_enum_Some: "z_enum options v = Some c \<Longrightarrow> v = Some (JStr c) \<and> c \<in> set options"
  by (cases v rule: z_string.cases) (auto simp: z_enum_def split: if_splits)

lemma z_enum_None: "(\<forall>c\<in>set options. v \<noteq> Some (JStr c)) \<Longrightarrow> z_enum options v = None"
  by (cases v rule: z_string.cases) (auto simp: z_enum_def)

lemma CreateLabelSchema_color:
  assumes "CreateLabelSchema (Some (JObj kvs)) = Some v"
  shows "get_prop (JObj kvs) ''color'' = Some (JStr (cl_color v)) \<and> cl_color v \<in> set LabelColor_options"
  using assms
  by (auto simp: CreateLabelSchema_def LabelColorSchema_def split: Option.bind_splits dest: z_enum_Some)

lemma CreateLabelSchema_unknown:
  assumes "\<forall>c\<in>set LabelColor_options. get_prop (JObj kvs) ''color'' \<noteq> Some (JStr c)"
  shows "CreateLabelSchema (Some (JObj kvs)) = None"
  using z_enum_None[OF assms]
  by (auto simp: CreateLabelSchema_def LabelColorSchema_def split: Option.bind_splits)

lemma UpdateLabelSchema_color:
  assumes "UpdateLabelSchema (Some (JObj kvs)) = Some v" "ul_color v = Some c"
  shows "get_prop (JObj kvs) ''color'' = Some (JStr c) \<and> c \<in> set LabelColor_options"
  using assms
  by (auto simp: UpdateLabelSchema_def LabelColorSchema_def z_optional_def
      split: Option.bind_splits option.splits dest: z_enum_Some)

lemma UpdateLabelSchema_unknown:
  assumes "get_prop (JObj kvs) ''color'' \<noteq> None" "\<forall>c\<in>set LabelColor_options. get_prop (JObj kvs) ''color'' \<noteq> Some (JStr c)"
  shows "UpdateLabelSchema (Some (JObj kvs)) = None"
  using z_enum_None[OF assms(2)] assms(1)
  by (auto simp: UpdateLabelSchema_def LabelColorSchema_def z_optional_def
      split: Option.bind_splits option.splits)

lemma map_of_map_set:
  "map_of (map (\<lambda>kv. if fst kv = k then (k, v) else kv) xs) k' =
     (if k' = k then (if k \<in> fst ` set xs then Some v else None) else map_of xs k')"
  by (induction xs) (auto simp: image_iff, force+)

lemma get_prop_set_prop:
  "get_prop (JObj (set_prop k v kvs)) = (get_prop (JObj kvs))(k \<mapsto> v)"
proof (rule ext)
  fix k'
  show "get_prop (JObj (set_prop k v kvs)) k' = ((get_prop (JObj kvs))(k \<mapsto> v)) k'"
  proof (cases "k \<in> fst ` set kvs")
    case True
    then have "k \<in> fst ` set (rev kvs)" by simp
    then show ?thesis
      using True map_of_map_set[of k v "rev kvs" k'] by (simp add: set_prop_def rev_map)
  next
    case False
    then show ?thesis by (simp add: set_prop_def)
  qed
qed

lemma LabelSchema_props:
  "LabelSchema (Some (JObj kvs)) =
     (let f = get_prop (JObj kvs) in
      Option.bind (z_string (f ''id'')) (\<lambda>i.
      Option.bind (z_string (f ''boardId'')) (\<lambda>b.
      Option.bind (z_nullable z_string (f ''name'')) (\<lambda>n.
      Option.bind (z_string (f ''color'')) (\<lambda>col.
      Option.bind (z_number (f ''position'')) (\<lambda>pos.
      Option.bind (z_string (f ''createdAt'')) (\<lambda>cr.
      Option.bind (z_nullable_optional z_string (f ''updatedAt'')) (\<lambda>up.
        Some \<lparr>label_id = i, label_boardId = b, label_name = n, label_color = col,
              label_position = pos\<rparr>))))))))"
  by (simp add: LabelSchema_def Let_def del: get_prop.simps)

lemma z_string_Some: "z_string v = Some c \<longleftrightarrow> v = Some (JStr c)"
  by (cases v rule: z_string.cases) auto

lemma LabelSchema_any_color:
  assumes "LabelSchema (Some (JObj kvs)) = Some l"
  shows "LabelSchema (Some (JObj (set_prop ''color'' (JStr c) kvs))) = Some (l\<lparr>label_color := c\<rparr>)"
  using assms unfolding LabelSchema_props get_prop_set_prop
  by (auto simp: Let_def split: Option.bind_splits)

lemma LabelSchema_color_read:
  assumes "LabelSchema (Some (JObj kvs)) = Some l"
  shows "get_prop (JObj kvs) ''color'' = Some (JStr (label_color l))"
  using assms unfolding LabelSchema_props
  by (auto simp: Let_def z_string_Some split: Option.bind_splits)

lemma LabelSchema_accepts:
  "LabelSchema (Some (JObj kvs)) \<noteq> None \<longleftrightarrow>
     z_string (get_prop (JObj kvs) ''id'') \<noteq> None
   \<and> z_string (get_prop (JObj kvs) ''boardId'') \<noteq> None
   \<and> z_nullable z_string (get_prop (JObj kvs) ''name'') \<noteq> None
   \<and> (\<exists>c. get_prop (JObj kvs) ''color'' = Some (JStr c))
   \<and> z_number (get_prop (JObj kvs) ''position'') \<noteq> None
   \<and> z_string (get_prop (JObj kvs) ''createdAt'') \<noteq> None
   \<and> z_nullable_optional z_string (get_prop (JObj kvs) ''updatedAt'') \<noteq> None"
  unfolding LabelSchema_props
  by (auto simp: Let_def z_string_Some split: Option.bind_splits)

lemma label_json_parse:
  "LabelSchema (Some (label_json c))
     = Some \<lparr>label_id = ''LB1'', label_boardId = ''B1'', label_name = Some ''Urgent'',
             label_color = c, label_position = Fin 65536\<rparr>"
  by (simp add: LabelSchema_def label_json_def z_nullable_def z_nullable_optional_def)

lemma summer_sky_unknown:
  "\<forall>c\<in>set LabelColor_options. get_prop (JObj (label_input ''summer-sky'')) ''color'' \<noteq> Some (JStr c)"
  by (simp add: LabelColor_options_def label_input_def)

text \<open>
  Claim C9. On the write side the colour is checked against the palette: a validated
  create input carries a palette colour, an update input that validates with a colour
  carries a palette colour, and \<^verbatim>\<open>createLabel\<close> and \<^verbatim>\<open>updateLabel\<close> fail with a validation
  error, leaving the state and the list of requests untouched, when the colour given is
  not a palette string. On the read side the colour need only be a string: a label object
  is accepted exactly when its other fields are valid and its colour is some string, the
  parsed colour is that string, and a label that parses still parses, with the new colour,
  when the value of its colour is replaced by any string whatever.
\<close>

theorem label_color_closed_on_write_open_on_read:
  "(\<forall>v. CreateLabelSchema (Some (JObj kvs)) = Some v \<longrightarrow>
        get_prop (JObj kvs) ''color'' = Some (JStr (cl_color v)) \<and> cl_color v \<in> set LabelColor_options)
   \<and> ((\<forall>c\<in>set LabelColor_options. get_prop (JObj kvs) ''color'' \<noteq> Some (JStr c)) \<longrightarrow>
        createLabel E (JObj kvs) s = (Inl (ZodError (zod_message E (Some (JObj kvs)))), s))
   \<and> (\<forall>v c. UpdateLabelSchema (Some (JObj kvs)) = Some v \<and> ul_color v = Some c \<longrightarrow>
        get_prop (JObj kvs) ''color'' = Some (JStr c) \<and> c \<in> set LabelColor_options)
   \<and> (get_prop (JObj kvs) ''color'' \<noteq> None
        \<and> (\<forall>c\<in>set LabelColor_options. get_prop (JObj kvs) ''color'' \<noteq> Some (JStr c)) \<longrightarrow>
        updateLabel E labelId (JObj kvs) s = (Inl (ZodError (zod_message E (Some (JObj kvs)))), s))
   \<and> (LabelSchema (Some (JObj kvs)) \<noteq> None \<longleftrightarrow>
          z_string (get_prop (JObj kvs) ''id'') \<noteq> None
        \<and> z_string (get_prop (JObj kvs) ''boardId'') \<noteq> None
        \<and> z_nullable z_string (get_prop (JObj kvs) ''name'') \<noteq> None
        \<and> (\<exists>c. get_prop (JObj kvs) ''color'' = Some (JStr c))
        \<and> z_number (get_prop (JObj kvs) ''position'') \<noteq> None
        \<and> z_string (get_prop (JObj kvs) ''createdAt'') \<noteq> None
        \<and> z_nullable_optional z_string (get_prop (JObj kvs) ''updatedAt'') \<noteq> None)
   \<and> (\<forall>l c. LabelSchema (Some (JObj kvs)) = Some l \<longrightarrow>
          get_prop (JObj kvs) ''color'' = Some (JStr (label_color l))
        \<and> LabelSchema (Some (JObj (set_prop ''color'' (JStr c) kvs))) = Some (l\<lparr>label_color := c\<rparr>))"
proof (intro conjI impI allI)
  fix v assume "CreateLabelSchema (Some (JObj kvs)) = Some v"
  from CreateLabelSchema_color[OF this]
  show "get_prop (JObj kvs) ''color'' = Some (JStr (cl_color v))" and "cl_color v \<in> set LabelColor_options"
    by simp_all
next
  assume "\<forall>c\<in>set LabelColor_options. get_prop (JObj kvs) ''color'' \<noteq> Some (JStr c)"
  from CreateLabelSchema_unknown[OF this]
  show "createLabel E (JObj kvs) s = (Inl (ZodError (zod_message E (Some (JObj kvs)))), s)"
    by (simp add: createLabel_def bind_def zod_parse_None)
next
  fix v c assume "UpdateLabelSchema (Some (JObj kvs)) = Some v \<and> ul_color v = Some c"
  then show "get_prop (JObj kvs) ''color'' = Some (JStr c)" and "c \<in> set LabelColor_options"
    using UpdateLabelSchema_color by blast+
next
  assume "get_prop (JObj kvs) ''color'' \<noteq> None
        \<and> (\<forall>c\<in>set LabelColor_options. get_prop (JObj kvs) ''color'' \<noteq> Some (JStr c))"
  then have "UpdateLabelSchema (Some (JObj kvs)) = None" using UpdateLabelSchema_unknown by blast
  then show "updateLabel E labelId (JObj kvs) s = (Inl (ZodError (zod_message E (Some (JObj kvs)))), s)"
    by (simp add: updateLabel_def bind_def zod_parse_None)
next
  show "LabelSchema (Some (JObj kvs)) \<noteq> None \<longleftrightarrow>
          z_string (get_prop (JObj kvs) ''id'') \<noteq> None
        \<and> z_string (get_prop (JObj kvs) ''boardId'') \<noteq> None
        \<and> z_nullable z_string (get_prop (JObj kvs) ''name'') \<noteq> None
        \<and> (\<exists>c. get_prop (JObj kvs) ''color'' = Some (JStr c))
        \<and> z_number (get_prop (JObj kvs) ''position'') \<noteq> None
        \<and> z_string (get_prop (JObj kvs) ''createdAt'') \<noteq> None
        \<and> z_nullable_optional z_string (get_prop (JObj kvs) ''updatedAt'') \<noteq> None"
    by (rule LabelSchema_accepts)
next
  fix l c assume l: "LabelSchema (Some (JObj kvs)) = Some l"
  then show "get_prop (JObj kvs) ''color'' = Some (JStr (label_color l))"
    by (rule LabelSchema_color_read)
  from l show "LabelSchema (Some (JObj (set_prop ''color'' (JStr c) kvs))) = Some (l\<lparr>label_color := c\<rparr>)"
    by (rule LabelSchema_any_color)
qed

theorem label_color_closed_on_write_open_on_read_witness:
  "createLabel (demo_env srv_create_card) (JObj (label_input ''summer-sky'')) logged_in
     = (Inl (ZodError ''invalid input''), logged_in)
   \<and> updateLabel (demo_env srv_create_card) ''LB1'' (JObj (label_input ''summer-sky'')) logged_in
     = (Inl (ZodError ''invalid input''), logged_in)
   \<and> ''summer-sky'' \<notin> set LabelColor_options
   \<and> LabelSchema (Some (label_json ''summer-sky''))
     = Some \<lparr>label_id = ''LB1'', label_boardId = ''B1'', label_name = Some ''Urgent'',
             label_color = ''summer-sky'', label_position = Fin 65536\<rparr>"
proof (intro conjI)
  note T = label_color_closed_on_write_open_on_read
             [of "label_input ''summer-sky''" "demo_env srv_create_card" logged_in "''LB1''"]
  from T[THEN conjunct2, THEN conjunct1, THEN mp, OF summer_sky_unknown]
  show "createLabel (demo_env srv_create_card) (JObj (label_input ''summer-sky'')) logged_in
     = (Inl (ZodError ''invalid input''), logged_in)"
    by (simp add: demo_env_def)
  have p: "get_prop (JObj (label_input ''summer-sky'')) ''color'' \<noteq> None
           \<and> (\<forall>c\<in>set LabelColor_options. get_prop (JObj (label_input ''summer-sky'')) ''color'' \<noteq> Some (JStr c))"
    using summer_sky_unknown by (simp add: label_input_def)
  from T[THEN conjunct2, THEN conjunct2, THEN conjunct2, THEN conjunct1, THEN mp, OF p]
  show "updateLabel (demo_env srv_create_card) ''LB1'' (JObj (label_input ''summer-sky'')) logged_in
     = (Inl (ZodError ''invalid input''), logged_in)"
    by (simp add: demo_env_def)
  show "''summer-sky'' \<notin> set LabelColor_options" by (simp add: LabelColor_options_def)
  let ?kvs = "[(''id'', JStr ''LB1''), (''boardId'', JStr ''B1''), (''name'', JStr ''Urgent''),
         (''color'', JStr ''berry-red''), (''position'', JNum (Fin 65536)),
         (''createdAt'', JStr ''2025-01-01T00:00:00.000Z'')]"
  have q: "LabelSchema (Some (JObj ?kvs)) = Some \<lparr>label_id = ''LB1'', label_boardId = ''B1'', label_name = Some ''Urgent'',
             label_color = ''berry-red'', label_position = Fin 65536\<rparr>"
    using label_json_parse[of "''berry-red''"] by (simp add: label_json_def)
  have r: "JObj (set_prop ''color'' (JStr ''summer-sky'') ?kvs) = label_json ''summer-sky''"
    by (simp add: set_prop_def label_json_def)
  from label_color_closed_on_write_open_on_read[of ?kvs, THEN conjunct2, THEN conjunct2, THEN conjunct2,
      THEN conjunct2, THEN conjunct2, rule_format, OF q, of "''summer-sky''", THEN conjunct2]
  show "LabelSchema (Some (label_json ''summer-sky''))
     = Some \<lparr>label_id = ''LB1'', label_boardId = ''B1'', label_name = Some ''Urgent'',
             label_color = ''summer-sky'', label_position = Fin 65536\<rparr>"
    unfolding r by simp
qed

section \<open>Sorting\<close>

lemma mset_js_insert: "mset (js_insert cmp x ys) = add_mset x (mset ys)"
  by (induction ys) auto

lemma mset_js_sort: "mset (js_sort cmp xs) = mset xs"
  by (induction xs) (auto simp: js_sort_def mset_js_insert)

lemma set_js_insert: "set (js_insert cmp x ys) = insert x (set ys)"
  by (induction ys) auto

lemma set_js_sort: "set (js_sort cmp xs) = set xs"
  by (induction xs) (auto simp: js_sort_def set_js_insert)


lemma sorted_js_insert:
  assumes tr: "\<And>a b c. a \<in> S \<Longrightarrow> b \<in> S \<Longrightarrow> c \<in> S \<Longrightarrow> R a b \<Longrightarrow> R b c \<Longrightarrow> R a c"
    and pos: "\<And>a b. a \<in> S \<Longrightarrow> b \<in> S \<Longrightarrow> js_positive (cmp a b) \<Longrightarrow> R b a"
    and neg: "\<And>a b. a \<in> S \<Longrightarrow> b \<in> S \<Longrightarrow> \<not> js_positive (cmp a b) \<Longrightarrow> R a b"
    and x: "x \<in> S" and ys: "set ys \<subseteq> S"
    and s: "sorted_wrt R ys"
  shows "sorted_wrt R (js_insert cmp x ys)"
  using s ys
proof (induction ys)
  case Nil
  then show ?case by simp
next
  case (Cons y ys)
  then have y: "y \<in> S" and ys': "set ys \<subseteq> S" by auto
  show ?case
  proof (cases "js_positive (cmp x y)")
    case True
    then have "R y x" using pos x y by blast
    then show ?thesis using Cons True by (auto simp: set_js_insert)
  next
    case False
    then have xy: "R x y" using neg x y by blast
    have "\<forall>z\<in>set ys. R x z"
    proof
      fix z assume z: "z \<in> set ys"
      then have "R y z" using Cons.prems by auto
      with xy show "R x z" using tr[OF x y] z ys' by blast
    qed
    then show ?thesis using Cons False xy by auto
  qed
qed

lemma sorted_js_sort:
  assumes tr: "\<And>a b c. a \<in> S \<Longrightarrow> b \<in> S \<Longrightarrow> c \<in> S \<Longrightarrow> R a b \<Longrightarrow> R b c \<Longrightarrow> R a c"
    and pos: "\<And>a b. a \<in> S \<Longrightarrow> b \<in> S \<Longrightarrow> js_positive (cmp a b) \<Longrightarrow> R b a"
    and neg: "\<And>a b. a \<in> S \<Longrightarrow> b \<in> S \<Longrightarrow> \<not> js_positive (cmp a b) \<Longrightarrow> R a b"
    and xs: "set xs \<subseteq> S"
  shows "sorted_wrt R (js_sort cmp xs)"
  using xs
proof (induction xs)
  case Nil
  then show ?case by (simp add: js_sort_def)
next
  case (Cons x xs)
  have e: "js_sort cmp (x # xs) = js_insert cmp x (js_sort cmp xs)" by (simp add: js_sort_def)
  have "sorted_wrt R (js_insert cmp x (js_sort cmp xs))"
  proof (rule sorted_js_insert[where S = S])
    show "x \<in> S" using Cons.prems by simp
    show "set (js_sort cmp xs) \<subseteq> S" using Cons.prems by (simp add: set_js_sort)
    show "sorted_wrt R (js_sort cmp xs)" using Cons by simp
  qed (use tr pos neg in blast)+
  then show ?case by (simp add: e)
qed

text \<open>Elements that the comparator does not separate keep their order.\<close>

lemma filter_js_insert:
  assumes "\<And>y. y \<in> set ys \<Longrightarrow> P y \<Longrightarrow> P x \<Longrightarrow> \<not> js_positive (cmp x y)"
  shows "filter P (js_insert cmp x ys) = filter P (x # ys)"
  using assms by (induction ys) auto

text \<open>The order of the numbers, and what a difference says about it.\<close>

lemma js_le_trans: "js_le a b \<Longrightarrow> js_le b c \<Longrightarrow> js_le a c"
  by (cases a; cases b; cases c) auto

lemma js_positive_minus:
  "a \<noteq> NaN \<Longrightarrow> b \<noteq> NaN \<Longrightarrow> js_positive (js_minus a b) = (\<not> js_le a b)"
  by (cases a; cases b) auto


lemma js_le_linear: "a \<noteq> NaN \<Longrightarrow> b \<noteq> NaN \<Longrightarrow> js_le a b \<or> js_le b a"
  by (cases a; cases b) auto

lemma position_le_trans: "position_le a b \<Longrightarrow> position_le b c \<Longrightarrow> position_le a c"
  unfolding position_le_def by (rule js_le_trans)

lemma list_cmp_infinity_positive:
  assumes "list_position a \<noteq> Some NaN" "list_position b \<noteq> Some NaN"
  shows "js_positive (list_cmp_infinity a b) = (\<not> position_le (list_position a) (list_position b))"
proof -
  have "nullish (list_position a) PosInf \<noteq> NaN" "nullish (list_position b) PosInf \<noteq> NaN"
    using assms by (auto simp: nullish_def split: option.splits)
  then show ?thesis unfolding list_cmp_infinity_def position_le_def by (rule js_positive_minus)
qed

lemma sorted_lists_infinity:
  assumes "\<forall>l\<in>set xs. list_position l \<noteq> Some NaN"
  shows "sorted_wrt (\<lambda>a b. position_le (list_position a) (list_position b)) (js_sort list_cmp_infinity xs)"
proof (rule sorted_js_sort[where S = "{l. list_position l \<noteq> Some NaN}"])
  fix a b c :: list_
  assume "position_le (list_position a) (list_position b)" "position_le (list_position b) (list_position c)"
  then show "position_le (list_position a) (list_position c)" by (rule position_le_trans)
next
  fix a b :: list_
  assume ab: "a \<in> {l. list_position l \<noteq> Some NaN}" "b \<in> {l. list_position l \<noteq> Some NaN}"
    and p: "js_positive (list_cmp_infinity a b)"
  have n: "nullish (list_position a) PosInf \<noteq> NaN" "nullish (list_position b) PosInf \<noteq> NaN"
    using ab by (auto simp: nullish_def split: option.splits)
  from p ab have "\<not> position_le (list_position a) (list_position b)"
    by (simp add: list_cmp_infinity_positive)
  then show "position_le (list_position b) (list_position a)"
    unfolding position_le_def using js_le_linear[OF n] by blast
next
  fix a b :: list_
  assume "a \<in> {l. list_position l \<noteq> Some NaN}" "b \<in> {l. list_position l \<noteq> Some NaN}"
    and "\<not> js_positive (list_cmp_infinity a b)"
  then show "position_le (list_position a) (list_position b)"
    by (simp add: list_cmp_infinity_positive)
next
  show "set xs \<subseteq> {l. list_position l \<noteq> Some NaN}" using assms by auto
qed

text \<open>Lists of one key (a null position and the position \<^verbatim>\<open>Infinity\<close> are one key) keep
  their order.\<close>

lemma stable_lists_infinity:
  "filter (\<lambda>l. nullish (list_position l) PosInf = k) (js_sort list_cmp_infinity xs)
     = filter (\<lambda>l. nullish (list_position l) PosInf = k) xs"
proof (induction xs)
  case Nil
  then show ?case by (simp add: js_sort_def)
next
  case (Cons x xs)
  have "js_sort list_cmp_infinity (x # xs) = js_insert list_cmp_infinity x (js_sort list_cmp_infinity xs)"
    by (simp add: js_sort_def)
  moreover have "filter (\<lambda>l. nullish (list_position l) PosInf = k) (js_insert list_cmp_infinity x (js_sort list_cmp_infinity xs))
      = filter (\<lambda>l. nullish (list_position l) PosInf = k) (x # js_sort list_cmp_infinity xs)"
    by (rule filter_js_insert) (cases k; simp add: list_cmp_infinity_def)
  ultimately show ?case using Cons by simp
qed

text \<open>What a schema has accepted.\<close>

lemma those_map_Some:
  "those (map f js) = Some xs \<Longrightarrow> \<forall>x\<in>set xs. \<exists>j\<in>set js. f j = Some x"
proof (induction js arbitrary: xs)
  case Nil
  then show ?case by simp
next
  case (Cons j js)
  from Cons.prems obtain y ys where y: "f j = Some y" and ys: "those (map f js) = Some ys"
    and xs: "xs = y # ys"
    by (auto split: option.splits)
  from Cons.IH[OF ys] have "\<forall>x\<in>set ys. \<exists>j'\<in>set (j # js). f j' = Some x" by auto
  moreover have "\<exists>j'\<in>set (j # js). f j' = Some y" using y by auto
  ultimately show ?case unfolding xs by simp
qed

lemma z_array_Some:
  assumes "z_array p v = Some xs"
  shows "\<forall>x\<in>set xs. \<exists>j. p (Some j) = Some x"
proof -
  from assms obtain js where "v = Some (JArr js)" "those (map (\<lambda>x. p (Some x)) js) = Some xs"
    by (auto simp: z_array_def split: option.splits json.splits)
  from those_map_Some[OF this(2)] show ?thesis by blast
qed

lemma z_number_not_NaN: "z_number v = Some x \<Longrightarrow> x \<noteq> NaN"
  by (cases v rule: z_number.cases) auto

lemma ListSchema_position:
  assumes "ListSchema v = Some l"
  shows "list_position l \<noteq> Some NaN"
  using assms
  by (auto simp: ListSchema_def z_nullable_def split: Option.bind_splits option.splits json.splits
      dest: z_number_not_NaN)

lemma BoardIncludedSchema_positions:
  assumes "BoardIncludedSchema E v = Some inc"
  shows "\<forall>l\<in>set (or_empty (bi_lists inc)). list_position l \<noteq> Some NaN"
proof (cases "bi_lists inc")
  case None
  then show ?thesis by (simp add: or_empty_def)
next
  case (Some ls)
  from assms obtain f where "z_optional (z_array ListSchema) (f ''lists'') = Some (bi_lists inc)"
    by (auto simp: BoardIncludedSchema_def split: Option.bind_splits)
  with Some have "z_array ListSchema (f ''lists'') = Some ls"
    by (auto simp: z_optional_def split: option.splits)
  from z_array_Some[OF this] have "\<forall>l\<in>set ls. list_position l \<noteq> Some NaN"
    using ListSchema_position by blast
  with Some show ?thesis by (simp add: or_empty_def)
qed

lemma getBoard_lists:
  assumes "getBoard E boardId s = (Inr d, s')"
  shows "\<exists>response (included :: BoardIncluded).
              get E (''/api/boards/'' @ boardId) s = (Inr response, s')
            \<and> BoardIncludedSchema E (Some (included_or_empty response)) = Some included
            \<and> bd_lists d = js_sort list_cmp_infinity (or_empty (bi_lists included))
            \<and> bd_taskLists d = js_sort (by_position taskList_position) (or_empty (bi_taskLists included))
            \<and> bd_tasks d = or_empty (bi_tasks included)
            \<and> bd_cards d = or_empty (bi_cards included)"
  using assms
  by (auto simp: getBoard_def bind_def return_def zod_parse_def throw_def
      split: prod.splits sum.splits option.splits)

lemma getBoardWithTaskCounts_getBoard:
  assumes "getBoardWithTaskCounts E boardId s = (Inr v, s')"
  shows "\<exists>d. getBoard E boardId s = (Inr d, s') \<and> v = with_task_counts d"
  using assms
  by (auto simp: getBoardWithTaskCounts_def bind_def return_def split: prod.splits sum.splits)

lemma ListSchema_demo:
  "ListSchema (Some (list_json i JNull JNull)) = Some (demo_list i None None)"
  "p \<noteq> NaN \<Longrightarrow> ListSchema (Some (list_json i (JStr n) (JNum p))) = Some (demo_list i (Some n) (Some p))"
  by (cases p; simp add: ListSchema_def list_json_def stamp_def demo_list_def z_nullable_def z_nullable_optional_def)+

lemma CardSchema_demo:
  "t \<in> {''project'', ''story''} \<Longrightarrow> CardSchema (Some (card_json i t)) = Some (demo_card i t)"
  by (auto simp add: CardSchema_def card_json_def demo_card_def z_optional_def z_nullable_optional_def
      z_nullable_def CardTypeSchema_def z_enum_def)

lemma TaskListSchema_demo:
  "TaskListSchema (Some (taskList_json i c p)) = Some (demo_taskList i c p)"
  by (simp add: TaskListSchema_def taskList_json_def stamp_def demo_taskList_def z_optional_def z_nullable_optional_def)

lemma TaskSchema_demo:
  "TaskSchema (Some (task_json i tlid dn)) = Some (demo_task i tlid dn)"
  by (simp add: TaskSchema_def task_json_def stamp_def demo_task_def z_optional_def z_nullable_optional_def)

lemma get_happy:
  assumes "config s = Some cfg" "token s = Some tok" "tok \<noteq> []" "now s < tokenExpiresAt s"
    and "server E (sent s) (api_req cfg tok ''GET'' p None) = (Resp 200 txt (Json j), dt)"
  shows "get E p s = (Inr (Some j), s\<lparr>now := now s + dt, sent := sent s @ [api_req cfg tok ''GET'' p None]\<rparr>)"
  using request_happy[OF assms(1-5), of False] by (simp add: get_def ok_def safeParseJson_def)

lemma getBoard_demo:
  "getBoard (demo_env srv_board) ''B1'' logged_in
     = (Inr board_details,
        logged_in\<lparr>now := 1010, sent := [api_req demo_cfg ''jwt-1'' ''GET'' ''/api/boards/B1'' None]\<rparr>)"
proof -
  have srv: "server (demo_env srv_board) (sent logged_in) (api_req demo_cfg ''jwt-1'' ''GET'' ''/api/boards/B1'' None)
        = (Resp 200 ''OK'' (Json board_response), 5)"
    by (simp add: demo_env_def srv_board_def srv_table_def api_req_def demo_cfg_def logged_in_def)
  have g: "get (demo_env srv_board) ''/api/boards/B1'' logged_in
      = (Inr (Some board_response),
         logged_in\<lparr>now := 1010, sent := [api_req demo_cfg ''jwt-1'' ''GET'' ''/api/boards/B1'' None]\<rparr>)"
    using get_happy[of logged_in demo_cfg "''jwt-1''" "demo_env srv_board" "''/api/boards/B1''", OF _ _ _ _ srv]
    by (simp add: logged_in_def)
  have b: "BoardResponse (Some board_response)
      = Some \<lparr>board_id = ''B1'', board_projectId = ''P1'', board_name = ''Dev'', board_position = Fin 65536\<rparr>"
    by (simp add: BoardResponse_def SingleItemResponse_def BoardSchema_def board_response_def stamp_def
        z_optional_def z_nullable_optional_def z_record_any_def)
  have i: "BoardIncludedSchema (demo_env srv_board) (Some (included_or_empty (Some board_response)))
      = Some \<lparr>bi_lists = Some [demo_list ''L3'' None None, demo_list ''L2'' (Some ''Doing'') (Some (Fin 131072)),
                               demo_list ''L1'' (Some ''Todo'') (Some (Fin 65536))],
              bi_cards = Some [demo_card ''C1'' ''project'', demo_card ''C2'' ''story''],
              bi_labels = None, bi_cardLabels = None,
              bi_taskLists = Some [demo_taskList ''TL2'' ''C2'' 131072, demo_taskList ''TL1'' ''C1'' 65536],
              bi_tasks = Some [demo_task ''T1'' ''TL1'' True, demo_task ''T2'' ''TL1'' False,
                               demo_task ''T3'' ''TL2'' True, demo_task ''T4'' ''TL9'' True]\<rparr>"
    by (simp add: BoardIncludedSchema_def included_or_empty_def board_response_def z_optional_def
        z_array_def ListSchema_demo CardSchema_demo TaskListSchema_demo TaskSchema_demo)
  have l: "js_sort list_cmp_infinity [demo_list ''L3'' None None, demo_list ''L2'' (Some ''Doing'') (Some (Fin 131072)),
                               demo_list ''L1'' (Some ''Todo'') (Some (Fin 65536))]
        = [demo_list ''L1'' (Some ''Todo'') (Some (Fin 65536)), demo_list ''L2'' (Some ''Doing'') (Some (Fin 131072)),
                  demo_list ''L3'' None None]"
    by (simp add: js_sort_def list_cmp_infinity_def nullish_def demo_list_def)
  have t: "js_sort (by_position taskList_position) [demo_taskList ''TL2'' ''C2'' 131072, demo_taskList ''TL1'' ''C1'' 65536]
        = [demo_taskList ''TL1'' ''C1'' 65536, demo_taskList ''TL2'' ''C2'' 131072]"
    by (simp add: js_sort_def by_position_def demo_taskList_def)
  have e: "js_sort (by_position label_position) [] = []" by (simp add: js_sort_def)
  show ?thesis
    by (simp add: getBoard_def bind_def g zod_parse_def return_def b i or_empty_def l t e board_details_def)
qed

text \<open>
  Claim C10, as amended. In the value that \<^verbatim>\<open>getBoard\<close> returns the lists are the lists
  of the answer (the same lists, each as often, and those of one key in the order of the
  answer), in ascending order of position, an absent position counting as positive infinity:
  of two lists with finite positions the earlier one has the smaller or equal position, every
  list with a finite position comes before every list without position, and a list that
  follows a list without position has no position or the position \<^verbatim>\<open>Infinity\<close>.
  \<^verbatim>\<open>getBoardWithTaskCounts\<close> returns the same lists.
\<close>

theorem getBoard_lists_sorted_nulls_last:
  assumes "getBoard E boardId s = (Inr d, s')"
  shows "(\<exists>response (included :: BoardIncluded).
            get E (''/api/boards/'' @ boardId) s = (Inr response, s')
          \<and> BoardIncludedSchema E (Some (included_or_empty response)) = Some included
          \<and> mset (bd_lists d) = mset (or_empty (bi_lists included))
          \<and> (\<forall>k. filter (\<lambda>l. nullish (list_position l) PosInf = k) (bd_lists d)
                   = filter (\<lambda>l. nullish (list_position l) PosInf = k) (or_empty (bi_lists included))))
       \<and> sorted_wrt (\<lambda>a b. position_le (list_position a) (list_position b)) (bd_lists d)
       \<and> (\<forall>i j x y. i < j \<and> j < length (bd_lists d) \<and> list_position (bd_lists d ! i) = Some (Fin x)
              \<and> list_position (bd_lists d ! j) = Some (Fin y) \<longrightarrow> x \<le> y)
       \<and> (\<forall>i j x. i < length (bd_lists d) \<and> j < length (bd_lists d)
              \<and> list_position (bd_lists d ! i) = Some (Fin x)
              \<and> list_position (bd_lists d ! j) = None \<longrightarrow> i < j)
       \<and> (\<forall>i j. i < j \<and> j < length (bd_lists d) \<and> list_position (bd_lists d ! i) = None
             \<longrightarrow> list_position (bd_lists d ! j) = None \<or> list_position (bd_lists d ! j) = Some PosInf)
       \<and> (\<forall>v s''. getBoardWithTaskCounts E boardId s = (Inr v, s'') \<longrightarrow> wc_lists v = bd_lists d)"
proof -
  from getBoard_lists[OF assms] obtain response and inc :: BoardIncluded where
    g: "get E (''/api/boards/'' @ boardId) s = (Inr response, s')"
    and i: "BoardIncludedSchema E (Some (included_or_empty response)) = Some inc"
    and l: "bd_lists d = js_sort list_cmp_infinity (or_empty (bi_lists inc))" by blast
  have m: "mset (bd_lists d) = mset (or_empty (bi_lists inc))"
    unfolding l by (rule mset_js_sort)
  have st: "\<forall>k. filter (\<lambda>l. nullish (list_position l) PosInf = k) (bd_lists d)
                   = filter (\<lambda>l. nullish (list_position l) PosInf = k) (or_empty (bi_lists inc))"
    unfolding l by (simp add: stable_lists_infinity)
  have perm: "\<exists>response (included :: BoardIncluded).
            get E (''/api/boards/'' @ boardId) s = (Inr response, s')
          \<and> BoardIncludedSchema E (Some (included_or_empty response)) = Some included
          \<and> mset (bd_lists d) = mset (or_empty (bi_lists included))
          \<and> (\<forall>k. filter (\<lambda>l. nullish (list_position l) PosInf = k) (bd_lists d)
                   = filter (\<lambda>l. nullish (list_position l) PosInf = k) (or_empty (bi_lists included)))"
    using g i m st by (intro exI[of _ response] exI[of _ inc]) simp
  have srt: "sorted_wrt (\<lambda>a b. position_le (list_position a) (list_position b)) (bd_lists d)"
    unfolding l by (rule sorted_lists_infinity) (rule BoardIncludedSchema_positions[OF i])
  have le: "\<And>i j. i < j \<Longrightarrow> j < length (bd_lists d) \<Longrightarrow>
        position_le (list_position (bd_lists d ! i)) (list_position (bd_lists d ! j))"
    using srt by (simp add: sorted_wrt_iff_nth_less)
  have nn: "\<And>j. j < length (bd_lists d) \<Longrightarrow> list_position (bd_lists d ! j) \<noteq> Some NaN"
    using BoardIncludedSchema_positions[OF i] unfolding l
    by (metis nth_mem set_js_sort)
  have fin: "\<forall>i j x y. i < j \<and> j < length (bd_lists d) \<and> list_position (bd_lists d ! i) = Some (Fin x)
              \<and> list_position (bd_lists d ! j) = Some (Fin y) \<longrightarrow> x \<le> y"
  proof (intro allI impI)
    fix i j x y
    assume h: "i < j \<and> j < length (bd_lists d) \<and> list_position (bd_lists d ! i) = Some (Fin x)
              \<and> list_position (bd_lists d ! j) = Some (Fin y)"
    then show "x \<le> y" using le[of i j] by (simp add: position_le_def nullish_def)
  qed
  have before: "\<forall>i j x. i < length (bd_lists d) \<and> j < length (bd_lists d)
              \<and> list_position (bd_lists d ! i) = Some (Fin x)
              \<and> list_position (bd_lists d ! j) = None \<longrightarrow> i < j"
  proof (intro allI impI)
    fix i j x
    assume h: "i < length (bd_lists d) \<and> j < length (bd_lists d)
              \<and> list_position (bd_lists d ! i) = Some (Fin x)
              \<and> list_position (bd_lists d ! j) = None"
    show "i < j"
    proof (rule ccontr)
      assume "\<not> i < j"
      then consider "j < i" | "i = j" by linarith
      then show False
      proof cases
        case 1
        then show False using le[of j i] h by (simp add: position_le_def nullish_def)
      next
        case 2
        then show False using h by auto
      qed
    qed
  qed
  have after: "\<forall>i j. i < j \<and> j < length (bd_lists d) \<and> list_position (bd_lists d ! i) = None
             \<longrightarrow> list_position (bd_lists d ! j) = None \<or> list_position (bd_lists d ! j) = Some PosInf"
  proof (intro allI impI)
    fix i j assume h: "i < j \<and> j < length (bd_lists d) \<and> list_position (bd_lists d ! i) = None"
    then have p: "js_le PosInf (nullish (list_position (bd_lists d ! j)) PosInf)"
      using le[of i j] by (simp add: position_le_def nullish_def)
    show "list_position (bd_lists d ! j) = None \<or> list_position (bd_lists d ! j) = Some PosInf"
    proof (cases "list_position (bd_lists d ! j)")
      case None
      then show ?thesis by simp
    next
      case (Some x)
      with p have "js_le PosInf x" by (simp add: nullish_def)
      then have "x = PosInf" by (cases x) auto
      with Some show ?thesis by simp
    qed
  qed
  have c: "\<forall>v s''. getBoardWithTaskCounts E boardId s = (Inr v, s'') \<longrightarrow> wc_lists v = bd_lists d"
  proof (intro allI impI)
    fix v s'' assume "getBoardWithTaskCounts E boardId s = (Inr v, s'')"
    from getBoardWithTaskCounts_getBoard[OF this] assms
    show "wc_lists v = bd_lists d" by (auto simp: with_task_counts_def Let_def)
  qed
  show ?thesis
    by (intro conjI; (fact perm | fact srt | fact fin | fact before | fact after | fact c))
qed

theorem getBoard_lists_sorted_nulls_last_witness:
  "getBoard (demo_env srv_board) ''B1'' logged_in
     = (Inr board_details,
        logged_in\<lparr>now := 1010, sent := [api_req demo_cfg ''jwt-1'' ''GET'' ''/api/boards/B1'' None]\<rparr>)
   \<and> map list_position (bd_lists board_details) = [Some (Fin 65536), Some (Fin 131072), None]
   \<and> sorted_wrt (\<lambda>a b. position_le (list_position a) (list_position b)) (bd_lists board_details)"
  using getBoard_lists_sorted_nulls_last[OF getBoard_demo] getBoard_demo
  by (simp add: board_details_def demo_list_def)

text \<open>
  The claim as stated fails: the answer of this board lists \<open>L3\<close>, which has no position,
  before \<open>L4\<close>, whose position is the number \<^verbatim>\<open>1e400\<close>; the difference of their keys is
  \<^verbatim>\<open>NaN\<close>, and the list without position stays before the list with a numeric position.
\<close>

theorem getBoard_null_before_numeric_counterexample:
  "getBoard (demo_env srv_board_inf) ''B2'' logged_in
     = (Inr board_details_inf,
        logged_in\<lparr>now := 1010, sent := [api_req demo_cfg ''jwt-1'' ''GET'' ''/api/boards/B2'' None]\<rparr>)
   \<and> map list_position (bd_lists board_details_inf) = [None, Some PosInf]"
proof
  have srv: "server (demo_env srv_board_inf) (sent logged_in) (api_req demo_cfg ''jwt-1'' ''GET'' ''/api/boards/B2'' None)
        = (Resp 200 ''OK'' (Json board_response_inf), 5)"
    by (simp add: demo_env_def srv_board_inf_def srv_table_def api_req_def demo_cfg_def logged_in_def)
  have g: "get (demo_env srv_board_inf) ''/api/boards/B2'' logged_in
      = (Inr (Some board_response_inf),
         logged_in\<lparr>now := 1010, sent := [api_req demo_cfg ''jwt-1'' ''GET'' ''/api/boards/B2'' None]\<rparr>)"
    using get_happy[of logged_in demo_cfg "''jwt-1''" "demo_env srv_board_inf" "''/api/boards/B2''", OF _ _ _ _ srv]
    by (simp add: logged_in_def)
  have b: "BoardResponse (Some board_response_inf)
      = Some \<lparr>board_id = ''B2'', board_projectId = ''P1'', board_name = ''Ops'', board_position = Fin 131072\<rparr>"
    by (simp add: BoardResponse_def SingleItemResponse_def BoardSchema_def board_response_inf_def stamp_def
        z_optional_def z_nullable_optional_def z_record_any_def)
  have i: "BoardIncludedSchema (demo_env srv_board_inf) (Some (included_or_empty (Some board_response_inf)))
      = Some \<lparr>bi_lists = Some [demo_list ''L3'' None None, demo_list ''L4'' (Some ''Later'') (Some PosInf)],
              bi_cards = None, bi_labels = None, bi_cardLabels = None, bi_taskLists = None, bi_tasks = None\<rparr>"
    by (simp add: BoardIncludedSchema_def included_or_empty_def board_response_inf_def z_optional_def
        z_array_def ListSchema_demo)
  have l: "js_sort list_cmp_infinity [demo_list ''L3'' None None, demo_list ''L4'' (Some ''Later'') (Some PosInf)]
        = [demo_list ''L3'' None None, demo_list ''L4'' (Some ''Later'') (Some PosInf)]"
    by (simp add: js_sort_def list_cmp_infinity_def nullish_def demo_list_def)
  have e: "js_sort (by_position label_position) [] = []" "js_sort (by_position taskList_position) [] = []"
    by (simp_all add: js_sort_def)
  show "getBoard (demo_env srv_board_inf) ''B2'' logged_in
     = (Inr board_details_inf,
        logged_in\<lparr>now := 1010, sent := [api_req demo_cfg ''jwt-1'' ''GET'' ''/api/boards/B2'' None]\<rparr>)"
    by (simp add: getBoard_def bind_def g zod_parse_def return_def b i or_empty_def l e board_details_inf_def)
  show "map list_position (bd_lists board_details_inf) = [None, Some PosInf]"
    by (simp add: board_details_inf_def demo_list_def)
qed

section \<open>Task counts\<close>

lemma count_task_other:
  "M (task_taskListId t) \<noteq> Some k \<Longrightarrow> counts_or_zero (count_task M t m) k = counts_or_zero m k"
  by (auto simp: count_task_def counts_or_zero_def Let_def split: option.splits)

lemma count_task_hit:
  "M (task_taskListId t) = Some k \<Longrightarrow> k \<noteq> [] \<Longrightarrow>
     counts_or_zero (count_task M t m) k
       = \<lparr>total = total (counts_or_zero m k) + 1,
          completed = completed (counts_or_zero m k) + (if task_isCompleted t then 1 else 0)\<rparr>"
  by (auto simp: count_task_def counts_or_zero_def Let_def split: option.splits)

lemma count_task_empty:
  "counts_or_zero (count_task M t m) [] = counts_or_zero m []"
  by (auto simp: count_task_def counts_or_zero_def Let_def split: option.splits)

lemma fold_count_task:
  assumes "k \<noteq> []"
  shows "counts_or_zero (fold (count_task M) ts m) k
       = \<lparr>total = total (counts_or_zero m k) + length (filter (\<lambda>t. M (task_taskListId t) = Some k) ts),
          completed = completed (counts_or_zero m k)
             + length (filter (\<lambda>t. M (task_taskListId t) = Some k \<and> task_isCompleted t) ts)\<rparr>"
proof (induction ts arbitrary: m)
  case Nil
  then show ?case by simp
next
  case (Cons t ts)
  show ?case
  proof (cases "M (task_taskListId t) = Some k")
    case True
    then show ?thesis using Cons[of "count_task M t m"] assms by (simp add: count_task_hit)
  next
    case False
    then show ?thesis using Cons[of "count_task M t m"] by (simp add: count_task_other)
  qed
qed

lemma fold_count_task_empty:
  "counts_or_zero (fold (count_task M) ts m) [] = counts_or_zero m []"
  by (induction ts arbitrary: m) (simp_all add: count_task_empty)

lemma build_taskCountsByCard_counts:
  assumes "k \<noteq> []"
  shows "counts_or_zero (build_taskCountsByCard M ts) k
       = \<lparr>total = length (filter (\<lambda>t. M (task_taskListId t) = Some k) ts),
          completed = length (filter (\<lambda>t. M (task_taskListId t) = Some k \<and> task_isCompleted t) ts)\<rparr>"
  using fold_count_task[OF assms, of M ts Map.empty]
  by (simp add: build_taskCountsByCard_def counts_or_zero_def)

text \<open>The map from task list to card.\<close>

lemma fold_taskListToCard:
  "fold (\<lambda>taskList m. m(taskList_id taskList \<mapsto> taskList_cardId taskList)) tls m0 k
     = (case map_of (rev (map (\<lambda>tl. (taskList_id tl, taskList_cardId tl)) tls)) k of
          Some c \<Rightarrow> Some c | None \<Rightarrow> m0 k)"
  by (induction tls arbitrary: m0) (auto simp: map_add_def split: option.splits)

lemma build_taskListToCard_map_of:
  "build_taskListToCard tls = map_of (rev (map (\<lambda>tl. (taskList_id tl, taskList_cardId tl)) tls))"
  by (rule ext) (simp add: build_taskListToCard_def fold_taskListToCard split: option.splits)

lemma build_taskListToCard_Some:
  assumes "build_taskListToCard tls k = Some c"
  shows "\<exists>tl\<in>set tls. taskList_id tl = k \<and> taskList_cardId tl = c"
  using map_of_SomeD[OF assms[unfolded build_taskListToCard_map_of]] by auto

lemma build_taskListToCard_None:
  "(build_taskListToCard tls k = None) = (k \<notin> taskList_id ` set tls)"
  by (simp add: build_taskListToCard_map_of map_of_eq_None_iff image_image)

lemma build_taskListToCard_distinct:
  assumes "distinct (map taskList_id tls)" "x \<in> set tls"
  shows "build_taskListToCard tls (taskList_id x) = Some (taskList_cardId x)"
proof -
  have "distinct (map fst (rev (map (\<lambda>tl. (taskList_id tl, taskList_cardId tl)) tls)))"
    using assms(1) by (simp add: rev_map[symmetric] comp_def distinct_rev)
  moreover have "(taskList_id x, taskList_cardId x) \<in> set (rev (map (\<lambda>tl. (taskList_id tl, taskList_cardId tl)) tls))"
    using assms(2) by auto
  ultimately show ?thesis unfolding build_taskListToCard_map_of by (rule map_of_is_SomeI)
qed

lemma enrich_card_counts:
  "taskCount (enrich_card m c) = total (counts_or_zero m (card_id c))"
  "completedTaskCount (enrich_card m c) = completed (counts_or_zero m (card_id c))"
  "card.truncate (enrich_card m c) = c"
  by (simp_all add: enrich_card_def counts_or_zero_def Let_def card.extend_def card.truncate_def
      CardWithTaskCounts.fields_def split: option.splits)

lemma taskListToCard_iff:
  assumes "distinct (map taskList_id tls)"
  shows "(build_taskListToCard tls k = Some c) = (\<exists>x\<in>set tls. taskList_id x = k \<and> taskList_cardId x = c)"
proof
  assume "build_taskListToCard tls k = Some c"
  then show "\<exists>x\<in>set tls. taskList_id x = k \<and> taskList_cardId x = c" by (rule build_taskListToCard_Some)
next
  assume "\<exists>x\<in>set tls. taskList_id x = k \<and> taskList_cardId x = c"
  then show "build_taskListToCard tls k = Some c" using build_taskListToCard_distinct[OF assms] by auto
qed

lemma with_task_counts_cards:
  "wc_cards (with_task_counts d)
     = map (enrich_card (build_taskCountsByCard (build_taskListToCard (bd_taskLists d)) (bd_tasks d))) (bd_cards d)"
  by (simp add: with_task_counts_def Let_def)

lemma getBoardWithTaskCounts_demo:
  "getBoardWithTaskCounts (demo_env srv_board) ''B1'' logged_in
     = (Inr (with_task_counts board_details),
        logged_in\<lparr>now := 1010, sent := [api_req demo_cfg ''jwt-1'' ''GET'' ''/api/boards/B1'' None]\<rparr>)"
  by (simp add: getBoardWithTaskCounts_def bind_def getBoard_demo return_def)

lemma demo_taskListToCard:
  "build_taskListToCard (bd_taskLists board_details)
     = [''TL1'' \<mapsto> ''C1'', ''TL2'' \<mapsto> ''C2'']"
  by (simp add: build_taskListToCard_def board_details_def demo_taskList_def)

text \<open>
  \<^verbatim>\<open>getBoardWithTaskCounts\<close> returns the cards of \<^verbatim>\<open>getBoard\<close>, each with two more
  fields. For a card whose id is not the empty string, \<open>taskCount\<close> is the number of tasks
  whose \<open>taskListId\<close> is mapped to the card's id by the map built from the task lists, and
  \<open>completedTaskCount\<close> the number of those that are completed; a card whose id is the
  empty string gets zero twice, whatever the tasks. The map sends an id only to the card
  id of a task list with that id, and sends the id of no task list nowhere, so a task
  without task list counts for no card and no task counts for two cards with different
  ids.
\<close>

lemma task_counts_of_cards:
  assumes "getBoardWithTaskCounts E boardId s = (Inr v, s')"
  shows "\<exists>d. getBoard E boardId s = (Inr d, s')
      \<and> map card.truncate (wc_cards v) = bd_cards d
      \<and> (\<forall>c\<in>set (wc_cards v). card_id c \<noteq> [] \<longrightarrow>
            taskCount c = length (filter (\<lambda>t. build_taskListToCard (bd_taskLists d) (task_taskListId t) = Some (card_id c)) (bd_tasks d))
          \<and> completedTaskCount c = length (filter (\<lambda>t. build_taskListToCard (bd_taskLists d) (task_taskListId t) = Some (card_id c) \<and> task_isCompleted t) (bd_tasks d)))
      \<and> (\<forall>c\<in>set (wc_cards v). card_id c = [] \<longrightarrow> taskCount c = 0 \<and> completedTaskCount c = 0)
      \<and> (\<forall>k c. build_taskListToCard (bd_taskLists d) k = Some c \<longrightarrow>
            (\<exists>x\<in>set (bd_taskLists d). taskList_id x = k \<and> taskList_cardId x = c))
      \<and> (\<forall>k. k \<notin> taskList_id ` set (bd_taskLists d) \<longrightarrow> build_taskListToCard (bd_taskLists d) k = None)
      \<and> (distinct (map taskList_id (bd_taskLists d)) \<longrightarrow>
            (\<forall>c\<in>set (wc_cards v). card_id c \<noteq> [] \<longrightarrow>
               taskCount c = length (filter (\<lambda>t. \<exists>x\<in>set (bd_taskLists d).
                   taskList_id x = task_taskListId t \<and> taskList_cardId x = card_id c) (bd_tasks d))
             \<and> completedTaskCount c = length (filter (\<lambda>t. (\<exists>x\<in>set (bd_taskLists d).
                   taskList_id x = task_taskListId t \<and> taskList_cardId x = card_id c) \<and> task_isCompleted t) (bd_tasks d))))"
proof -
  from getBoardWithTaskCounts_getBoard[OF assms] obtain d where
    g: "getBoard E boardId s = (Inr d, s')" and v: "v = with_task_counts d" by blast
  let ?M = "build_taskListToCard (bd_taskLists d)"
  let ?m = "build_taskCountsByCard ?M (bd_tasks d)"
  have cards: "wc_cards v = map (enrich_card ?m) (bd_cards d)" using v by (simp add: with_task_counts_cards)
  have tr: "map card.truncate (wc_cards v) = bd_cards d"
    unfolding cards by (simp add: comp_def enrich_card_counts map_idI)
  have cnt: "\<forall>c\<in>set (wc_cards v). card_id c \<noteq> [] \<longrightarrow>
            taskCount c = length (filter (\<lambda>t. ?M (task_taskListId t) = Some (card_id c)) (bd_tasks d))
          \<and> completedTaskCount c = length (filter (\<lambda>t. ?M (task_taskListId t) = Some (card_id c) \<and> task_isCompleted t) (bd_tasks d))"
  proof (intro ballI impI)
    fix c assume c: "c \<in> set (wc_cards v)" and ne: "card_id c \<noteq> []"
    then obtain c0 where c0: "c = enrich_card ?m c0" using cards by auto
    have id: "card_id c = card_id c0"
      by (simp add: c0 enrich_card_def Let_def card.extend_def)
    from ne id have "card_id c0 \<noteq> []" by simp
    from build_taskCountsByCard_counts[OF this, of ?M "bd_tasks d"]
    show "taskCount c = length (filter (\<lambda>t. ?M (task_taskListId t) = Some (card_id c)) (bd_tasks d))
          \<and> completedTaskCount c = length (filter (\<lambda>t. ?M (task_taskListId t) = Some (card_id c) \<and> task_isCompleted t) (bd_tasks d))"
      by (simp add: c0 enrich_card_counts id[unfolded c0])
  qed
  have zero: "\<forall>c\<in>set (wc_cards v). card_id c = [] \<longrightarrow> taskCount c = 0 \<and> completedTaskCount c = 0"
  proof (intro ballI impI)
    fix c assume c: "c \<in> set (wc_cards v)" and e: "card_id c = []"
    then obtain c0 where c0: "c = enrich_card ?m c0" using cards by auto
    have id: "card_id c = card_id c0"
      by (simp add: c0 enrich_card_def Let_def card.extend_def)
    have "counts_or_zero ?m [] = \<lparr>total = 0, completed = 0\<rparr>"
      by (simp add: build_taskCountsByCard_def fold_count_task_empty) (simp add: counts_or_zero_def)
    then show "taskCount c = 0 \<and> completedTaskCount c = 0"
      using e id by (simp add: c0 enrich_card_counts)
  qed
  have some: "\<forall>k c. ?M k = Some c \<longrightarrow> (\<exists>x\<in>set (bd_taskLists d). taskList_id x = k \<and> taskList_cardId x = c)"
    using build_taskListToCard_Some by blast
  have none: "\<forall>k. k \<notin> taskList_id ` set (bd_taskLists d) \<longrightarrow> ?M k = None"
    by (simp add: build_taskListToCard_None)
  have dis: "distinct (map taskList_id (bd_taskLists d)) \<longrightarrow>
            (\<forall>c\<in>set (wc_cards v). card_id c \<noteq> [] \<longrightarrow>
               taskCount c = length (filter (\<lambda>t. \<exists>x\<in>set (bd_taskLists d).
                   taskList_id x = task_taskListId t \<and> taskList_cardId x = card_id c) (bd_tasks d))
             \<and> completedTaskCount c = length (filter (\<lambda>t. (\<exists>x\<in>set (bd_taskLists d).
                   taskList_id x = task_taskListId t \<and> taskList_cardId x = card_id c) \<and> task_isCompleted t) (bd_tasks d)))"
  proof
    assume "distinct (map taskList_id (bd_taskLists d))"
    from taskListToCard_iff[OF this] cnt
    show "\<forall>c\<in>set (wc_cards v). card_id c \<noteq> [] \<longrightarrow>
               taskCount c = length (filter (\<lambda>t. \<exists>x\<in>set (bd_taskLists d).
                   taskList_id x = task_taskListId t \<and> taskList_cardId x = card_id c) (bd_tasks d))
             \<and> completedTaskCount c = length (filter (\<lambda>t. (\<exists>x\<in>set (bd_taskLists d).
                   taskList_id x = task_taskListId t \<and> taskList_cardId x = card_id c) \<and> task_isCompleted t) (bd_tasks d))"
      by simp
  qed
  show ?thesis
    by (rule exI[of _ d], intro conjI; (fact g | fact tr | fact cnt | fact zero | fact some | fact none | fact dis))
qed

lemma task_counts_demo:
  "map (\<lambda>c. (card_id c, taskCount c, completedTaskCount c)) (wc_cards (with_task_counts board_details))
     = [(''C1'', 2, 1), (''C2'', 1, 1)]"
proof -
  let ?v = "with_task_counts board_details"
  let ?M = "build_taskListToCard (bd_taskLists board_details)"
  let ?m = "build_taskCountsByCard ?M (bd_tasks board_details)"
  let ?c1 = "enrich_card ?m (demo_card ''C1'' ''project'')"
  let ?c2 = "enrich_card ?m (demo_card ''C2'' ''story'')"
  from task_counts_of_cards[OF getBoardWithTaskCounts_demo]
  obtain d where d: "getBoard (demo_env srv_board) ''B1'' logged_in
        = (Inr d, logged_in\<lparr>now := 1010, sent := [api_req demo_cfg ''jwt-1'' ''GET'' ''/api/boards/B1'' None]\<rparr>)"
    and cnt: "\<forall>c\<in>set (wc_cards ?v). card_id c \<noteq> [] \<longrightarrow>
            taskCount c = length (filter (\<lambda>t. build_taskListToCard (bd_taskLists d) (task_taskListId t) = Some (card_id c)) (bd_tasks d))
          \<and> completedTaskCount c = length (filter (\<lambda>t. build_taskListToCard (bd_taskLists d) (task_taskListId t) = Some (card_id c) \<and> task_isCompleted t) (bd_tasks d))"
    by blast
  have dd: "d = board_details" using d getBoard_demo by simp
  have cards: "wc_cards ?v = [?c1, ?c2]"
    by (simp add: with_task_counts_cards) (simp add: board_details_def)
  have ids: "card_id ?c1 = ''C1''" "card_id ?c2 = ''C2''"
    by (simp_all add: enrich_card_def Let_def card.extend_def demo_card_def)
  have tasks: "bd_tasks board_details = [demo_task ''T1'' ''TL1'' True, demo_task ''T2'' ''TL1'' False,
                  demo_task ''T3'' ''TL2'' True, demo_task ''T4'' ''TL9'' True]"
    by (simp add: board_details_def)
  have m1: "?c1 \<in> set (wc_cards ?v)" and m2: "?c2 \<in> set (wc_cards ?v)"
    unfolding cards by simp_all
  have n1: "card_id ?c1 \<noteq> []" and n2: "card_id ?c2 \<noteq> []" using ids by simp_all
  have ev: "length (filter (\<lambda>t. [''TL1'' \<mapsto> ''C1'', ''TL2'' \<mapsto> ''C2''] (task_taskListId t) = Some ''C1'')
               (bd_tasks board_details)) = 2"
    "length (filter (\<lambda>t. [''TL1'' \<mapsto> ''C1'', ''TL2'' \<mapsto> ''C2''] (task_taskListId t) = Some ''C1''
               \<and> task_isCompleted t) (bd_tasks board_details)) = 1"
    "length (filter (\<lambda>t. [''TL1'' \<mapsto> ''C1'', ''TL2'' \<mapsto> ''C2''] (task_taskListId t) = Some ''C2'')
               (bd_tasks board_details)) = 1"
    "length (filter (\<lambda>t. [''TL1'' \<mapsto> ''C1'', ''TL2'' \<mapsto> ''C2''] (task_taskListId t) = Some ''C2''
               \<and> task_isCompleted t) (bd_tasks board_details)) = 1"
    by (simp_all add: tasks demo_task_def)
  have c1: "taskCount ?c1 = 2 \<and> completedTaskCount ?c1 = 1"
    using cnt[rule_format, OF m1 n1, unfolded dd ids] by (simp only: demo_taskListToCard ev)
  have c2: "taskCount ?c2 = 1 \<and> completedTaskCount ?c2 = 1"
    using cnt[rule_format, OF m2 n2, unfolded dd ids] by (simp only: demo_taskListToCard ev)
  show ?thesis unfolding cards using c1 c2 ids by simp
qed

lemma getBoard_noid:
  "getBoard (demo_env srv_board_noid) ''B3'' logged_in
     = (Inr board_details_noid,
        logged_in\<lparr>now := 1010, sent := [api_req demo_cfg ''jwt-1'' ''GET'' ''/api/boards/B3'' None]\<rparr>)"
proof -
  have srv: "server (demo_env srv_board_noid) (sent logged_in) (api_req demo_cfg ''jwt-1'' ''GET'' ''/api/boards/B3'' None)
        = (Resp 200 ''OK'' (Json board_response_noid), 5)"
    by (simp add: demo_env_def srv_board_noid_def srv_table_def api_req_def demo_cfg_def logged_in_def)
  have g: "get (demo_env srv_board_noid) ''/api/boards/B3'' logged_in
      = (Inr (Some board_response_noid),
         logged_in\<lparr>now := 1010, sent := [api_req demo_cfg ''jwt-1'' ''GET'' ''/api/boards/B3'' None]\<rparr>)"
    using get_happy[of logged_in demo_cfg "''jwt-1''" "demo_env srv_board_noid" "''/api/boards/B3''", OF _ _ _ _ srv]
    by (simp add: logged_in_def)
  have b: "BoardResponse (Some board_response_noid)
      = Some \<lparr>board_id = ''B3'', board_projectId = ''P1'', board_name = ''Inbox'', board_position = Fin 196608\<rparr>"
    by (simp add: BoardResponse_def SingleItemResponse_def BoardSchema_def board_response_noid_def stamp_def
        z_optional_def z_nullable_optional_def z_record_any_def)
  have i: "BoardIncludedSchema (demo_env srv_board_noid) (Some (included_or_empty (Some board_response_noid)))
      = Some \<lparr>bi_lists = None, bi_cards = Some [demo_card '''' ''project''],
              bi_labels = None, bi_cardLabels = None,
              bi_taskLists = Some [demo_taskList ''TL1'' '''' 65536],
              bi_tasks = Some [demo_task ''T1'' ''TL1'' True]\<rparr>"
    by (simp add: BoardIncludedSchema_def included_or_empty_def board_response_noid_def z_optional_def
        z_array_def CardSchema_demo TaskListSchema_demo TaskSchema_demo)
  have e: "js_sort list_cmp_infinity [] = []" "js_sort (by_position label_position) [] = []"
    "js_sort (by_position taskList_position) [demo_taskList ''TL1'' '''' 65536] = [demo_taskList ''TL1'' '''' 65536]"
    by (simp_all add: js_sort_def)
  show ?thesis
    by (simp add: getBoard_def bind_def g zod_parse_def return_def b i or_empty_def e board_details_noid_def)
qed

text \<open>
  Claim C4. The claim is that every card gets as \<open>taskCount\<close> the number of included
  tasks whose task list belongs to the card, and as \<open>completedTaskCount\<close> the number of
  those that are completed. It holds for every card whose id is not the empty string.
  The guard \<^verbatim>\<open>if (!cardId) continue\<close>, meant for a task whose task list is not among the
  included ones, also skips a task whose card id is the empty string: in the answer below
  the one card has the id \<^verbatim>\<open>""\<close> and its task list has one completed task, so both counts
  are 1 by the claim, and the code returns 0 and 0.
\<close>

theorem getBoardWithTaskCounts_empty_card_id_uncounted:
  "getBoardWithTaskCounts (demo_env srv_board_noid) ''B3'' logged_in
     = (Inr (with_task_counts board_details_noid),
        logged_in\<lparr>now := 1010, sent := [api_req demo_cfg ''jwt-1'' ''GET'' ''/api/boards/B3'' None]\<rparr>)
   \<and> map (\<lambda>c. (card_id c, taskCount c, completedTaskCount c)) (wc_cards (with_task_counts board_details_noid))
       = [('''', 0, 0)]
   \<and> map (\<lambda>x. (taskList_id x, taskList_cardId x)) (bd_taskLists board_details_noid) = [(''TL1'', '''')]
   \<and> map (\<lambda>t. (task_id t, task_taskListId t, task_isCompleted t)) (bd_tasks board_details_noid)
       = [(''T1'', ''TL1'', True)]"
proof (intro conjI)
  show "getBoardWithTaskCounts (demo_env srv_board_noid) ''B3'' logged_in
     = (Inr (with_task_counts board_details_noid),
        logged_in\<lparr>now := 1010, sent := [api_req demo_cfg ''jwt-1'' ''GET'' ''/api/boards/B3'' None]\<rparr>)"
    by (simp add: getBoardWithTaskCounts_def bind_def getBoard_noid return_def)
  show "map (\<lambda>c. (card_id c, taskCount c, completedTaskCount c)) (wc_cards (with_task_counts board_details_noid))
       = [('''', 0, 0)]"
    by (simp add: with_task_counts_def Let_def board_details_noid_def build_taskListToCard_def
        build_taskCountsByCard_def count_task_def enrich_card_def demo_card_def demo_task_def
        demo_taskList_def card.extend_def CardWithTaskCounts.fields_def)
  show "map (\<lambda>x. (taskList_id x, taskList_cardId x)) (bd_taskLists board_details_noid) = [(''TL1'', '''')]"
    by (simp add: board_details_noid_def demo_taskList_def)
  show "map (\<lambda>t. (task_id t, task_taskListId t, task_isCompleted t)) (bd_tasks board_details_noid)
       = [(''T1'', ''TL1'', True)]"
    by (simp add: board_details_noid_def demo_task_def)
qed

section \<open>The structure view\<close>

lemma format_board_lists:
  "fb_lists (format_board b)
     = map (\<lambda>l. \<lparr>fl_id = list_id l, fl_name = list_name l\<rparr>) (filter (\<lambda>l. list_name l \<noteq> None) (bl_lists b))"
  by (simp add: format_board_def)

lemma format_board_named: "l \<in> set (fb_lists (format_board b)) \<Longrightarrow> fl_name l \<noteq> None"
  by (auto simp: format_board_lists)

lemma getStructureTool_handler_getStructure:
  assumes "getStructureTool_handler E projectId s = (Inr formatted, s')"
  shows "\<exists>structure. getStructure E projectId s = (Inr structure, s') \<and> formatted = format_structure structure"
  using assms
  by (auto simp: getStructureTool_handler_def bind_def return_def split: prod.splits sum.splits)

lemma BoardSchema_demo: "BoardSchema (Some board_item_json) = Some demo_board"
  by (simp add: BoardSchema_def board_item_json_def stamp_def demo_board_def z_nullable_optional_def)

lemma getProjects_demo:
  "getProjects (demo_env srv_structure) logged_in
     = (Inr ([demo_project], [demo_board]), logged_in\<lparr>now := 1010, sent := [projects_req]\<rparr>)"
proof -
  have srv: "server (demo_env srv_structure) (sent logged_in) (api_req demo_cfg ''jwt-1'' ''GET'' ''/api/projects'' None)
        = (Resp 200 ''OK'' (Json projects_response), 5)"
    by (simp add: demo_env_def srv_structure_def srv_table_def api_req_def demo_cfg_def logged_in_def)
  have g: "get (demo_env srv_structure) ''/api/projects'' logged_in
      = (Inr (Some projects_response), logged_in\<lparr>now := 1010, sent := [projects_req]\<rparr>)"
    using get_happy[of logged_in demo_cfg "''jwt-1''" "demo_env srv_structure" "''/api/projects''", OF _ _ _ _ srv]
    by (simp add: logged_in_def projects_req_def)
  have p: "ProjectsResponse (Some projects_response) = Some [demo_project]"
    by (simp add: ProjectsResponse_def MultiItemResponse_def ProjectSchema_def projects_response_def
        stamp_def z_array_def z_optional_def z_nullable_optional_def z_record_any_def demo_project_def)
  have i: "ProjectsIncludedSchema (demo_env srv_structure) (Some (included_or_empty (Some projects_response)))
      = Some (Some [demo_board])"
    by (simp add: ProjectsIncludedSchema_def included_or_empty_def projects_response_def z_optional_def
        z_array_def BoardSchema_demo)
  show ?thesis
    by (simp add: getProjects_def bind_def g zod_parse_def return_def p i or_empty_def)
qed

lemma structure_lists_demo:
  "structure_lists (demo_env srv_structure) (Some board_response) s
     = (Inr [demo_list ''L3'' None None, demo_list ''L2'' (Some ''Doing'') (Some (Fin 131072)),
             demo_list ''L1'' (Some ''Todo'') (Some (Fin 65536))], s)"
  by (simp add: structure_lists_def board_response_def zod_parse_def return_def z_array_def ListSchema_demo)

lemma boards_loop_demo:
  "boards_loop (demo_env srv_structure) [demo_board] [] (logged_in\<lparr>now := 1010, sent := [projects_req]\<rparr>)
     = (Inr [\<lparr>bl_board = demo_board,
              bl_lists = [demo_list ''L3'' None None, demo_list ''L1'' (Some ''Todo'') (Some (Fin 65536)),
                          demo_list ''L2'' (Some ''Doing'') (Some (Fin 131072))]\<rparr>],
        logged_in\<lparr>now := 1015, sent := [projects_req, board_req]\<rparr>)"
proof -
  let ?s = "logged_in\<lparr>now := 1010, sent := [projects_req]\<rparr>"
  have srv: "server (demo_env srv_structure) (sent ?s) (api_req demo_cfg ''jwt-1'' ''GET'' ''/api/boards/B1'' None)
        = (Resp 200 ''OK'' (Json board_response), 5)"
    by (simp add: demo_env_def srv_structure_def srv_table_def api_req_def demo_cfg_def logged_in_def)
  have g: "get (demo_env srv_structure) ''/api/boards/B1'' ?s
      = (Inr (Some board_response), logged_in\<lparr>now := 1015, sent := [projects_req, board_req]\<rparr>)"
    using get_happy[of ?s demo_cfg "''jwt-1''" "demo_env srv_structure" "''/api/boards/B1''", OF _ _ _ _ srv]
    by (simp add: logged_in_def board_req_def)
  have l: "js_sort list_cmp_zero [demo_list ''L3'' None None, demo_list ''L2'' (Some ''Doing'') (Some (Fin 131072)),
             demo_list ''L1'' (Some ''Todo'') (Some (Fin 65536))]
       = [demo_list ''L3'' None None, demo_list ''L1'' (Some ''Todo'') (Some (Fin 65536)),
                          demo_list ''L2'' (Some ''Doing'') (Some (Fin 131072))]"
    by (simp add: js_sort_def list_cmp_zero_def nullish_def demo_list_def)
  have id: "board_id demo_board = ''B1''" by (simp add: demo_board_def)
  show ?thesis
    by (simp add: bind_def id g structure_lists_demo l return_def)
qed

lemma getStructureTool_handler_demo:
  "getStructureTool_handler (demo_env srv_structure) None logged_in
     = (Inr [\<lparr>fp_project = (''P1'', ''Platform''),
              fp_boards = [\<lparr>fb_id = ''B1'', fb_name = ''Dev'',
                            fb_lists = [\<lparr>fl_id = ''L1'', fl_name = Some ''Todo''\<rparr>,
                                        \<lparr>fl_id = ''L2'', fl_name = Some ''Doing''\<rparr>]\<rparr>]\<rparr>],
        logged_in\<lparr>now := 1015, sent := [projects_req, board_req]\<rparr>)"
proof -
  have f: "board_projectId demo_board = project_id demo_project"
    by (simp add: demo_board_def demo_project_def)
  have s: "js_sort (by_position (\<lambda>x. board_position (bl_board x))) [x] = [x]" for x :: BoardWithLists
    by (simp add: js_sort_def)
  have gs: "getStructure (demo_env srv_structure) None logged_in
      = (Inr [\<lparr>ps_project = demo_project,
               ps_boards = [\<lparr>bl_board = demo_board,
                  bl_lists = [demo_list ''L3'' None None, demo_list ''L1'' (Some ''Todo'') (Some (Fin 65536)),
                              demo_list ''L2'' (Some ''Doing'') (Some (Fin 131072))]\<rparr>]\<rparr>],
         logged_in\<lparr>now := 1015, sent := [projects_req, board_req]\<rparr>)"
    by (simp add: getStructure_def bind_def getProjects_demo f boards_loop_demo s return_def
        del: boards_loop.simps)
  show ?thesis
    by (simp add: getStructureTool_handler_def bind_def gs return_def format_structure_def
        format_board_def demo_list_def demo_board_def demo_project_def)
qed

text \<open>
  Claim C8. What the structure tool returns is the formatted result of
  \<^verbatim>\<open>getStructure\<close>; no list in it has a null name, and the lists of each board are, in the
  same order, the lists of the assembled structure whose name is not null.
\<close>

theorem structure_view_omits_unnamed_lists:
  assumes "getStructureTool_handler E projectId s = (Inr formatted, s')"
  shows "\<exists>structure. getStructure E projectId s = (Inr structure, s')
      \<and> formatted = format_structure structure
      \<and> (\<forall>p\<in>set formatted. \<forall>b\<in>set (fp_boards p). \<forall>l\<in>set (fb_lists b). fl_name l \<noteq> None)
      \<and> map (\<lambda>p. map (\<lambda>b. map (\<lambda>l. (fl_id l, fl_name l)) (fb_lists b)) (fp_boards p)) formatted
          = map (\<lambda>p. map (\<lambda>b. map (\<lambda>l. (list_id l, list_name l))
                                 (filter (\<lambda>l. list_name l \<noteq> None) (bl_lists b))) (ps_boards p)) structure"
proof -
  from getStructureTool_handler_getStructure[OF assms] obtain st where
    g: "getStructure E projectId s = (Inr st, s')" and f: "formatted = format_structure st"
    by blast
  have named: "\<forall>p\<in>set formatted. \<forall>b\<in>set (fp_boards p). \<forall>l\<in>set (fb_lists b). fl_name l \<noteq> None"
    unfolding f format_structure_def by (auto dest: format_board_named)
  have kept: "map (\<lambda>p. map (\<lambda>b. map (\<lambda>l. (fl_id l, fl_name l)) (fb_lists b)) (fp_boards p)) formatted
          = map (\<lambda>p. map (\<lambda>b. map (\<lambda>l. (list_id l, list_name l))
                                 (filter (\<lambda>l. list_name l \<noteq> None) (bl_lists b))) (ps_boards p)) st"
    unfolding f format_structure_def by (simp add: comp_def format_board_lists)
  from g f named kept show ?thesis by blast
qed

theorem structure_view_omits_unnamed_lists_witness:
  "getStructureTool_handler (demo_env srv_structure) None logged_in
     = (Inr [\<lparr>fp_project = (''P1'', ''Platform''),
              fp_boards = [\<lparr>fb_id = ''B1'', fb_name = ''Dev'',
                            fb_lists = [\<lparr>fl_id = ''L1'', fl_name = Some ''Todo''\<rparr>,
                                        \<lparr>fl_id = ''L2'', fl_name = Some ''Doing''\<rparr>]\<rparr>]\<rparr>],
        logged_in\<lparr>now := 1015, sent := [projects_req, board_req]\<rparr>)
   \<and> (\<exists>st. getStructure (demo_env srv_structure) None logged_in
              = (Inr st, logged_in\<lparr>now := 1015, sent := [projects_req, board_req]\<rparr>)
          \<and> map (\<lambda>p. map (\<lambda>b. map (\<lambda>l. (list_id l, list_name l))
                                 (filter (\<lambda>l. list_name l \<noteq> None) (bl_lists b))) (ps_boards p)) st
              = [[[(''L1'', Some ''Todo''), (''L2'', Some ''Doing'')]]])"
  using structure_view_omits_unnamed_lists[OF getStructureTool_handler_demo] getStructureTool_handler_demo
  by auto

section \<open>Removing a label from a card\<close>

lemma removeLabelFromCard_unfold:
  assumes "getCard E cardId s = (Inr details, s1)"
  shows
   "(find (\<lambda>cl. cardLabel_labelId cl = labelId) (cd_cardLabels details) = None \<longrightarrow>
       removeLabelFromCard E cardId labelId s = (Inr (), s1)
     \<and> sends_only (\<lambda>m p b. m = ''GET'' \<and> p = ''/api/cards/'' @ cardId \<and> b = None) s s1)
  \<and> (\<forall>cl r s2.
        find (\<lambda>cl. cardLabel_labelId cl = labelId) (cd_cardLabels details) = Some cl
      \<and> delete E (''/api/card-labels/'' @ cardLabel_id cl) s1 = (Inr r, s2) \<longrightarrow>
        removeLabelFromCard E cardId labelId s = (Inr (), s2)
      \<and> sends_only (\<lambda>m p b. m = ''DELETE'' \<and> p = ''/api/card-labels/'' @ cardLabel_id cl \<and> b = None) s1 s2)
  \<and> (\<forall>cl e s2 r s3.
        find (\<lambda>cl. cardLabel_labelId cl = labelId) (cd_cardLabels details) = Some cl
      \<and> delete E (''/api/card-labels/'' @ cardLabel_id cl) s1 = (Inl e, s2)
      \<and> delete E (''/api/cards/'' @ cardId @ ''/card-labels/'' @ cardLabel_id cl) s2 = (r, s3) \<longrightarrow>
        removeLabelFromCard E cardId labelId s = (map_sum id (\<lambda>x. ()) r, s3)
      \<and> sends_only (\<lambda>m p b. m = ''DELETE'' \<and> p = ''/api/card-labels/'' @ cardLabel_id cl \<and> b = None) s1 s2
      \<and> sends_only (\<lambda>m p b. m = ''DELETE''
            \<and> p = ''/api/cards/'' @ cardId @ ''/card-labels/'' @ cardLabel_id cl \<and> b = None) s2 s3)"
proof (intro conjI impI allI)
  assume n: "find (\<lambda>cl. cardLabel_labelId cl = labelId) (cd_cardLabels details) = None"
  show "removeLabelFromCard E cardId labelId s = (Inr (), s1)"
    using assms n by (simp add: removeLabelFromCard_def bind_def return_def)
  show "sends_only (\<lambda>m p b. m = ''GET'' \<and> p = ''/api/cards/'' @ cardId \<and> b = None) s s1"
    using assms by (rule getCard_sends)
next
  fix cl r s2
  assume h: "find (\<lambda>cl. cardLabel_labelId cl = labelId) (cd_cardLabels details) = Some cl
      \<and> delete E (''/api/card-labels/'' @ cardLabel_id cl) s1 = (Inr r, s2)"
  show "removeLabelFromCard E cardId labelId s = (Inr (), s2)"
    using assms h by (simp add: removeLabelFromCard_def bind_def return_def try_catch_def)
  from h have "delete E (''/api/card-labels/'' @ cardLabel_id cl) s1 = (Inr r, s2)" by simp
  then show "sends_only (\<lambda>m p b. m = ''DELETE'' \<and> p = ''/api/card-labels/'' @ cardLabel_id cl \<and> b = None) s1 s2"
    by (rule delete_sends)
next
  fix cl e s2 r s3
  assume h: "find (\<lambda>cl. cardLabel_labelId cl = labelId) (cd_cardLabels details) = Some cl
      \<and> delete E (''/api/card-labels/'' @ cardLabel_id cl) s1 = (Inl e, s2)
      \<and> delete E (''/api/cards/'' @ cardId @ ''/card-labels/'' @ cardLabel_id cl) s2 = (r, s3)"
  show "removeLabelFromCard E cardId labelId s = (map_sum id (\<lambda>x. ()) r, s3)"
    using assms h by (cases r) (simp_all add: removeLabelFromCard_def bind_def return_def try_catch_def)
  from h have d1: "delete E (''/api/card-labels/'' @ cardLabel_id cl) s1 = (Inl e, s2)"
    and d2: "delete E (''/api/cards/'' @ cardId @ ''/card-labels/'' @ cardLabel_id cl) s2 = (r, s3)"
    by simp_all
  from d1 show "sends_only (\<lambda>m p b. m = ''DELETE'' \<and> p = ''/api/card-labels/'' @ cardLabel_id cl \<and> b = None) s1 s2"
    by (rule delete_sends)
  from d2 show "sends_only (\<lambda>m p b. m = ''DELETE''
            \<and> p = ''/api/cards/'' @ cardId @ ''/card-labels/'' @ cardLabel_id cl \<and> b = None) s2 s3"
    by (rule delete_sends)
qed


lemma removeLabelFromCard_sends:
  assumes "removeLabelFromCard E cardId labelId s = (res, s')"
  shows "sends_only (\<lambda>m p b. m = ''GET'' \<or> m = ''DELETE'') s s'"
proof -
  let ?P = "\<lambda>m p b. m = ''GET'' \<or> m = ''DELETE''"
  obtain r1 s1 where g: "getCard E cardId s = (r1, s1)" by (cases "getCard E cardId s")
  have gs: "sends_only ?P s s1"
    using getCard_sends[OF g] by (rule sends_only_mono) simp
  show ?thesis
  proof (cases r1)
    case (Inl e)
    then have "s' = s1" using assms g by (simp add: removeLabelFromCard_def bind_def)
    with gs show ?thesis by simp
  next
    case (Inr details)
    note g' = g[unfolded Inr]
    note U = removeLabelFromCard_unfold[OF g', of labelId]
    show ?thesis
    proof (cases "find (\<lambda>cl. cardLabel_labelId cl = labelId) (cd_cardLabels details)")
      case None
      with U assms have "s' = s1" by simp
      with gs show ?thesis by simp
    next
      case (Some cl)
      obtain r2 s2 where d1: "delete E (''/api/card-labels/'' @ cardLabel_id cl) s1 = (r2, s2)"
        by (cases "delete E (''/api/card-labels/'' @ cardLabel_id cl) s1")
      have ds1: "sends_only ?P s1 s2" using delete_sends[OF d1] by (rule sends_only_mono) simp
      show ?thesis
      proof (cases r2)
        case (Inr x)
        with U Some d1 assms have "s' = s2" by simp
        with gs ds1 show ?thesis using sends_only_trans by blast
      next
        case (Inl e)
        obtain r3 s3 where d2: "delete E (''/api/cards/'' @ cardId @ ''/card-labels/'' @ cardLabel_id cl) s2 = (r3, s3)"
          by (cases "delete E (''/api/cards/'' @ cardId @ ''/card-labels/'' @ cardLabel_id cl) s2")
        have ds2: "sends_only ?P s2 s3" using delete_sends[OF d2] by (rule sends_only_mono) simp
        from U Some d1 d2 Inl assms have "s' = s3" by simp
        with gs ds1 ds2 show ?thesis using sends_only_trans by blast
      qed
    qed
  qed
qed

lemma CardLabelSchema_demo:
  "CardLabelSchema (Some (cardLabel_json i c l)) = Some (demo_cardLabel i c l)"
  by (simp add: CardLabelSchema_def cardLabel_json_def stamp_def demo_cardLabel_def z_nullable_optional_def)

lemma logged_in_at: "logged_in = logged_in_at 1005 []"
  by (simp add: logged_in_def logged_in_at_def)

text \<open>One request of a logged-in client.\<close>

lemma demo_call:
  assumes "t < 1501005" and "srv rs (demo_req m p b) = (Resp st txt raw, dt)" and "st \<noteq> 401"
  shows "request (demo_env srv) m p b False (logged_in_at t rs)
           = (if st = 204 then Inr None
              else if \<not> ok st then Inl (createPlankaError (demo_env srv) st (safeParseJson raw) (m @ '' '' @ p))
              else Inr (Some (safeParseJson raw)),
              logged_in_at (t + dt) (rs @ [demo_req m p b]))"
proof -
  have "server (demo_env srv) (sent (logged_in_at t rs)) (api_req demo_cfg ''jwt-1'' m p b)
          = (Resp st txt raw, dt)"
    using assms(2) by (simp add: demo_env_def logged_in_at_def demo_req_def)
  from request_answer[of "logged_in_at t rs" demo_cfg "''jwt-1''" "demo_env srv" m p b st _ raw dt False, OF _ _ _ _ this assms(3)]
  show ?thesis using assms(1) by (simp add: logged_in_at_def demo_req_def)
qed

lemma srv_card_answers:
  "srv_card rs (demo_req ''GET'' ''/api/cards/C1'' None) = (Resp 200 ''OK'' (Json card_response_C1), 5)"
  "srv_card rs (demo_req ''GET'' ''/api/cards/C2'' None) = (Resp 200 ''OK'' (Json card_response_C2), 5)"
  "srv_card rs (demo_req ''DELETE'' ''/api/card-labels/CL1'' None) = (Resp 404 ''Not Found'' (NotJson ''Unexpected end of JSON input''), 5)"
  "srv_card rs (demo_req ''DELETE'' ''/api/cards/C1/card-labels/CL1'' None) = (Resp 204 ''No Content'' (NotJson ''Unexpected end of JSON input''), 5)"
  "srv_card rs (demo_req ''POST'' ''/api/cards/C1/task-lists'' b)
     = (Resp 200 ''OK'' (Json (JObj [(''item'', taskList_json ''TL9'' ''C1'' 65536)])), 5)"
  "srv_card rs (demo_req ''POST'' ''/api/task-lists/TL9/tasks'' b)
     = (Resp 200 ''OK'' (Json (JObj [(''item'', task_json ''T9'' ''TL9'' False)])), 5)"
  "srv_card rs (demo_req ''POST'' ''/api/task-lists/TL1/tasks'' b)
     = (Resp 200 ''OK'' (Json (JObj [(''item'', task_json ''T8'' ''TL1'' False)])), 5)"
  by (simp_all add: srv_card_def srv_table_def demo_req_def api_req_def demo_cfg_def)

lemma getCard_C1:
  assumes "t < 1501005"
  shows "getCard (demo_env srv_card) ''C1'' (logged_in_at t rs)
     = (Inr \<lparr>cd_card = demo_card ''C1'' ''project'', cd_taskLists = [], cd_tasks = [], cd_labels = [],
              cd_cardLabels = [demo_cardLabel ''CL1'' ''C1'' ''LB1'']\<rparr>,
        logged_in_at (t + 5) (rs @ [demo_req ''GET'' ''/api/cards/C1'' None]))"
proof -
  have g: "get (demo_env srv_card) ''/api/cards/C1'' (logged_in_at t rs)
      = (Inr (Some card_response_C1), logged_in_at (t + 5) (rs @ [demo_req ''GET'' ''/api/cards/C1'' None]))"
    using demo_call[where srv = srv_card, OF assms srv_card_answers(1)] by (simp add: get_def ok_def safeParseJson_def)
  have c: "CardResponse (Some card_response_C1) = Some (demo_card ''C1'' ''project'')"
    by (simp add: CardResponse_def SingleItemResponse_def card_response_C1_def CardSchema_demo
        z_optional_def z_record_any_def)
  have i: "CardIncludedSchema (demo_env srv_card) (Some (included_or_empty (Some card_response_C1)))
      = Some \<lparr>ci_taskLists = None, ci_tasks = None, ci_labels = None,
               ci_cardLabels = Some [demo_cardLabel ''CL1'' ''C1'' ''LB1'']\<rparr>"
    by (simp add: CardIncludedSchema_def included_or_empty_def card_response_C1_def z_optional_def
        z_array_def CardLabelSchema_demo)
  show ?thesis
    by (simp add: getCard_def bind_def g zod_parse_def return_def c i or_empty_def js_sort_def)
qed

text \<open>
  Claim C7. Once the card is fetched: if none of its card labels has the requested label
  id, \<^verbatim>\<open>removeLabelFromCard\<close> returns without error in the state the fetch left, and all
  it has sent is the GET of the card. If one has, the direct DELETE of the junction record
  comes first; if that succeeds the operation succeeds; if it fails, whatever the error,
  the DELETE nested under the card follows, and the operation returns what that second
  attempt returns, so it fails exactly when both attempts fail.
\<close>

theorem removeLabelFromCard_noop_or_delete_with_fallback:
  assumes "getCard E cardId s = (Inr details, s1)"
  shows
   "(find (\<lambda>cl. cardLabel_labelId cl = labelId) (cd_cardLabels details) = None \<longrightarrow>
       removeLabelFromCard E cardId labelId s = (Inr (), s1)
     \<and> sends_only (\<lambda>m p b. m = ''GET'' \<and> p = ''/api/cards/'' @ cardId \<and> b = None) s s1)
  \<and> (\<forall>cl r s2.
        find (\<lambda>cl. cardLabel_labelId cl = labelId) (cd_cardLabels details) = Some cl
      \<and> delete E (''/api/card-labels/'' @ cardLabel_id cl) s1 = (Inr r, s2) \<longrightarrow>
        removeLabelFromCard E cardId labelId s = (Inr (), s2)
      \<and> sends_only (\<lambda>m p b. m = ''DELETE'' \<and> p = ''/api/card-labels/'' @ cardLabel_id cl \<and> b = None) s1 s2)
  \<and> (\<forall>cl e s2 r s3.
        find (\<lambda>cl. cardLabel_labelId cl = labelId) (cd_cardLabels details) = Some cl
      \<and> delete E (''/api/card-labels/'' @ cardLabel_id cl) s1 = (Inl e, s2)
      \<and> delete E (''/api/cards/'' @ cardId @ ''/card-labels/'' @ cardLabel_id cl) s2 = (r, s3) \<longrightarrow>
        removeLabelFromCard E cardId labelId s = (map_sum id (\<lambda>x. ()) r, s3)
      \<and> sends_only (\<lambda>m p b. m = ''DELETE'' \<and> p = ''/api/card-labels/'' @ cardLabel_id cl \<and> b = None) s1 s2
      \<and> sends_only (\<lambda>m p b. m = ''DELETE''
            \<and> p = ''/api/cards/'' @ cardId @ ''/card-labels/'' @ cardLabel_id cl \<and> b = None) s2 s3)"
  by (rule removeLabelFromCard_unfold[OF assms])

theorem removeLabelFromCard_noop_or_delete_with_fallback_witness:
  "removeLabelFromCard (demo_env srv_card) ''C1'' ''LB9'' logged_in
     = (Inr (), logged_in_at 1010 [demo_req ''GET'' ''/api/cards/C1'' None])
   \<and> removeLabelFromCard (demo_env srv_card) ''C1'' ''LB1'' logged_in
     = (Inr (), logged_in_at 1020 [demo_req ''GET'' ''/api/cards/C1'' None,
                                   demo_req ''DELETE'' ''/api/card-labels/CL1'' None,
                                   demo_req ''DELETE'' ''/api/cards/C1/card-labels/CL1'' None])"
proof
  have g: "getCard (demo_env srv_card) ''C1'' logged_in
     = (Inr \<lparr>cd_card = demo_card ''C1'' ''project'', cd_taskLists = [], cd_tasks = [], cd_labels = [],
              cd_cardLabels = [demo_cardLabel ''CL1'' ''C1'' ''LB1'']\<rparr>,
        logged_in_at 1010 [demo_req ''GET'' ''/api/cards/C1'' None])"
    using getCard_C1[of 1005 "[]"] by (simp add: logged_in_at)
  note T = removeLabelFromCard_noop_or_delete_with_fallback[OF g]
  have n: "find (\<lambda>cl. cardLabel_labelId cl = ''LB9'')
             (cd_cardLabels \<lparr>cd_card = demo_card ''C1'' ''project'', cd_taskLists = [], cd_tasks = [],
                 cd_labels = [], cd_cardLabels = [demo_cardLabel ''CL1'' ''C1'' ''LB1'']\<rparr>) = None"
    by (simp add: demo_cardLabel_def)
  from T[of "''LB9''", THEN conjunct1, rule_format, OF n, THEN conjunct1]
  show "removeLabelFromCard (demo_env srv_card) ''C1'' ''LB9'' logged_in
     = (Inr (), logged_in_at 1010 [demo_req ''GET'' ''/api/cards/C1'' None])" .
next
  have g: "getCard (demo_env srv_card) ''C1'' logged_in
     = (Inr \<lparr>cd_card = demo_card ''C1'' ''project'', cd_taskLists = [], cd_tasks = [], cd_labels = [],
              cd_cardLabels = [demo_cardLabel ''CL1'' ''C1'' ''LB1'']\<rparr>,
        logged_in_at 1010 [demo_req ''GET'' ''/api/cards/C1'' None])"
    using getCard_C1[of 1005 "[]"] by (simp add: logged_in_at)
  note T = removeLabelFromCard_noop_or_delete_with_fallback[OF g]
  let ?s1 = "logged_in_at 1010 [demo_req ''GET'' ''/api/cards/C1'' None]"
  let ?s2 = "logged_in_at 1015 [demo_req ''GET'' ''/api/cards/C1'' None,
                                   demo_req ''DELETE'' ''/api/card-labels/CL1'' None]"
  let ?s3 = "logged_in_at 1020 [demo_req ''GET'' ''/api/cards/C1'' None,
                                   demo_req ''DELETE'' ''/api/card-labels/CL1'' None,
                                   demo_req ''DELETE'' ''/api/cards/C1/card-labels/CL1'' None]"
  let ?e = "PlankaNotFoundError ''Resource not found: DELETE /api/card-labels/CL1''"
  have d1: "delete (demo_env srv_card) ''/api/card-labels/CL1'' ?s1 = (Inl ?e, ?s2)"
    using demo_call[where srv = srv_card and t = 1010 and rs = "[demo_req ''GET'' ''/api/cards/C1'' None]",
        OF _ srv_card_answers(3)]
    by (simp add: delete_def ok_def createPlankaError_def safeParseJson_def)
  have d2: "delete (demo_env srv_card) ''/api/cards/C1/card-labels/CL1'' ?s2 = (Inr None, ?s3)"
    using demo_call[where srv = srv_card and t = 1015 and rs = "[demo_req ''GET'' ''/api/cards/C1'' None,
                                   demo_req ''DELETE'' ''/api/card-labels/CL1'' None]",
        OF _ srv_card_answers(4)]
    by (simp add: delete_def)
  have h: "find (\<lambda>cl. cardLabel_labelId cl = ''LB1'')
             (cd_cardLabels \<lparr>cd_card = demo_card ''C1'' ''project'', cd_taskLists = [], cd_tasks = [],
                 cd_labels = [], cd_cardLabels = [demo_cardLabel ''CL1'' ''C1'' ''LB1'']\<rparr>)
             = Some (demo_cardLabel ''CL1'' ''C1'' ''LB1'')
      \<and> delete (demo_env srv_card) (''/api/card-labels/'' @ cardLabel_id (demo_cardLabel ''CL1'' ''C1'' ''LB1'')) ?s1
            = (Inl ?e, ?s2)
      \<and> delete (demo_env srv_card) (''/api/cards/'' @ ''C1'' @ ''/card-labels/'' @ cardLabel_id (demo_cardLabel ''CL1'' ''C1'' ''LB1'')) ?s2
            = (Inr None, ?s3)"
    using d1 d2 by (simp add: demo_cardLabel_def)
  from T[of "''LB1''", THEN conjunct2, THEN conjunct2, rule_format, OF h, THEN conjunct1]
  show "removeLabelFromCard (demo_env srv_card) ''C1'' ''LB1'' logged_in = (Inr (), ?s3)" by simp
qed

section \<open>Creating tasks\<close>










text \<open>A successful request has sent its call, once or twice, and nothing else.\<close>

lemma once_or_twice_single: "once_or_twice [c] [c]" "once_or_twice [c] [c, c]"
  by simp_all


lemma once_or_twice_length: "once_or_twice xs ys \<Longrightarrow> length xs \<le> length ys"
proof (induction xs ys rule: once_or_twice.induct)
  case (3 x xs y ys)
  then show ?case by (auto split: list.splits)
qed simp_all

















section \<open>Replacing the labels of a card\<close>

lemma sends_only_prefix: "sends_only P s s' \<Longrightarrow> prefix (sent s) (sent s')"
  by (auto simp: sends_only_def)

lemma for_each_append:
  "for_each f (xs @ ys) s
     = (case for_each f xs s of (Inl e, s') \<Rightarrow> (Inl e, s') | (Inr u, s') \<Rightarrow> for_each f ys s')"
  by (induction xs arbitrary: s) (auto simp: return_def bind_def split: prod.splits sum.splits)

lemma for_each_sends:
  assumes "\<And>x s r s'. f x s = (r, s') \<Longrightarrow> sends_only P s s'"
    and "for_each f xs s = (res, s')"
  shows "sends_only P s s'"
  using assms(2)
proof (induction xs arbitrary: s)
  case Nil
  then show ?case by (simp add: return_def)
next
  case (Cons x xs)
  obtain r1 s1 where f: "f x s = (r1, s1)" by (cases "f x s")
  from assms(1)[OF f] have st: "sends_only P s s1" .
  show ?case
  proof (cases r1)
    case (Inl e)
    then have "s' = s1" using Cons.prems f by (simp add: bind_def)
    with st show ?thesis by simp
  next
    case (Inr u)
    then have "for_each f xs s1 = (res, s')" using Cons.prems f by (simp add: bind_def)
    from Cons.IH[OF this] st show ?thesis using sends_only_trans by blast
  qed
qed

lemma for_each_each:
  assumes "\<And>x s r s'. f x s = (r, s') \<Longrightarrow> prefix (sent s) (sent s')"
    and "for_each f xs s = (Inr (), s')"
  shows "prefix (sent s) (sent s')
       \<and> (\<forall>x\<in>set xs. \<exists>sa sb. prefix (sent s) (sent sa) \<and> prefix (sent sb) (sent s') \<and> f x sa = (Inr (), sb))"
  using assms(2)
proof (induction xs arbitrary: s)
  case Nil
  then show ?case by (simp add: return_def)
next
  case (Cons x xs)
  obtain r1 s1 where f: "f x s = (r1, s1)" by (cases "f x s")
  from assms(1)[OF f] have p1: "prefix (sent s) (sent s1)" .
  from Cons.prems f have r1: "r1 = Inr ()" and rest: "for_each f xs s1 = (Inr (), s')"
    by (cases r1; simp add: bind_def)+
  from Cons.IH[OF rest] have p2: "prefix (sent s1) (sent s')"
    and ih: "\<forall>y\<in>set xs. \<exists>sa sb. prefix (sent s1) (sent sa) \<and> prefix (sent sb) (sent s') \<and> f y sa = (Inr (), sb)"
    by simp_all
  have here: "\<exists>sa sb. prefix (sent s) (sent sa) \<and> prefix (sent sb) (sent s') \<and> f x sa = (Inr (), sb)"
    using f r1 p2 by (intro exI[of _ s] exI[of _ s1]) simp
  have there: "\<forall>y\<in>set xs. \<exists>sa sb. prefix (sent s) (sent sa) \<and> prefix (sent sb) (sent s') \<and> f y sa = (Inr (), sb)"
  proof
    fix y assume "y \<in> set xs"
    with ih obtain sa sb where "prefix (sent s1) (sent sa)" "prefix (sent sb) (sent s')" "f y sa = (Inr (), sb)"
      by blast
    with p1 show "\<exists>sa sb. prefix (sent s) (sent sa) \<and> prefix (sent sb) (sent s') \<and> f y sa = (Inr (), sb)"
      by (intro exI[of _ sa] exI[of _ sb]) (auto intro: prefix_order.trans)
  qed
  from p1 p2 here there show ?case by (auto intro: prefix_order.trans)
qed

lemma addLabelToCard_unfold:
  "addLabelToCard E (JObj [(''cardId'', JStr cardId), (''labelId'', JStr labelId)])
     = bind (post E (''/api/cards/'' @ cardId @ ''/card-labels'') (JObj [(''labelId'', JStr labelId)]))
         (zod_parse E CardLabelResponse)"
  by (rule ext)
     (simp add: addLabelToCard_def zod_parse_bind AddLabelToCardSchema_def json_obj_def List.map_filter_def)

lemma addLabelToCard_sends:
  assumes "addLabelToCard E (JObj [(''cardId'', JStr cardId), (''labelId'', JStr labelId)]) s = (r, s')"
  shows "sends_only (\<lambda>m p b. m = ''POST'' \<and> p = ''/api/cards/'' @ cardId @ ''/card-labels''
            \<and> b = Some (JObj [(''labelId'', JStr labelId)])) s s'"
proof -
  obtain r1 s1 where p: "post E (''/api/cards/'' @ cardId @ ''/card-labels'') (JObj [(''labelId'', JStr labelId)]) s = (r1, s1)"
    by (cases "post E (''/api/cards/'' @ cardId @ ''/card-labels'') (JObj [(''labelId'', JStr labelId)]) s")
  have "s' = s1" using assms p unfolding addLabelToCard_unfold
    by (cases r1) (auto simp: bind_def dest: zod_parse_state)
  with post_sends[OF p] show ?thesis by simp
qed

lemma add_label_step_unfold:
  "add_label_step E cardId labelId s
     = (case addLabelToCard E (JObj [(''cardId'', JStr cardId), (''labelId'', JStr labelId)]) s of
          (Inl e, s') \<Rightarrow> if str_includes (message_of e) ''already'' then (Inr (), s') else (Inl e, s')
        | (Inr x, s') \<Rightarrow> (Inr (), s'))"
  by (simp add: add_label_step_def try_catch_def bind_def return_def throw_def split: prod.splits sum.splits)

lemma add_label_step_sends:
  assumes "add_label_step E cardId labelId s = (r, s')"
  shows "sends_only (\<lambda>m p b. m = ''POST'' \<and> p = ''/api/cards/'' @ cardId @ ''/card-labels''
            \<and> b = Some (JObj [(''labelId'', JStr labelId)])) s s'"
proof -
  obtain r1 s1 where a: "addLabelToCard E (JObj [(''cardId'', JStr cardId), (''labelId'', JStr labelId)]) s = (r1, s1)"
    by (cases "addLabelToCard E (JObj [(''cardId'', JStr cardId), (''labelId'', JStr labelId)]) s")
  have "s' = s1" using assms a unfolding add_label_step_unfold by (cases r1) (auto split: if_splits)
  with addLabelToCard_sends[OF a] show ?thesis by simp
qed

lemma demo_req_sel:
  "meth (demo_req m p b) = m" "url (demo_req m p b) = ''http://planka'' @ p"
  by (simp_all add: demo_req_def api_req_def demo_cfg_def)

lemma srv_labels_add_attached:
  "srv_labels [] (demo_req ''POST'' ''/api/cards/C1/card-labels'' b)
     = (Resp 409 ''Conflict'' (Json (JObj [(''message'', JStr ''Label already in card'')])), 5)"
  by (simp add: srv_labels_def demo_req_sel label_attached_def)

lemma srv_labels_add_archived:
  "srv_labels [] (demo_req ''POST'' ''/api/cards/C9/card-labels'' b)
     = (Resp 403 ''Forbidden'' (Json (JObj [(''message'', JStr ''Board already archived'')])), 5)"
  by (simp add: srv_labels_def demo_req_sel label_attached_def)

lemma already_in_message:
  "str_includes ''Label already in card (POST /api/cards/C1/card-labels)'' ''already''"
  "str_includes ''Board already archived (POST /api/cards/C9/card-labels)'' ''already''"
  by simp_all

lemma addLabelToCard_attached:
  "addLabelToCard (demo_env srv_labels) (JObj [(''cardId'', JStr ''C1''), (''labelId'', JStr ''LB1'')]) logged_in
     = (Inl (PlankaError ''Label already in card (POST /api/cards/C1/card-labels)'' 409),
        logged_in_at 1010 [demo_req ''POST'' ''/api/cards/C1/card-labels'' (Some (add_body ''LB1''))])"
proof -
  have "post (demo_env srv_labels) ''/api/cards/C1/card-labels'' (add_body ''LB1'') (logged_in_at 1005 [])
     = (Inl (PlankaError ''Label already in card (POST /api/cards/C1/card-labels)'' 409),
        logged_in_at 1010 [demo_req ''POST'' ''/api/cards/C1/card-labels'' (Some (add_body ''LB1''))])"
    using demo_call[where srv = srv_labels and t = 1005 and rs = "[]", OF _ srv_labels_add_attached]
    by (simp add: post_def ok_def createPlankaError_def safeParseJson_def)
  then show ?thesis
    unfolding addLabelToCard_unfold by (simp add: bind_def logged_in_at add_body_def)
qed

lemma addLabelToCard_archived:
  "addLabelToCard (demo_env srv_labels) (JObj [(''cardId'', JStr ''C9''), (''labelId'', JStr ''LB1'')]) logged_in
     = (Inl (PlankaPermissionError ''Board already archived (POST /api/cards/C9/card-labels)''),
        logged_in_at 1010 [demo_req ''POST'' ''/api/cards/C9/card-labels'' (Some (add_body ''LB1''))])"
proof -
  have "post (demo_env srv_labels) ''/api/cards/C9/card-labels'' (add_body ''LB1'') (logged_in_at 1005 [])
     = (Inl (PlankaPermissionError ''Board already archived (POST /api/cards/C9/card-labels)''),
        logged_in_at 1010 [demo_req ''POST'' ''/api/cards/C9/card-labels'' (Some (add_body ''LB1''))])"
    using demo_call[where srv = srv_labels and t = 1005 and rs = "[]", OF _ srv_labels_add_archived]
    by (simp add: post_def ok_def createPlankaError_def safeParseJson_def)
  then show ?thesis
    unfolding addLabelToCard_unfold by (simp add: bind_def logged_in_at add_body_def)
qed

lemma srv_labels_cycle:
  "srv_labels [] (demo_req ''GET'' ''/api/cards/C1'' None) = (Resp 200 ''OK'' (Json card_response_C1), 5)"
  "srv_labels [demo_req ''GET'' ''/api/cards/C1'' None] (demo_req ''DELETE'' ''/api/card-labels/CL1'' None)
     = (Resp 204 ''No Content'' (NotJson ''Unexpected end of JSON input''), 5)"
  "srv_labels [demo_req ''GET'' ''/api/cards/C1'' None, demo_req ''DELETE'' ''/api/card-labels/CL1'' None]
      (demo_req ''POST'' ''/api/cards/C1/card-labels'' b)
     = (Resp 200 ''OK'' (Json (JObj [(''item'', cardLabel_json ''CL1'' ''C1'' ''LB1'')])), 5)"
  by (simp_all add: srv_labels_def demo_req_sel label_attached_def card_response_C1_def)

lemma setCardLabels_replaces_demo:
  "setCardLabels (demo_env srv_labels) ''C1'' (Some [''LB1'']) (Some [''LB1'']) logged_in
     = (Inr (), logged_in_at 1020 [demo_req ''GET'' ''/api/cards/C1'' None,
                                   demo_req ''DELETE'' ''/api/card-labels/CL1'' None,
                                   demo_req ''POST'' ''/api/cards/C1/card-labels'' (Some (add_body ''LB1''))])"
proof -
  let ?E = "demo_env srv_labels"
  let ?details = "\<lparr>cd_card = demo_card ''C1'' ''project'', cd_taskLists = [], cd_tasks = [], cd_labels = [],
              cd_cardLabels = [demo_cardLabel ''CL1'' ''C1'' ''LB1'']\<rparr>"
  let ?s1 = "logged_in_at 1010 [demo_req ''GET'' ''/api/cards/C1'' None]"
  let ?s2 = "logged_in_at 1015 [demo_req ''GET'' ''/api/cards/C1'' None,
                                demo_req ''DELETE'' ''/api/card-labels/CL1'' None]"
  let ?s3 = "logged_in_at 1020 [demo_req ''GET'' ''/api/cards/C1'' None,
                                demo_req ''DELETE'' ''/api/card-labels/CL1'' None,
                                demo_req ''POST'' ''/api/cards/C1/card-labels'' (Some (add_body ''LB1''))]"
  have g0: "get ?E ''/api/cards/C1'' (logged_in_at 1005 [])
      = (Inr (Some card_response_C1), ?s1)"
    using demo_call[where srv = srv_labels and t = 1005 and rs = "[]", OF _ srv_labels_cycle(1)]
    by (simp add: get_def ok_def safeParseJson_def)
  have c: "CardResponse (Some card_response_C1) = Some (demo_card ''C1'' ''project'')"
    by (simp add: CardResponse_def SingleItemResponse_def card_response_C1_def CardSchema_demo
        z_optional_def z_record_any_def)
  have i: "CardIncludedSchema ?E (Some (included_or_empty (Some card_response_C1)))
      = Some \<lparr>ci_taskLists = None, ci_tasks = None, ci_labels = None,
               ci_cardLabels = Some [demo_cardLabel ''CL1'' ''C1'' ''LB1'']\<rparr>"
    by (simp add: CardIncludedSchema_def included_or_empty_def card_response_C1_def z_optional_def
        z_array_def CardLabelSchema_demo)
  have g: "getCard ?E ''C1'' logged_in = (Inr ?details, ?s1)"
    by (simp add: logged_in_at getCard_def bind_def g0 zod_parse_def return_def c i or_empty_def js_sort_def)
  have d1: "delete ?E ''/api/card-labels/CL1'' ?s1 = (Inr None, ?s2)"
    using demo_call[where srv = srv_labels and t = 1010 and rs = "[demo_req ''GET'' ''/api/cards/C1'' None]",
        OF _ srv_labels_cycle(2)]
    by (simp add: delete_def)
  have h: "find (\<lambda>cl. cardLabel_labelId cl = ''LB1'') (cd_cardLabels ?details)
             = Some (demo_cardLabel ''CL1'' ''C1'' ''LB1'')
      \<and> delete ?E (''/api/card-labels/'' @ cardLabel_id (demo_cardLabel ''CL1'' ''C1'' ''LB1'')) ?s1
            = (Inr None, ?s2)"
    using d1 by (simp add: demo_cardLabel_def)
  from removeLabelFromCard_unfold[OF g, of "''LB1''", THEN conjunct2, THEN conjunct1, rule_format, OF h, THEN conjunct1]
  have rem: "removeLabelFromCard ?E ''C1'' ''LB1'' logged_in = (Inr (), ?s2)" .
  have p: "post ?E ''/api/cards/C1/card-labels'' (add_body ''LB1'') ?s2
     = (Inr (Some (JObj [(''item'', cardLabel_json ''CL1'' ''C1'' ''LB1'')])), ?s3)"
    using demo_call[where srv = srv_labels and t = 1015 and rs = "[demo_req ''GET'' ''/api/cards/C1'' None,
                                demo_req ''DELETE'' ''/api/card-labels/CL1'' None]", OF _ srv_labels_cycle(3)]
    by (simp add: post_def ok_def safeParseJson_def)
  have r: "CardLabelResponse (Some (JObj [(''item'', cardLabel_json ''CL1'' ''C1'' ''LB1'')]))
             = Some (demo_cardLabel ''CL1'' ''C1'' ''LB1'')"
    by (simp add: CardLabelResponse_def SingleItemResponse_def CardLabelSchema_demo z_optional_def z_record_any_def)
  have a: "addLabelToCard ?E (JObj [(''cardId'', JStr ''C1''), (''labelId'', JStr ''LB1'')]) ?s2
     = (Inr (demo_cardLabel ''CL1'' ''C1'' ''LB1''), ?s3)"
    unfolding addLabelToCard_unfold using p by (simp add: bind_def add_body_def zod_parse_def r return_def)
  have st: "add_label_step ?E ''C1'' ''LB1'' ?s2 = (Inr (), ?s3)"
    unfolding add_label_step_unfold by (simp add: a)
  show ?thesis
    by (simp add: setCardLabels_def or_empty_def bind_def return_def rem st)
qed

lemma label_attached_after:
  "label_attached [demo_req ''GET'' ''/api/cards/C1'' None,
                   demo_req ''DELETE'' ''/api/card-labels/CL1'' None,
                   demo_req ''POST'' ''/api/cards/C1/card-labels'' (Some (add_body ''LB1''))]"
  by (simp add: label_attached_def demo_req_sel)

text \<open>
  Every run of \<^verbatim>\<open>setCardLabels\<close> has two phases. The first runs \<^verbatim>\<open>removeLabelFromCard\<close> over
  \<^verbatim>\<open>removeLabelIds\<close> and sends only GET and DELETE requests; the second sends only POSTs of
  labels of \<^verbatim>\<open>addLabelIds\<close> to the card's label collection, and all of them come after all
  requests of the first phase. If a removal fails the run stops with that error and nothing
  is added. In the second phase, an addition whose error message contains \<^verbatim>\<open>already\<close> is
  passed over and the loop goes on with the remaining labels; an addition failing with any
  other message ends the run with that very error.
\<close>

lemma setCardLabels_phases:
  assumes "setCardLabels E cardId addLabelIds removeLabelIds s = (res, s')"
  shows "\<exists>r1 s1.
      for_each (\<lambda>labelId. removeLabelFromCard E cardId labelId) (or_empty removeLabelIds) s = (r1, s1)
    \<and> sends_only (\<lambda>m p b. m = ''GET'' \<or> m = ''DELETE'') s s1
    \<and> sends_only (\<lambda>m p b. m = ''POST'' \<and> p = ''/api/cards/'' @ cardId @ ''/card-labels''
          \<and> (\<exists>l\<in>set (or_empty addLabelIds). b = Some (JObj [(''labelId'', JStr l)]))) s1 s'
    \<and> ((\<exists>e. r1 = Inl e) \<longrightarrow> res = r1 \<and> s' = s1)
    \<and> (r1 = Inr () \<longrightarrow>
         (\<forall>pre l post sa e sb.
             or_empty addLabelIds = pre @ l # post
           \<and> for_each (add_label_step E cardId) pre s1 = (Inr (), sa)
           \<and> addLabelToCard E (JObj [(''cardId'', JStr cardId), (''labelId'', JStr l)]) sa = (Inl e, sb) \<longrightarrow>
             (str_includes (message_of e) ''already'' \<longrightarrow>
                (res, s') = for_each (add_label_step E cardId) post sb)
           \<and> (\<not> str_includes (message_of e) ''already'' \<longrightarrow> res = Inl e \<and> s' = sb)))
    \<and> (res = Inr () \<longrightarrow>
         (\<forall>l\<in>set (or_empty addLabelIds). \<exists>sa ra sb.
              prefix (sent s1) (sent sa) \<and> prefix (sent sb) (sent s')
            \<and> addLabelToCard E (JObj [(''cardId'', JStr cardId), (''labelId'', JStr l)]) sa = (ra, sb)
            \<and> (\<forall>e. ra = Inl e \<longrightarrow> str_includes (message_of e) ''already'')))"
proof -
  let ?rem = "for_each (\<lambda>labelId. removeLabelFromCard E cardId labelId) (or_empty removeLabelIds)"
  let ?add = "for_each (add_label_step E cardId)"
  let ?A = "\<lambda>m p b. m = ''POST'' \<and> p = ''/api/cards/'' @ cardId @ ''/card-labels''
          \<and> (\<exists>l\<in>set (or_empty addLabelIds). b = Some (JObj [(''labelId'', JStr l)]))"
  obtain r1 s1 where rem: "?rem s = (r1, s1)" by (cases "?rem s")
  have def: "setCardLabels E cardId addLabelIds removeLabelIds s
      = (case r1 of Inl e \<Rightarrow> (Inl e, s1) | Inr u \<Rightarrow> ?add (or_empty addLabelIds) s1)"
    using rem by (simp add: setCardLabels_def bind_def split: sum.splits)
  have rs: "sends_only (\<lambda>m p b. m = ''GET'' \<or> m = ''DELETE'') s s1"
    using rem by (rule for_each_sends[rotated]) (rule removeLabelFromCard_sends)
  have adds_sub: "sends_only ?A sa sb" if "?add xs sa = (r, sb)" "set xs \<subseteq> set (or_empty addLabelIds)"
    for xs sa r sb
    using that
  proof (induction xs arbitrary: sa)
    case Nil
    then show ?case by (simp add: return_def)
  next
    case (Cons x xs)
    obtain r2 s2 where st: "add_label_step E cardId x sa = (r2, s2)"
      by (cases "add_label_step E cardId x sa")
    have x: "x \<in> set (or_empty addLabelIds)" using Cons.prems(2) by simp
    have one: "sends_only ?A sa s2"
    proof (rule sends_only_mono[OF add_label_step_sends[OF st]])
      fix m p b
      assume "m = ''POST'' \<and> p = ''/api/cards/'' @ cardId @ ''/card-labels''
            \<and> b = Some (JObj [(''labelId'', JStr x)])"
      with x show "m = ''POST'' \<and> p = ''/api/cards/'' @ cardId @ ''/card-labels''
          \<and> (\<exists>l\<in>set (or_empty addLabelIds). b = Some (JObj [(''labelId'', JStr l)]))"
        by (intro conjI bexI[of _ x]) simp_all
    qed
    show ?case
    proof (cases r2)
      case (Inl e)
      then have "sb = s2" using Cons.prems(1) st by (simp add: bind_def)
      with one show ?thesis by simp
    next
      case (Inr u)
      then have "?add xs s2 = (r, sb)" using Cons.prems(1) st by (simp add: bind_def)
      moreover have "set xs \<subseteq> set (or_empty addLabelIds)" using Cons.prems(2) by simp
      ultimately have "sends_only ?A s2 sb" by (rule Cons.IH)
      with one show ?thesis by (rule sends_only_trans)
    qed
  qed
  have as: "sends_only ?A s1 s'"
  proof (cases r1)
    case (Inl e)
    then have "s' = s1" using def assms by simp
    then show ?thesis by simp
  next
    case (Inr u)
    then have "?add (or_empty addLabelIds) s1 = (res, s')" using def assms by simp
    then show ?thesis by (rule adds_sub) simp
  qed
  have fail: "(\<exists>e. r1 = Inl e) \<longrightarrow> res = r1 \<and> s' = s1"
    using def assms by auto
  have split: "r1 = Inr () \<longrightarrow>
         (\<forall>pre l post sa e sb.
             or_empty addLabelIds = pre @ l # post
           \<and> ?add pre s1 = (Inr (), sa)
           \<and> addLabelToCard E (JObj [(''cardId'', JStr cardId), (''labelId'', JStr l)]) sa = (Inl e, sb) \<longrightarrow>
             (str_includes (message_of e) ''already'' \<longrightarrow> (res, s') = ?add post sb)
           \<and> (\<not> str_includes (message_of e) ''already'' \<longrightarrow> res = Inl e \<and> s' = sb))"
  proof (intro impI allI)
    fix pre l post sa e sb
    assume r: "r1 = Inr ()"
    assume h: "or_empty addLabelIds = pre @ l # post
           \<and> ?add pre s1 = (Inr (), sa)
           \<and> addLabelToCard E (JObj [(''cardId'', JStr cardId), (''labelId'', JStr l)]) sa = (Inl e, sb)"
    have "(res, s') = ?add (pre @ l # post) s1" using def assms r h by simp
    also have "\<dots> = ?add (l # post) sa" using h by (simp add: for_each_append)
    also have "\<dots> = (if str_includes (message_of e) ''already'' then ?add post sb else (Inl e, sb))"
      using h by (simp add: bind_def add_label_step_unfold)
    finally show "(str_includes (message_of e) ''already'' \<longrightarrow> (res, s') = ?add post sb)
           \<and> (\<not> str_includes (message_of e) ''already'' \<longrightarrow> res = Inl e \<and> s' = sb)"
      by (auto split: if_splits)
  qed
  have net: "res = Inr () \<longrightarrow>
         (\<forall>l\<in>set (or_empty addLabelIds). \<exists>sa ra sb.
              prefix (sent s1) (sent sa) \<and> prefix (sent sb) (sent s')
            \<and> addLabelToCard E (JObj [(''cardId'', JStr cardId), (''labelId'', JStr l)]) sa = (ra, sb)
            \<and> (\<forall>e. ra = Inl e \<longrightarrow> str_includes (message_of e) ''already''))"
  proof (intro impI ballI)
    fix l assume ok: "res = Inr ()" and l: "l \<in> set (or_empty addLabelIds)"
    have r: "r1 = Inr ()" using def assms ok by (cases r1) auto
    then have a: "?add (or_empty addLabelIds) s1 = (Inr (), s')" using def assms ok by simp
    have mono: "prefix (sent s) (sent s')" if "add_label_step E cardId x s = (r, s')" for x s r s'
      using add_label_step_sends[OF that] by (rule sends_only_prefix)
    have "prefix (sent s1) (sent s')
       \<and> (\<forall>x\<in>set (or_empty addLabelIds). \<exists>sa sb. prefix (sent s1) (sent sa) \<and> prefix (sent sb) (sent s')
              \<and> add_label_step E cardId x sa = (Inr (), sb))"
      by (rule for_each_each[of "add_label_step E cardId", OF _ a]) (rule mono)
    with l obtain sa sb where ab: "prefix (sent s1) (sent sa)" "prefix (sent sb) (sent s')"
      "add_label_step E cardId l sa = (Inr (), sb)" by blast
    obtain ra sb' where al: "addLabelToCard E (JObj [(''cardId'', JStr cardId), (''labelId'', JStr l)]) sa = (ra, sb')"
      by (cases "addLabelToCard E (JObj [(''cardId'', JStr cardId), (''labelId'', JStr l)]) sa")
    from ab(3) al have "sb' = sb \<and> (\<forall>e. ra = Inl e \<longrightarrow> str_includes (message_of e) ''already'')"
      unfolding add_label_step_unfold by (cases ra) (auto split: if_splits)
    with ab al show "\<exists>sa ra sb.
              prefix (sent s1) (sent sa) \<and> prefix (sent sb) (sent s')
            \<and> addLabelToCard E (JObj [(''cardId'', JStr cardId), (''labelId'', JStr l)]) sa = (ra, sb)
            \<and> (\<forall>e. ra = Inl e \<longrightarrow> str_includes (message_of e) ''already'')"
      by (intro exI[of _ sa] exI[of _ ra] exI[of _ sb]) simp
  qed
  show ?thesis
    by (rule exI[of _ r1], rule exI[of _ s1], intro conjI;
        (fact rem | fact rs | fact as | fact fail | fact split | fact net))
qed

text \<open>
  Claim C6. The claim is that an addition which fails because the label is already attached
  counts as a success, while any other failure of an addition is the error of the call. The
  code does not do this for a failure of another kind whose message contains the word
  \<^verbatim>\<open>already\<close>. Card \<^verbatim>\<open>C9\<close> is on an archived board and the label is not attached to it: the
  POST that adds the label is answered 403 with the message "Board already archived", so
  \<^verbatim>\<open>addLabelToCard\<close> fails with a permission error, and yet
  \<^verbatim>\<open>setCardLabels("C9", ["LB1"])\<close> returns normally, having sent that one POST; the label is
  not on the card afterwards.
\<close>

theorem setCardLabels_swallows_failure_mentioning_already:
  "srv_labels [] (demo_req ''POST'' ''/api/cards/C9/card-labels'' (Some (add_body ''LB1'')))
     = (Resp 403 ''Forbidden'' (Json (JObj [(''message'', JStr ''Board already archived'')])), 5)
   \<and> addLabelToCard (demo_env srv_labels) (JObj [(''cardId'', JStr ''C9''), (''labelId'', JStr ''LB1'')]) logged_in
     = (Inl (PlankaPermissionError ''Board already archived (POST /api/cards/C9/card-labels)''),
        logged_in_at 1010 [demo_req ''POST'' ''/api/cards/C9/card-labels'' (Some (add_body ''LB1''))])
   \<and> setCardLabels (demo_env srv_labels) ''C9'' (Some [''LB1'']) None logged_in
     = (Inr (), logged_in_at 1010 [demo_req ''POST'' ''/api/cards/C9/card-labels'' (Some (add_body ''LB1''))])"
proof (intro conjI)
  show "srv_labels [] (demo_req ''POST'' ''/api/cards/C9/card-labels'' (Some (add_body ''LB1'')))
     = (Resp 403 ''Forbidden'' (Json (JObj [(''message'', JStr ''Board already archived'')])), 5)"
    by (rule srv_labels_add_archived)
  show "addLabelToCard (demo_env srv_labels) (JObj [(''cardId'', JStr ''C9''), (''labelId'', JStr ''LB1'')]) logged_in
     = (Inl (PlankaPermissionError ''Board already archived (POST /api/cards/C9/card-labels)''),
        logged_in_at 1010 [demo_req ''POST'' ''/api/cards/C9/card-labels'' (Some (add_body ''LB1''))])"
    by (rule addLabelToCard_archived)
  have "add_label_step (demo_env srv_labels) ''C9'' ''LB1'' logged_in
     = (Inr (), logged_in_at 1010 [demo_req ''POST'' ''/api/cards/C9/card-labels'' (Some (add_body ''LB1''))])"
    unfolding add_label_step_unfold by (simp add: addLabelToCard_archived)
  then show "setCardLabels (demo_env srv_labels) ''C9'' (Some [''LB1'']) None logged_in
     = (Inr (), logged_in_at 1010 [demo_req ''POST'' ''/api/cards/C9/card-labels'' (Some (add_body ''LB1''))])"
    by (simp add: setCardLabels_def or_empty_def bind_def return_def)
qed

end
